theory Spec2Isabelle
  imports Complex_Main "HOL-Library.Char_ord" "HOL-Library.List_Lexorder" "HOL-Library.Log_Nat"
begin

section \<open>The funding-catalog dashboard: web/js/main.js\<close>

text \<open>
  The script \<^verbatim>\<open>web/js/main.js\<close> loads thirteen JSON documents, keeps them in
  \<^verbatim>\<open>globalData\<close>, and builds charts, a keyword cloud, a table and a drill-down
  modal from them. The embedding follows the script function by function and keeps its
  names. What the script does beyond computing values is explicit:
  \<^item> the page (elements, texts, replaced markup, the \<^verbatim>\<open>charts\<close> object, the modal,
    the console and the network requests) is a record that every function takes and
    returns;
  \<^item> a thrown \<^verbatim>\<open>TypeError\<close> is the outcome \<open>Throw\<close>, which carries the page as it
    was when the exception left the function;
  \<^item> what belongs to the JavaScript engine and its locale data rather than to the script
    (\<^verbatim>\<open>Intl.NumberFormat\<close>, \<^verbatim>\<open>Number.prototype.toString\<close>, \<^verbatim>\<open>Date\<close>) is a
    parameter of type \<open>builtins\<close>.
\<close>

subsection \<open>Numbers and strings\<close>

text \<open>
  A JavaScript number is a binary64 floating-point number. A finite one is modelled by
  the rational it denotes, and the numbers of a JSON document are finite. Comparisons are
  exact. Where the script divides, the quotient is the binary64 number nearest to the
  exact quotient, an infinity when that is out of range, and an infinity or \<^verbatim>\<open>NaN\<close>
  when the divisor is zero: this is \<open>fdiv\<close>. The script subtracts only from a count
  and from years (lines 165, 401, 403 and 488) and adds one to an index (line 1383), all
  integers far below \<open>2\<^sup>5\<^sup>3\<close>, on which binary64 arithmetic is exact, and it orders the
  states by the sign of a difference (line 298), which is exact as well; these are
  written with the operations of the rationals.

  A string is a list of characters, one per UTF-16 code unit, so that \<open>length\<close> is
  JavaScript's \<^verbatim>\<open>.length\<close>. The only character outside Latin-1 that the script itself
  writes is the euro sign; \<open>euro\<close> stands for it (one character, its Windows-1252 code).
\<close>

type_synonym number = rat

definition euro :: string where
  "euro = [CHR 0x80]"

definition quote :: string where
  "quote = [CHR 0x27]"

datatype nonfinite = NaN | PosInfinity | NegInfinity

datatype fp = Finite number | NonFinite nonfinite

text \<open>
  Rounding to binary64 (IEEE 754, round to nearest, ties to even): a number other than
  zero is scaled by the power of two that brings its magnitude into \<open>[2\<^sup>5\<^sup>2, 2\<^sup>5\<^sup>3)\<close>, or by
  \<open>2\<^sup>1\<^sup>0\<^sup>7\<^sup>4\<close> in the subnormal range, rounded to an integer there, and scaled back; a
  result of magnitude \<open>2\<^sup>1\<^sup>0\<^sup>2\<^sup>4\<close> is an infinity. Both zeros are the one zero of the
  rationals.
\<close>

definition half_even :: "rat \<Rightarrow> int" where
  \<comment> \<open>the nearest integer, the even one of two\<close>
  "half_even y =
     (let n = \<lfloor>y\<rfloor>; r = y - of_int n
      in if r < 1 / 2 then n else if 1 / 2 < r then n + 1 else if even n then n else n + 1)"

definition binade :: "rat \<Rightarrow> int" where
  \<comment> \<open>for a positive \<open>a\<close>, the exponent \<open>k\<close> with \<open>2\<^sup>k \<le> a < 2\<^sup>k\<^sup>+\<^sup>1\<close>\<close>
  "binade a =
     (case quotient_of a of (p, q) \<Rightarrow>
        let k = bitlen p - bitlen q in if 2 powi k \<le> a then k else k - 1)"

definition round_double :: "rat \<Rightarrow> fp" where
  "round_double x =
     (if x = 0 then Finite 0
      else
        let a = \<bar>x\<bar>;
            e = max (binade a - 52) (- 1074);
            y = of_int (half_even (a / 2 powi e)) * 2 powi e
        in if 2 powi 1024 \<le> y then NonFinite (if 0 < x then PosInfinity else NegInfinity)
           else Finite (if 0 < x then y else - y))"

definition fdiv :: "number \<Rightarrow> number \<Rightarrow> fp" where
  \<comment> \<open>\<^verbatim>\<open>a / b\<close>\<close>
  "fdiv a b =
     (if b = 0 then NonFinite (if a = 0 then NaN else if 0 < a then PosInfinity else NegInfinity)
      else round_double (a / b))"

record builtins =
  nf_currency :: "number \<Rightarrow> string"
    \<comment> \<open>\<^verbatim>\<open>new Intl.NumberFormat('de-DE', {style: 'currency', currency: 'EUR',
        minimumFractionDigits: 0, maximumFractionDigits: 0}).format\<close>\<close>
  nf_currency_nonfinite :: "nonfinite \<Rightarrow> string"
    \<comment> \<open>the same formatter on a value that is not finite\<close>
  nf_plain :: "number \<Rightarrow> string"
    \<comment> \<open>\<^verbatim>\<open>new Intl.NumberFormat('de-DE').format\<close>\<close>
  nf_plain_nonfinite :: "nonfinite \<Rightarrow> string"
    \<comment> \<open>the same formatter on a value that is not finite; \<^verbatim>\<open>undefined\<close> is
        formatted as \<^verbatim>\<open>NaN\<close>\<close>
  nf_compact :: "number \<Rightarrow> string"
    \<comment> \<open>\<^verbatim>\<open>new Intl.NumberFormat('de-DE', {notation: 'compact', compactDisplay: 'short'}).format\<close>\<close>
  num_text :: "number \<Rightarrow> string"
    \<comment> \<open>\<^verbatim>\<open>Number.prototype.toString\<close>, as used by template literals\<close>
  date_text :: "string \<Rightarrow> string"
    \<comment> \<open>lines 171-178: \<^verbatim>\<open>new Date(s)\<close> rendered as "10. December 2025 at 11:44"\<close>

text \<open>Decimal digits of a natural number, most significant first.\<close>

definition digit_char :: "nat \<Rightarrow> char" where
  "digit_char d = ''0123456789'' ! (d mod 10)"

function digits :: "nat \<Rightarrow> string" where
  "digits n = (if n < 10 then [digit_char n] else digits (n div 10) @ [digit_char n])"
  by pat_completeness auto
termination
  by (relation "measure id") auto

declare digits.simps [simp del]

text \<open>
  \<^verbatim>\<open>Number.prototype.toFixed(f)\<close> after ECMAScript: a value that is not finite is
  printed by \<^verbatim>\<open>Number.prototype.toString\<close>; otherwise the sign is split off; a
  magnitude of at least \<open>10\<^sup>2\<^sup>1\<close> is printed by \<^verbatim>\<open>Number.prototype.toString\<close> as well;
  otherwise \<open>n\<close> is the integer nearest to \<open>x * 10\<^sup>f\<close> (the larger one of two), printed
  with \<open>f\<close> digits after the point and at least one before it.
\<close>

definition nearest :: "nat \<Rightarrow> number \<Rightarrow> nat" where
  "nearest f a = nat \<lfloor>a * 10 ^ f + 1 / 2\<rfloor>"

definition nonfinite_text :: "nonfinite \<Rightarrow> string" where
  \<comment> \<open>\<^verbatim>\<open>Number.prototype.toString\<close> of a value that is not finite\<close>
  "nonfinite_text n =
     (case n of NaN \<Rightarrow> ''NaN'' | PosInfinity \<Rightarrow> ''Infinity'' | NegInfinity \<Rightarrow> ''-Infinity'')"

definition toFixed :: "builtins \<Rightarrow> nat \<Rightarrow> fp \<Rightarrow> string" where
  "toFixed B f r =
     (case r of
        NonFinite n \<Rightarrow> nonfinite_text n
      | Finite x \<Rightarrow>
          let s = (if x < 0 then ''-'' else '''');
              a = \<bar>x\<bar>
          in if 10 ^ 21 \<le> a then s @ num_text B a
             else
               let m = digits (nearest f a)
               in if f = 0 then s @ m
                  else
                    let m' = (if length m \<le> f then replicate (f + 1 - length m) (CHR ''0'') @ m
                              else m);
                        k = length m'
                    in s @ take (k - f) m' @ ''.'' @ drop (k - f) m')"

subsection \<open>Utility functions (lines 48-72, 1427-1430)\<close>

definition formatCurrency :: "builtins \<Rightarrow> number \<Rightarrow> bool \<Rightarrow> string" where
  "formatCurrency B v cmpct =
     (if cmpct then
        (if 10 ^ 12 \<le> v then euro @ toFixed B 1 (fdiv v (10 ^ 12)) @ ''T''
         else if 10 ^ 9 \<le> v then euro @ toFixed B 1 (fdiv v (10 ^ 9)) @ ''B''
         else if 10 ^ 6 \<le> v then euro @ toFixed B 1 (fdiv v (10 ^ 6)) @ ''M''
         else if 10 ^ 3 \<le> v then euro @ toFixed B 0 (fdiv v (10 ^ 3)) @ ''K''
         else euro @ toFixed B 0 (Finite v))
      else nf_currency B v)"

definition formatNumber :: "builtins \<Rightarrow> number \<Rightarrow> bool \<Rightarrow> string" where
  "formatNumber B v cmpct =
     (if cmpct \<and> 1000 \<le> v then nf_compact B v else nf_plain B v)"

subsection \<open>JSON values and rows\<close>

text \<open>
  The output documents are typed by their contract (numeric fields are plain numbers):
  a row the script computes with, or whose name it uses as a look-up key, is a record
  with the fields the script reads. A row whose fields the script only copies into a
  chart is kept as the parsed JSON object: its properties, one pair per property, with
  scalar values. Reading a property that the object does not have gives \<open>Undefined\<close>.
  Chart labels and series hold such values.
\<close>

datatype jsval = Undefined | Null | Bool bool | Num number | Str string

type_synonym row = "(string \<times> jsval) list"

definition get :: "row \<Rightarrow> string \<Rightarrow> jsval" where
  \<comment> \<open>\<^verbatim>\<open>d.k\<close>\<close>
  "get d k = (case map_of d k of None \<Rightarrow> Undefined | Some v \<Rightarrow> v)"

fun truthy :: "jsval \<Rightarrow> bool" where
  "truthy Undefined = False"
| "truthy Null = False"
| "truthy (Bool b) = b"
| "truthy (Num x) = (x \<noteq> 0)"
| "truthy (Str s) = (s \<noteq> [])"

definition or_else :: "jsval \<Rightarrow> jsval \<Rightarrow> jsval" where
  \<comment> \<open>\<^verbatim>\<open>a || b\<close>\<close>
  "or_else a b = (if truthy a then a else b)"

fun to_string :: "builtins \<Rightarrow> jsval \<Rightarrow> string" where
  \<comment> \<open>a value inside a template literal\<close>
  "to_string B Undefined = ''undefined''"
| "to_string B Null = ''null''"
| "to_string B (Bool b) = (if b then ''true'' else ''false'')"
| "to_string B (Num x) = num_text B x"
| "to_string B (Str s) = s"

definition truncateLabel :: "jsval \<Rightarrow> nat \<Rightarrow> jsval" where
  \<comment> \<open>lines 1427-1430; \<^verbatim>\<open>label.length\<close> of a number or boolean is \<^verbatim>\<open>undefined\<close>,
      which is not greater than \<open>maxLength\<close>\<close>
  "truncateLabel label maxLength =
     (if \<not> truthy label then Str ''''
      else case label of
             Str s \<Rightarrow> (if length s > maxLength then Str (take maxLength s @ ''...'') else label)
           | _ \<Rightarrow> label)"

subsection \<open>Charts\<close>

text \<open>
  Of a \<^verbatim>\<open>new Chart(ctx, config)\<close> the model keeps the canvas, the chart type, the
  labels and, per dataset, its label and its data. Colours, scales and the tooltip and
  tick callbacks that Chart.js calls later are presentation and are left out.
\<close>

record dataset =
  ds_label :: jsval
  ds_data :: "jsval list"

record chart =
  canvas :: string
  chart_type :: string
  labels :: "jsval list"
  datasets :: "dataset list"

subsection \<open>The thirteen documents\<close>

record highlights_t =
  avg_project_funding :: number

record summary_stats =
  total_funding :: number
  total_projects :: number
  unique_recipients :: number
  highlights :: highlights_t
  generated_at :: string

record ministry_funding =
  ministries :: "row list"

record international_t =
  countries :: "row list option"

record state_row =
  name :: string
  total_funding :: number
  per_capita_funding :: "number option"

record city_row =
  city :: string
  total_funding :: number

record geographic_distribution =
  international :: "international_t option"
  states :: "state_row list"
  top_cities :: "city_row list"

record year_row =
  year :: number
  total_funding :: number
  project_count :: number

record temporal_trends =
  yearly_totals :: "year_row list"
  monthly_distribution :: "row list option"
  decade_ministry_share :: "(string \<times> row list) list option"
    \<comment> \<open>an object: its properties in the order JavaScript enumerates them\<close>

record recipient_row =
  name :: string
  total_funding :: number
  project_count :: number
  avg_funding :: "number option"

record top_recipients =
  top_by_funding :: "recipient_row list"
  top_by_count :: "recipient_row list"

record keyword_row =
  word :: string
  count :: number

record topic_analysis =
  classifications :: "row list"
  keywords' :: "keyword_row list"

record duration_analysis =
  distribution :: "row list"

record funding_types_t =
  funding_types :: "row list"
  funding_profiles :: "row list"

record joint_projects =
  summary :: row

record projekttraeger_t =
  projekttraeger :: "row list"

record trend =
  total_projects :: number
  total_funding :: number
  yearly :: "row list option"
  state :: "string option"

record keyword_trends =
  keywords' :: "(string \<rightharpoonup> trend) option"

record entity_trends =
  states :: "(string \<rightharpoonup> trend) option"
  cities :: "(string \<rightharpoonup> trend) option"
  recipients :: "(string \<rightharpoonup> trend) option"

record funding_forecast =
  current_year :: number
  forecast :: "row list"

text \<open>The global \<^verbatim>\<open>globalData\<close> (lines 106-120).\<close>

record globalData =
  summary :: summary_stats
  ministry :: ministry_funding
  geographic :: geographic_distribution
  temporal :: temporal_trends
  recipients :: top_recipients
  topics :: topic_analysis
  duration :: duration_analysis
  fundingTypes :: funding_types_t
  jointProjects :: joint_projects
  projekttraeger :: projekttraeger_t
  keywordTrends :: "keyword_trends option"
  entityTrends :: "entity_trends option"
  forecast :: funding_forecast

subsection \<open>The page\<close>

text \<open>
  \<open>present\<close> holds the ids and selectors that resolve to an element; the static page
  \<^verbatim>\<open>index.html\<close> decides it. \<^verbatim>\<open>document.getElementById\<close> of an absent id is
  \<^verbatim>\<open>null\<close>, and the script dereferences every element it looks up at once, so an absent
  element is a \<^verbatim>\<open>TypeError\<close>.
\<close>

datatype error = TypeError

datatype console_entry = Log "string list" | Error "string list"

record keyword_tag =
  size_class :: string
  tag_onclick :: "string option"
  cursor_default :: bool
  tag_title :: string
  tag_text :: string

record table_row =
  clickable_row :: bool
  row_onclick :: "string option"
  row_title :: string
  cells :: "string list"

datatype markup =
    Html string
  | ErrorLoadingData
  | KeywordTags "keyword_tag list"
  | TableRows "table_row list"

record page =
  present :: "string set"
  textContent :: "string \<rightharpoonup> string"
  innerHTML :: "string \<rightharpoonup> markup"
  charts :: "string \<rightharpoonup> chart"
  drilldownChart :: "chart option"
  modal_display :: string
  console :: "console_entry list"
  requests :: "string list"
  listening :: bool

datatype outcome = Return page | Throw error page

definition and_then :: "outcome \<Rightarrow> (page \<Rightarrow> outcome) \<Rightarrow> outcome" where
  "and_then r f = (case r of Return p \<Rightarrow> f p | Throw e p \<Rightarrow> Throw e p)"

definition page_of :: "outcome \<Rightarrow> page" where
  "page_of r = (case r of Return p \<Rightarrow> p | Throw e p \<Rightarrow> p)"

definition set_text :: "string \<Rightarrow> string \<Rightarrow> page \<Rightarrow> outcome" where
  \<comment> \<open>\<^verbatim>\<open>document.getElementById(id).textContent = s\<close>\<close>
  "set_text i s p =
     (if i \<in> present p then Return (p\<lparr>textContent := (textContent p)(i \<mapsto> s)\<rparr>)
      else Throw TypeError p)"

definition new_chart :: "string \<Rightarrow> chart \<Rightarrow> page \<Rightarrow> page" where
  \<comment> \<open>\<^verbatim>\<open>charts.k = new Chart(ctx, ...)\<close>; where the script first destroys the chart
      that \<^verbatim>\<open>charts.k\<close> held, the new one takes its place\<close>
  "new_chart k c p = p\<lparr>charts := (charts p)(k \<mapsto> c)\<rparr>"

definition require :: "string \<Rightarrow> page \<Rightarrow> outcome" where
  \<comment> \<open>\<^verbatim>\<open>document.getElementById(i).getContext('2d')\<close> and other uses of an element\<close>
  "require i p = (if i \<in> present p then Return p else Throw TypeError p)"

definition run :: "(page \<Rightarrow> outcome) list \<Rightarrow> page \<Rightarrow> outcome" where
  \<comment> \<open>statements in sequence: the first exception ends the run\<close>
  "run fs p = foldl and_then (Return p) fs"

definition single :: "string \<Rightarrow> string \<Rightarrow> jsval list \<Rightarrow> jsval \<Rightarrow> jsval list \<Rightarrow> chart" where
  \<comment> \<open>a chart with one dataset\<close>
  "single cv ty ls dl ds =
     \<lparr>canvas = cv, chart_type = ty, labels = ls, datasets = [\<lparr>ds_label = dl, ds_data = ds\<rparr>]\<rparr>"

subsection \<open>Overview cards and time stamp (lines 159-181)\<close>

definition updateOverviewCards :: "builtins \<Rightarrow> globalData \<Rightarrow> page \<Rightarrow> outcome" where
  "updateOverviewCards B g p =
     (let s = summary g in
      run [set_text ''totalFunding'' (formatCurrency B (summary_stats.total_funding s) True),
           set_text ''totalProjects'' (formatNumber B (summary_stats.total_projects s) False),
           set_text ''uniqueRecipients'' (formatNumber B (unique_recipients s - 1) False @ ''+''),
           set_text ''avgFunding'' (formatCurrency B (avg_project_funding (highlights s)) True)] p)"

definition updateLastUpdate :: "builtins \<Rightarrow> globalData \<Rightarrow> page \<Rightarrow> outcome" where
  "updateLastUpdate B g p =
     (let formatted = date_text B (generated_at (summary g)) in
      run [set_text ''lastUpdate'' (''Updated: '' @ formatted),
           set_text ''footerUpdate'' formatted] p)"

subsection \<open>Ministry and international charts (lines 185-288)\<close>

definition createMinistryChart :: "globalData \<Rightarrow> page \<Rightarrow> outcome" where
  "createMinistryChart g p =
     and_then (require ''ministryChart'' p) (\<lambda>p.
       let data = ministries (ministry g) in
       Return (new_chart ''ministry''
         (single ''ministryChart'' ''bar'' (map (\<lambda>d. get d ''code'') data)
            (Str ''Total Funding'') (map (\<lambda>d. get d ''total_funding'') data)) p))"

definition no_international_message :: string where
  "no_international_message =
     ''<p style='' @ [CHR 0x22] @ ''text-align: center; color: #64748B; padding: 2rem;''
       @ [CHR 0x22] @ ''>No international funding data available</p>''"

definition no_international :: "page \<Rightarrow> outcome" where
  \<comment> \<open>lines 240-242: the markup of the canvas's parent is replaced, which removes the
      canvas from the page\<close>
  "no_international p =
     Return (p\<lparr>innerHTML := (innerHTML p)(''internationalChart.parentElement'' \<mapsto>
                  Html no_international_message),
              present := present p - {''internationalChart''}\<rparr>)"

definition createInternationalChart :: "globalData \<Rightarrow> page \<Rightarrow> outcome" where
  "createInternationalChart g p =
     and_then (require ''internationalChart'' p) (\<lambda>p.
       case international (geographic g) of
         None \<Rightarrow> no_international p
       | Some intlData \<Rightarrow>
           (case countries intlData of
              None \<Rightarrow> no_international p
            | Some cs \<Rightarrow>
                if length cs = 0 then no_international p
                else
                  let data = take 15 cs in
                  Return (new_chart ''international''
                    (single ''internationalChart'' ''bar'' (map (\<lambda>d. get d ''name'') data)
                       (Str ''Total Funding'') (map (\<lambda>d. get d ''total_funding'') data)) p)))"

subsection \<open>Drill-down modal (lines 1218-1346)\<close>

text \<open>
  The drill-down documents hold one object per kind of entity, with an entry under each
  name. \<^verbatim>\<open>obj[name]\<close> finds the object's own property of that name and, when it has
  none, the member of that name that every object inherits from
  \<^verbatim>\<open>Object.prototype\<close>: a function, or for \<^verbatim>\<open>__proto__\<close> the prototype itself.
  Such a value is truthy and has none of the fields of an entry.
\<close>

definition object_prototype :: "string list" where
  \<comment> \<open>the names of the members of \<^verbatim>\<open>Object.prototype\<close> (ECMAScript 20.1.3 and B.2.2)\<close>
  "object_prototype =
     [''constructor'', ''hasOwnProperty'', ''isPrototypeOf'', ''propertyIsEnumerable'',
      ''toLocaleString'', ''toString'', ''valueOf'', ''__proto__'', ''__defineGetter__'',
      ''__defineSetter__'', ''__lookupGetter__'', ''__lookupSetter__'']"

datatype 'a property = Own 'a | Inherited | Missing

definition property_of :: "(string \<rightharpoonup> 'a) \<Rightarrow> string \<Rightarrow> 'a property" where
  \<comment> \<open>\<^verbatim>\<open>obj[name]\<close>; \<open>Missing\<close> is \<^verbatim>\<open>undefined\<close>\<close>
  "property_of obj nm =
     (case obj nm of
        Some v \<Rightarrow> Own v
      | None \<Rightarrow> if nm \<in> set object_prototype then Inherited else Missing)"

definition keyword_lookup :: "globalData \<Rightarrow> string \<Rightarrow> trend property" where
  \<comment> \<open>\<^verbatim>\<open>globalData.keywordTrends?.keywords?.[name]\<close>\<close>
  "keyword_lookup g nm =
     (case keywordTrends g of
        None \<Rightarrow> Missing
      | Some k \<Rightarrow>
          (case keyword_trends.keywords' k of None \<Rightarrow> Missing | Some m \<Rightarrow> property_of m nm))"

definition entity_lookup ::
  "(entity_trends \<Rightarrow> (string \<rightharpoonup> trend) option) \<Rightarrow> globalData \<Rightarrow> string \<Rightarrow> trend property" where
  \<comment> \<open>\<^verbatim>\<open>globalData.entityTrends?.states?.[name]\<close>, and the same for cities and recipients\<close>
  "entity_lookup sel g nm =
     (case entityTrends g of
        None \<Rightarrow> Missing
      | Some e \<Rightarrow> (case sel e of None \<Rightarrow> Missing | Some m \<Rightarrow> property_of m nm))"

definition drilldown_data :: "globalData \<Rightarrow> string \<Rightarrow> string \<Rightarrow> trend property" where
  "drilldown_data g ty nm =
     (if ty = ''keyword'' then keyword_lookup g nm
      else if ty = ''state'' then entity_lookup entity_trends.states g nm
      else if ty = ''city'' then entity_lookup entity_trends.cities g nm
      else entity_lookup entity_trends.recipients g nm)"

definition drilldown_title :: "globalData \<Rightarrow> string \<Rightarrow> string \<Rightarrow> string" where
  "drilldown_title g ty nm =
     (if ty = ''keyword'' then [CHR 0x22] @ nm @ [CHR 0x22]
      else if ty = ''state'' then nm
      else if ty = ''city'' then
        nm @ (case entity_lookup entity_trends.cities g nm of
                Own d \<Rightarrow> (case trend.state d of
                             None \<Rightarrow> ''''
                           | Some s \<Rightarrow> if s = [] then '''' else '' ('' @ s @ '')'')
              | _ \<Rightarrow> '''')
      else if length nm > 50 then take 47 nm @ ''...'' else nm)"

definition drilldown_subtitle :: "string \<Rightarrow> string" where
  "drilldown_subtitle ty =
     (if ty = ''keyword'' then ''Projects containing this keyword (includes compound words)''
      else if ty = ''state'' then ''State funding trends over time''
      else if ty = ''city'' then ''City funding trends over time''
      else ''Recipient funding trends over time'')"

definition drilldown_chart :: "row list \<Rightarrow> chart" where
  \<comment> \<open>lines 1270-1294\<close>
  "drilldown_chart ys =
     \<lparr>canvas = ''drilldownChart'', chart_type = ''bar'',
      labels = map (\<lambda>d. get d ''year'') ys,
      datasets = [\<lparr>ds_label = Str (''Funding ('' @ euro @ '')''),
                    ds_data = map (\<lambda>d. get d ''funding'') ys\<rparr>,
                  \<lparr>ds_label = Str ''Projects'',
                    ds_data = map (\<lambda>d. get d ''projects'') ys\<rparr>]\<rparr>"

definition show_modal :: "page \<Rightarrow> outcome" where
  \<comment> \<open>\<^verbatim>\<open>document.getElementById('drilldownModal').style.display = 'flex'\<close>\<close>
  "show_modal p =
     (if ''drilldownModal'' \<in> present p then Return (p\<lparr>modal_display := ''flex''\<rparr>)
      else Throw TypeError p)"

definition build_drilldown :: "trend \<Rightarrow> page \<Rightarrow> outcome" where
  \<comment> \<open>lines 1263-1331: the previous chart is destroyed, the canvas is looked up, and
      \<^verbatim>\<open>data.yearly.map\<close> throws when the entry has no \<^verbatim>\<open>yearly\<close>\<close>
  "build_drilldown d p =
     and_then (require ''drilldownChart'' p) (\<lambda>p.
       case trend.yearly d of
         None \<Rightarrow> Throw TypeError p
       | Some ys \<Rightarrow> Return (p\<lparr>drilldownChart := Some (drilldown_chart ys)\<rparr>))"

definition showDrilldown :: "builtins \<Rightarrow> globalData \<Rightarrow> string \<Rightarrow> string \<Rightarrow> page \<Rightarrow> outcome" where
  \<comment> \<open>with an inherited member for \<^verbatim>\<open>data\<close>, \<^verbatim>\<open>data.total_projects\<close> and
      \<^verbatim>\<open>data.total_funding\<close> are \<^verbatim>\<open>undefined\<close>: \<^verbatim>\<open>formatNumber\<close> formats
      \<^verbatim>\<open>NaN\<close>, and in \<^verbatim>\<open>formatCurrency\<close> every comparison fails and
      \<^verbatim>\<open>value.toFixed(0)\<close> (line 54) is a \<^verbatim>\<open>TypeError\<close>\<close>
  "showDrilldown B g ty nm p =
     (if ty \<noteq> ''keyword'' \<and> ty \<noteq> ''state'' \<and> ty \<noteq> ''city'' \<and> ty \<noteq> ''recipient'' then
        Return (p\<lparr>console := console p @ [Error [''Unknown drilldown type:'', ty]]\<rparr>)
      else
        case drilldown_data g ty nm of
          Missing \<Rightarrow>
            Return (p\<lparr>console := console p @ [Error [''No trend data for '' @ ty @ '':'', nm]]\<rparr>)
        | Own d \<Rightarrow>
            run [set_text ''modalTitle'' (drilldown_title g ty nm),
                 set_text ''modalSubtitle'' (drilldown_subtitle ty),
                 set_text ''modalTotalProjects'' (formatNumber B (trend.total_projects d) False),
                 set_text ''modalTotalFunding'' (formatCurrency B (trend.total_funding d) True),
                 show_modal,
                 build_drilldown d] p
        | Inherited \<Rightarrow>
            run [set_text ''modalTitle'' (drilldown_title g ty nm),
                 set_text ''modalSubtitle'' (drilldown_subtitle ty),
                 set_text ''modalTotalProjects'' (nf_plain_nonfinite B NaN),
                 Throw TypeError] p)"

definition showKeywordTrends :: "builtins \<Rightarrow> globalData \<Rightarrow> string \<Rightarrow> page \<Rightarrow> outcome" where
  "showKeywordTrends B g keyword = showDrilldown B g ''keyword'' keyword"

definition showStateTrends :: "builtins \<Rightarrow> globalData \<Rightarrow> string \<Rightarrow> page \<Rightarrow> outcome" where
  "showStateTrends B g st = showDrilldown B g ''state'' st"

definition showCityTrends :: "builtins \<Rightarrow> globalData \<Rightarrow> string \<Rightarrow> page \<Rightarrow> outcome" where
  "showCityTrends B g c = showDrilldown B g ''city'' c"

definition showRecipientTrends :: "builtins \<Rightarrow> globalData \<Rightarrow> string \<Rightarrow> page \<Rightarrow> outcome" where
  "showRecipientTrends B g recipient = showDrilldown B g ''recipient'' recipient"

definition closeModal :: "page \<Rightarrow> outcome" where
  "closeModal p =
     (if ''drilldownModal'' \<in> present p then
        Return (p\<lparr>modal_display := ''none'', drilldownChart := None\<rparr>)
      else Throw TypeError p)"

subsection \<open>Geographic charts (lines 291-378, 1130-1188)\<close>

definition with_per_capita :: "state_row list \<Rightarrow> (state_row \<times> number) list" where
  \<comment> \<open>\<^verbatim>\<open>.filter(d => d.per_capita_funding)\<close>: the rows whose value is present and not
      zero, each with that value\<close>
  "with_per_capita ds =
     List.map_filter
       (\<lambda>d. case per_capita_funding d of
               None \<Rightarrow> None
             | Some x \<Rightarrow> if x \<noteq> 0 then Some (d, x) else None) ds"

definition geo_rows :: "globalData \<Rightarrow> string \<Rightarrow> (state_row \<times> jsval) list" where
  \<comment> \<open>the rows of the chart, each with its plotted value; \<^verbatim>\<open>Array.prototype.sort\<close> is
      stable, and so is \<open>sort_key\<close>\<close>
  "geo_rows g mode =
     (let rawData = take 16 (geographic_distribution.states (geographic g)) in
      if mode = ''percapita'' then
        map (\<lambda>(d, x). (d, Num x)) (sort_key (\<lambda>(d, x). - x) (with_per_capita rawData))
      else map (\<lambda>d. (d, Num (state_row.total_funding d))) rawData)"

definition createGeoChart :: "globalData \<Rightarrow> string \<Rightarrow> page \<Rightarrow> outcome" where
  "createGeoChart g mode p =
     and_then (require ''geoChart'' p) (\<lambda>p.
       let rows = geo_rows g mode;
           chartLabel = (if mode = ''percapita'' then ''Per Capita Funding ('' @ euro @ '')''
                         else ''Total Funding'')
       in Return (new_chart ''geo''
            (single ''geoChart'' ''bar'' (map (\<lambda>(d, v). Str (state_row.name d)) rows)
               (Str chartLabel) (map snd rows)) p))"

definition geoChart_onClick ::
  "builtins \<Rightarrow> globalData \<Rightarrow> string \<Rightarrow> nat list \<Rightarrow> page \<Rightarrow> outcome" where
  \<comment> \<open>lines 351-359; \<open>elements\<close> are the indices of the bars under the pointer\<close>
  "geoChart_onClick B g mode elements p =
     (if mode = ''total'' \<and> length elements > 0 then
        (let data = map fst (geo_rows g mode); i = hd elements in
         if i < length data then
           (let stateName = state_row.name (data ! i) in
            case entity_lookup entity_trends.states g stateName of
              Missing \<Rightarrow> Return p
            | _ \<Rightarrow> showStateTrends B g stateName p)
         else Throw TypeError p)
      else Return p)"

definition createCityChart :: "globalData \<Rightarrow> page \<Rightarrow> outcome" where
  "createCityChart g p =
     and_then (require ''cityChart'' p) (\<lambda>p.
       let data = take 15 (top_cities (geographic g)) in
       Return (new_chart ''city''
         (single ''cityChart'' ''bar'' (map (\<lambda>d. Str (city d)) data)
            (Str ''Funding'') (map (\<lambda>d. Num (city_row.total_funding d)) data)) p))"

definition cityChart_onClick ::
  "builtins \<Rightarrow> globalData \<Rightarrow> nat list \<Rightarrow> page \<Rightarrow> outcome" where
  \<comment> \<open>lines 1162-1169\<close>
  "cityChart_onClick B g elements p =
     (if length elements > 0 then
        (let data = take 15 (top_cities (geographic g)); i = hd elements in
         if i < length data then
           (let cityName = city (data ! i) in
            case entity_lookup entity_trends.cities g cityName of
              Missing \<Rightarrow> Return p
            | _ \<Rightarrow> showCityTrends B g cityName p)
         else Throw TypeError p)
      else Return p)"

subsection \<open>Temporal charts (lines 382-820)\<close>

definition currentYear :: number where
  \<comment> \<open>line 399: \<^verbatim>\<open>const currentYear = 2025; // December 2025\<close>\<close>
  "currentYear = 2025"

definition temporal_data :: "globalData \<Rightarrow> string \<Rightarrow> year_row list" where
  \<comment> \<open>lines 396-404\<close>
  "temporal_data g rng =
     (let data = yearly_totals (temporal g) in
      if rng = ''recent'' then filter (\<lambda>d. year d \<ge> currentYear - 20) data
      else if rng = ''decade'' then filter (\<lambda>d. year d \<ge> currentYear - 10) data
      else data)"

definition recentHistory :: "globalData \<Rightarrow> year_row list" where
  \<comment> \<open>lines 487-488, with \<^verbatim>\<open>forecast.current_year\<close> for the local \<^verbatim>\<open>currentYear\<close>\<close>
  "recentHistory g =
     filter (\<lambda>d. year d \<ge> current_year (forecast g) - 10 \<and> year d \<le> current_year (forecast g))
       (yearly_totals (temporal g))"

definition forecastData :: "globalData \<Rightarrow> row list" where
  "forecastData g = funding_forecast.forecast (forecast g)"

definition allYears :: "globalData \<Rightarrow> jsval list" where
  "allYears g =
     map (\<lambda>d. Num (year d)) (recentHistory g) @ map (\<lambda>d. get d ''year'') (forecastData g)"

definition historicalFunding :: "globalData \<Rightarrow> jsval list" where
  "historicalFunding g =
     map (\<lambda>d. Num (year_row.total_funding d)) (recentHistory g)
     @ map (\<lambda>d. Null) (forecastData g)"

definition lastHistoricalValue :: "globalData \<Rightarrow> number" where
  \<comment> \<open>\<^verbatim>\<open>recentHistory[recentHistory.length - 1]?.total_funding || 0\<close>\<close>
  "lastHistoricalValue g =
     (case recentHistory g of
        [] \<Rightarrow> 0
      | _ \<Rightarrow> (let v = year_row.total_funding (last (recentHistory g)) in
               if v \<noteq> 0 then v else 0))"

definition stitched :: "globalData \<Rightarrow> string \<Rightarrow> jsval list" where
  \<comment> \<open>lines 505-522, the same for the predicted, the upper and the lower series:
      \<^verbatim>\<open>[...recentHistory.slice(0, -1).map(() => null), lastHistoricalValue,
         ...forecastData.map(d => d.k)]\<close>\<close>
  "stitched g k =
     map (\<lambda>d. Null) (butlast (recentHistory g))
     @ [Num (lastHistoricalValue g)]
     @ map (\<lambda>d. get d k) (forecastData g)"

definition predictedFunding :: "globalData \<Rightarrow> jsval list" where
  "predictedFunding g = stitched g ''predicted_funding''"

definition upperBound :: "globalData \<Rightarrow> jsval list" where
  "upperBound g = stitched g ''upper_bound''"

definition lowerBound :: "globalData \<Rightarrow> jsval list" where
  "lowerBound g = stitched g ''lower_bound''"

definition approvedFunding :: "globalData \<Rightarrow> jsval list" where
  "approvedFunding g =
     map (\<lambda>d. Null) (recentHistory g)
     @ map (\<lambda>d. or_else (get d ''approved_funding'') Null) (forecastData g)"

definition forecast_chart :: "globalData \<Rightarrow> chart" where
  "forecast_chart g =
     \<lparr>canvas = ''temporalChart'', chart_type = ''line'', labels = allYears g,
      datasets =
        [\<lparr>ds_label = Str ''Historical Funding'', ds_data = historicalFunding g\<rparr>,
         \<lparr>ds_label = Str ''Forecast (Prophet ML)'', ds_data = predictedFunding g\<rparr>,
         \<lparr>ds_label = Str ''80% Confidence Upper'', ds_data = upperBound g\<rparr>,
         \<lparr>ds_label = Str ''80% Confidence Lower'', ds_data = lowerBound g\<rparr>,
         \<lparr>ds_label = Str ''Already Approved'', ds_data = approvedFunding g\<rparr>]\<rparr>"

definition createForecastChart :: "globalData \<Rightarrow> page \<Rightarrow> outcome" where
  \<comment> \<open>the caller has looked the canvas up and passes its context\<close>
  "createForecastChart g p = Return (new_chart ''temporal'' (forecast_chart g) p)"

definition createTemporalChart :: "globalData \<Rightarrow> string \<Rightarrow> page \<Rightarrow> outcome" where
  "createTemporalChart g rng p =
     and_then (require ''temporalChart'' p) (\<lambda>p.
       if rng = ''forecast'' then createForecastChart g p
       else
         let data = temporal_data g rng in
         Return (new_chart ''temporal''
           \<lparr>canvas = ''temporalChart'', chart_type = ''line'',
            labels = map (\<lambda>d. Num (year d)) data,
            datasets =
              [\<lparr>ds_label = Str (''Total Funding ('' @ euro @ '')''),
                ds_data = map (\<lambda>d. Num (year_row.total_funding d)) data\<rparr>,
               \<lparr>ds_label = Str ''Project Count'',
                ds_data = map (\<lambda>d. Num (year_row.project_count d)) data\<rparr>]\<rparr> p))"

definition createMonthlyChart :: "globalData \<Rightarrow> page \<Rightarrow> outcome" where
  "createMonthlyChart g p =
     and_then (require ''monthlyChart'' p) (\<lambda>p.
       let data = (case monthly_distribution (temporal g) of None \<Rightarrow> [] | Some ds \<Rightarrow> ds) in
       if length data = 0 then
         Return (p\<lparr>console := console p @ [Log [''No monthly data available'']]\<rparr>)
       else
         Return (new_chart ''monthly''
           \<lparr>canvas = ''monthlyChart'', chart_type = ''bar'',
            labels = map (\<lambda>d. get d ''month_name'') data,
            datasets =
              [\<lparr>ds_label = Str ''Projects'', ds_data = map (\<lambda>d. get d ''project_count'') data\<rparr>,
               \<lparr>ds_label = Str (''Funding ('' @ euro @ '')''),
                ds_data = map (\<lambda>d. get d ''total_funding'') data\<rparr>]\<rparr> p))"

definition add_to_set :: "'a list \<Rightarrow> 'a \<Rightarrow> 'a list" where
  \<comment> \<open>\<^verbatim>\<open>Set.prototype.add\<close>: a set keeps its members in the order of insertion\<close>
  "add_to_set s x = (if x \<in> set s then s else s @ [x])"

definition decadeData :: "globalData \<Rightarrow> (string \<times> row list) list" where
  "decadeData g = (case decade_ministry_share (temporal g) of None \<Rightarrow> [] | Some d \<Rightarrow> d)"

definition decades :: "globalData \<Rightarrow> string list" where
  \<comment> \<open>\<^verbatim>\<open>Object.keys(decadeData).sort()\<close>: by code units\<close>
  "decades g = sort (map fst (decadeData g))"

definition decade_ministries :: "globalData \<Rightarrow> jsval list" where
  \<comment> \<open>lines 761-765\<close>
  "decade_ministries g =
     foldl add_to_set [] (map (\<lambda>entry. get entry ''ministry'') (concat (map snd (decadeData g))))"

definition decade_cell :: "globalData \<Rightarrow> jsval \<Rightarrow> string \<Rightarrow> jsval" where
  \<comment> \<open>lines 779-783\<close>
  "decade_cell g ministry' decade =
     (let decadeInfo = (case map_of (decadeData g) decade of None \<Rightarrow> [] | Some es \<Rightarrow> es) in
      case find (\<lambda>m. get m ''ministry'' = ministry') decadeInfo of
        Some ministryInfo \<Rightarrow> get ministryInfo ''share_pct''
      | None \<Rightarrow> Num 0)"

definition createDecadeMinistryChart :: "globalData \<Rightarrow> page \<Rightarrow> outcome" where
  "createDecadeMinistryChart g p =
     and_then (require ''decadeMinistryChart'' p) (\<lambda>p.
       Return (new_chart ''decadeMinistry''
         \<lparr>canvas = ''decadeMinistryChart'', chart_type = ''bar'',
          labels = map (\<lambda>d. Str (d @ ''s'')) (decades g),
          datasets =
            map (\<lambda>ministry'.
                   \<lparr>ds_label = ministry',
                    ds_data = map (decade_cell g ministry') (decades g)\<rparr>)
              (decade_ministries g)\<rparr> p))"

subsection \<open>The remaining charts (lines 823-1127)\<close>

definition createRecipientChart :: "globalData \<Rightarrow> page \<Rightarrow> outcome" where
  "createRecipientChart g p =
     and_then (require ''recipientChart'' p) (\<lambda>p.
       let data = take 10 (top_by_funding (recipients g)) in
       Return (new_chart ''recipient''
         (single ''recipientChart'' ''bar''
            (map (\<lambda>d. truncateLabel (Str (recipient_row.name d)) 30) data)
            (Str ''Total Funding'') (map (\<lambda>d. Num (recipient_row.total_funding d)) data)) p))"

definition createFundingTypeChart :: "globalData \<Rightarrow> page \<Rightarrow> outcome" where
  "createFundingTypeChart g p =
     and_then (require ''fundingTypeChart'' p) (\<lambda>p.
       let data = take 5 (funding_types (fundingTypes g)) in
       Return (new_chart ''fundingType''
         (single ''fundingTypeChart'' ''doughnut''
            (map (\<lambda>d. truncateLabel (get d ''name'') 25) data)
            Undefined (map (\<lambda>d. get d ''total_funding'') data)) p))"

definition createDurationChart :: "globalData \<Rightarrow> page \<Rightarrow> outcome" where
  "createDurationChart g p =
     and_then (require ''durationChart'' p) (\<lambda>p.
       let data = distribution (duration g) in
       Return (new_chart ''duration''
         (single ''durationChart'' ''bar'' (map (\<lambda>d. get d ''range'') data)
            (Str ''Projects'') (map (\<lambda>d. get d ''count'') data)) p))"

definition createTopicChart :: "globalData \<Rightarrow> page \<Rightarrow> outcome" where
  "createTopicChart g p =
     and_then (require ''topicChart'' p) (\<lambda>p.
       let data = take 10 (classifications (topics g)) in
       Return (new_chart ''topic''
         (single ''topicChart'' ''bar''
            (map (\<lambda>d. truncateLabel (or_else (get d ''description'') (get d ''code'')) 40) data)
            (Str ''Funding'') (map (\<lambda>d. get d ''total_funding'') data)) p))"

definition createJointChart :: "globalData \<Rightarrow> page \<Rightarrow> outcome" where
  "createJointChart g p =
     and_then (require ''jointChart'' p) (\<lambda>p.
       let data = joint_projects.summary (jointProjects g) in
       Return (new_chart ''joint''
         (single ''jointChart'' ''pie''
            [Str ''Verbundprojekt (Joint)'', Str ''Individual Projects'']
            Undefined [get data ''joint_funding'', get data ''individual_funding'']) p))"

definition createProjekttraegerChart :: "globalData \<Rightarrow> page \<Rightarrow> outcome" where
  "createProjekttraegerChart g p =
     and_then (require ''projekttraegerChart'' p) (\<lambda>p.
       let data = take 12 (projekttraeger_t.projekttraeger (projekttraeger g)) in
       Return (new_chart ''projekttraeger''
         (single ''projekttraegerChart'' ''bar'' (map (\<lambda>d. get d ''code'') data)
            (Str ''Total Funding'') (map (\<lambda>d. get d ''total_funding'') data)) p))"

definition createFoerderprofilChart :: "globalData \<Rightarrow> page \<Rightarrow> outcome" where
  "createFoerderprofilChart g p =
     and_then (require ''foerderprofilChart'' p) (\<lambda>p.
       let data = take 6 (funding_profiles (fundingTypes g)) in
       Return (new_chart ''foerderprofil''
         (single ''foerderprofilChart'' ''doughnut''
            (map (\<lambda>d. truncateLabel (get d ''name'') 30) data)
            Undefined (map (\<lambda>d. get d ''total_funding'') data)) p))"

subsection \<open>Keyword cloud and recipients table (lines 1191-1213, 1365-1390)\<close>

text \<open>
  Both functions write markup. The model keeps, per tag and per table row, what the
  template fills in: the class, the \<^verbatim>\<open>onclick\<close> attribute (the JavaScript text that
  the browser runs on a click), the title and the texts.
\<close>

definition ratio_above :: "number \<Rightarrow> number \<Rightarrow> number \<Rightarrow> bool" where
  \<comment> \<open>\<^verbatim>\<open>count / maxCount > t\<close> for a decimal literal \<open>t\<close>: the quotient and the
      literal are binary64 numbers, and \<^verbatim>\<open>NaN\<close> is greater than nothing\<close>
  "ratio_above c m t =
     (case fdiv c m of
        Finite q \<Rightarrow> (case round_double t of Finite t' \<Rightarrow> t' < q | NonFinite _ \<Rightarrow> False)
      | NonFinite n \<Rightarrow> n = PosInfinity)"

definition keyword_tag_of :: "builtins \<Rightarrow> globalData \<Rightarrow> number \<Rightarrow> keyword_row \<Rightarrow> keyword_tag" where
  "keyword_tag_of B g maxCount keyword =
     (let sizeClass =
            (if ratio_above (count keyword) maxCount (7 / 10) then ''keyword-xlarge''
             else if ratio_above (count keyword) maxCount (4 / 10) then ''keyword-large''
             else if ratio_above (count keyword) maxCount (2 / 10) then ''keyword-medium''
             else ''keyword-small'');
          hasTrends = (keyword_lookup g (word keyword) \<noteq> Missing)
      in \<lparr>size_class = sizeClass,
          tag_onclick =
            (if hasTrends then Some (''showKeywordTrends('' @ quote @ word keyword @ quote @ '')'')
             else None),
          cursor_default = (\<not> hasTrends),
          tag_title =
            (if hasTrends then
               num_text B (count keyword) @ '' word matches - Click to see related projects''
             else num_text B (count keyword) @ '' word matches''),
          tag_text = word keyword\<rparr>)"

definition createKeywordsCloud :: "builtins \<Rightarrow> globalData \<Rightarrow> page \<Rightarrow> outcome" where
  \<comment> \<open>\<^verbatim>\<open>Math.max\<close> of no counts is \<^verbatim>\<open>-Infinity\<close>; no tag uses it then, and 0 stands
      for it\<close>
  "createKeywordsCloud B g p =
     (let keywords = take 50 (topic_analysis.keywords' (topics g));
          maxCount = (if keywords = [] then 0 else Max (set (map count keywords)))
      in and_then (require ''keywordsCloud'' p) (\<lambda>p.
           Return (p\<lparr>innerHTML := (innerHTML p)(''keywordsCloud'' \<mapsto>
                      KeywordTags (map (keyword_tag_of B g maxCount) keywords))\<rparr>)))"

definition escape_quotes :: "string \<Rightarrow> string" where
  \<comment> \<open>\<^verbatim>\<open>name.replace(/'/g, "\\'")\<close>: a backslash before every single quote\<close>
  "escape_quotes s = concat (map (\<lambda>c. if c = CHR 0x27 then [CHR 0x5C, CHR 0x27] else [c]) s)"

definition avg_cell :: "builtins \<Rightarrow> recipient_row \<Rightarrow> string" where
  \<comment> \<open>\<^verbatim>\<open>formatCurrency(recipient.avg_funding || recipient.total_funding /
      recipient.project_count)\<close>; the quotient need not be finite\<close>
  "avg_cell B r =
     (let quotient =
            (case fdiv (recipient_row.total_funding r) (recipient_row.project_count r) of
               Finite q \<Rightarrow> formatCurrency B q False
             | NonFinite n \<Rightarrow> nf_currency_nonfinite B n)
      in case avg_funding r of
           Some a \<Rightarrow> if a \<noteq> 0 then formatCurrency B a False else quotient
         | None \<Rightarrow> quotient)"

definition table_row_of :: "builtins \<Rightarrow> globalData \<Rightarrow> nat \<Rightarrow> recipient_row \<Rightarrow> table_row" where
  "table_row_of B g index recipient =
     (let hasTrends =
            (entity_lookup entity_trends.recipients g (recipient_row.name recipient) \<noteq> Missing)
      in \<lparr>clickable_row = hasTrends,
          row_onclick =
            (if hasTrends then
               Some (''showRecipientTrends('' @ quote
                     @ escape_quotes (recipient_row.name recipient) @ quote @ '')'')
             else None),
          row_title =
            (if hasTrends then ''Click to see funding trends'' else recipient_row.name recipient),
          cells =
            [num_text B (of_nat index + 1),
             to_string B (truncateLabel (Str (recipient_row.name recipient)) 50),
             formatCurrency B (recipient_row.total_funding recipient) False,
             formatNumber B (recipient_row.project_count recipient) False,
             avg_cell B recipient]\<rparr>)"

definition populateRecipientsTable :: "builtins \<Rightarrow> globalData \<Rightarrow> string \<Rightarrow> page \<Rightarrow> outcome" where
  "populateRecipientsTable B g sortBy p =
     (let data = (if sortBy = ''funding'' then take 20 (top_by_funding (recipients g))
                  else take 20 (top_by_count (recipients g)))
      in and_then (require ''#recipientTable tbody'' p) (\<lambda>p.
           Return (p\<lparr>innerHTML := (innerHTML p)(''#recipientTable tbody'' \<mapsto>
                      TableRows (map (\<lambda>(index, recipient). table_row_of B g index recipient)
                                   (enumerate 0 data)))\<rparr>)))"

subsection \<open>Start-up (lines 79-156, 1397-1424)\<close>

definition initializeEventListeners :: "page \<Rightarrow> outcome" where
  \<comment> \<open>the range, mode and sort buttons get their click handlers, which call
      \<open>createTemporalChart\<close>, \<open>createGeoChart\<close> and \<open>populateRecipientsTable\<close>
      with the button's attribute\<close>
  "initializeEventListeners p = Return (p\<lparr>listening := True\<rparr>)"

definition initializeDashboard :: "builtins \<Rightarrow> globalData \<Rightarrow> page \<Rightarrow> outcome" where
  "initializeDashboard B g p =
     run [updateOverviewCards B g,
          updateLastUpdate B g,
          createTemporalChart g ''all'',
          createMonthlyChart g,
          createDecadeMinistryChart g,
          createMinistryChart g,
          createInternationalChart g,
          createGeoChart g ''total'',
          createCityChart g,
          createRecipientChart g,
          createFundingTypeChart g,
          createDurationChart g,
          createTopicChart g,
          createJointChart g,
          createProjekttraegerChart g,
          createFoerderprofilChart g,
          createKeywordsCloud B g,
          populateRecipientsTable B g ''funding'',
          initializeEventListeners] p"

definition files :: "string list" where
  "files =
     [''summary_stats.json'',
      ''ministry_funding.json'',
      ''geographic_distribution.json'',
      ''temporal_trends.json'',
      ''top_recipients.json'',
      ''topic_analysis.json'',
      ''duration_analysis.json'',
      ''funding_types.json'',
      ''joint_projects.json'',
      ''projekttraeger.json'',
      ''keyword_trends.json'',
      ''entity_trends.json'',
      ''funding_forecast.json'']"

text \<open>
  What \<^verbatim>\<open>res.json()\<close> resolves to is one of the thirteen documents. A server holds,
  under each of the thirteen names, a document of that kind or nothing: \<open>None\<close>
  stands for a failed request, a response that is not \<^verbatim>\<open>ok\<close> and a body that is not
  JSON, each of which rejects the promise. The thirteen requests are treated as one
  step.
\<close>

datatype document =
    SummaryStats summary_stats
  | MinistryFunding ministry_funding
  | GeographicDistribution geographic_distribution
  | TemporalTrends temporal_trends
  | TopRecipients top_recipients
  | TopicAnalysis topic_analysis
  | DurationAnalysis duration_analysis
  | FundingTypes funding_types_t
  | JointProjects joint_projects
  | Projekttraeger projekttraeger_t
  | KeywordTrends "keyword_trends option"
  | EntityTrends "entity_trends option"
  | FundingForecast funding_forecast

record server =
  summary_stats_json :: "summary_stats option"
  ministry_funding_json :: "ministry_funding option"
  geographic_distribution_json :: "geographic_distribution option"
  temporal_trends_json :: "temporal_trends option"
  top_recipients_json :: "top_recipients option"
  topic_analysis_json :: "topic_analysis option"
  duration_analysis_json :: "duration_analysis option"
  funding_types_json :: "funding_types_t option"
  joint_projects_json :: "joint_projects option"
  projekttraeger_json :: "projekttraeger_t option"
  keyword_trends_json :: "keyword_trends option option"
  entity_trends_json :: "entity_trends option option"
  funding_forecast_json :: "funding_forecast option"

definition fetch :: "server \<Rightarrow> string \<Rightarrow> document option" where
  \<comment> \<open>\<^verbatim>\<open>fetch(url).then(res => { if (!res.ok) throw ...; return res.json(); })\<close>;
      the server has nothing under any other URL\<close>
  "fetch S url =
     (if url = ''data/summary_stats.json'' then map_option SummaryStats (summary_stats_json S)
      else if url = ''data/ministry_funding.json'' then
        map_option MinistryFunding (ministry_funding_json S)
      else if url = ''data/geographic_distribution.json'' then
        map_option GeographicDistribution (geographic_distribution_json S)
      else if url = ''data/temporal_trends.json'' then
        map_option TemporalTrends (temporal_trends_json S)
      else if url = ''data/top_recipients.json'' then
        map_option TopRecipients (top_recipients_json S)
      else if url = ''data/topic_analysis.json'' then
        map_option TopicAnalysis (topic_analysis_json S)
      else if url = ''data/duration_analysis.json'' then
        map_option DurationAnalysis (duration_analysis_json S)
      else if url = ''data/funding_types.json'' then
        map_option FundingTypes (funding_types_json S)
      else if url = ''data/joint_projects.json'' then
        map_option JointProjects (joint_projects_json S)
      else if url = ''data/projekttraeger.json'' then
        map_option Projekttraeger (projekttraeger_json S)
      else if url = ''data/keyword_trends.json'' then
        map_option KeywordTrends (keyword_trends_json S)
      else if url = ''data/entity_trends.json'' then
        map_option EntityTrends (entity_trends_json S)
      else if url = ''data/funding_forecast.json'' then
        map_option FundingForecast (funding_forecast_json S)
      else None)"

definition assign :: "document list \<Rightarrow> globalData option" where
  \<comment> \<open>lines 106-120: \<^verbatim>\<open>results[0]\<close> to \<^verbatim>\<open>results[12]\<close> by position; \<open>None\<close> when a
      position holds a document of another kind, which no \<open>server\<close> sends\<close>
  "assign results =
     (case results of
        [SummaryStats a, MinistryFunding b, GeographicDistribution c, TemporalTrends d,
         TopRecipients e, TopicAnalysis f, DurationAnalysis h, FundingTypes i,
         JointProjects j, Projekttraeger k, KeywordTrends l, EntityTrends m,
         FundingForecast n] \<Rightarrow>
          Some \<lparr>summary = a, ministry = b, geographic = c, temporal = d, recipients = e,
                topics = f, duration = h, fundingTypes = i, jointProjects = j,
                projekttraeger = k, keywordTrends = l, entityTrends = m, forecast = n\<rparr>
      | _ \<Rightarrow> None)"

definition error_loading :: "page \<Rightarrow> outcome" where
  \<comment> \<open>lines 123-132: the elements inside \<^verbatim>\<open>.main-content\<close> are gone afterwards; which
      ones these are is for \<^verbatim>\<open>index.html\<close> to say, and \<open>present\<close> is left as it is\<close>
  "error_loading p =
     (let p1 = p\<lparr>console := console p @ [Error [''Error loading data:'']]\<rparr> in
      if ''.main-content'' \<in> present p1 then
        Return (p1\<lparr>innerHTML := (innerHTML p1)(''.main-content'' \<mapsto> ErrorLoadingData)\<rparr>)
      else Throw TypeError p1)"

definition urls :: "string list" where
  \<comment> \<open>\<^verbatim>\<open>files.map(file => fetch(`data/${file}`) ...)\<close>\<close>
  "urls = map (\<lambda>file. ''data/'' @ file) files"

definition loadData :: "builtins \<Rightarrow> server \<Rightarrow> page \<Rightarrow> outcome" where
  "loadData B S p =
     (let p1 = p\<lparr>requests := requests p @ urls\<rparr>
      in case those (map (fetch S) urls) of
           None \<Rightarrow> error_loading p1
         | Some results \<Rightarrow>
             (case assign results of
                None \<Rightarrow> error_loading p1
              | Some g \<Rightarrow>
                  (case initializeDashboard B g p1 of
                     Return p2 \<Rightarrow> Return p2
                   | Throw e p2 \<Rightarrow> error_loading p2)))"

text \<open>
  An instance of the engine's functions for evaluating examples: integers in plain
  decimal notation, without grouping or currency sign.
\<close>

definition plain_int :: "number \<Rightarrow> string" where
  "plain_int x = (if x < 0 then ''-'' else '''') @ digits (nat \<lfloor>\<bar>x\<bar>\<rfloor>)"

definition sample_builtins :: builtins where
  "sample_builtins =
     \<lparr>nf_currency = (\<lambda>x. plain_int x @ '' EUR''),
      nf_currency_nonfinite = (\<lambda>_. ''- EUR''),
      nf_plain = plain_int,
      nf_plain_nonfinite = nonfinite_text,
      nf_compact = plain_int,
      num_text = plain_int,
      date_text = (\<lambda>s. s)\<rparr>"

subsection \<open>A small data set\<close>

text \<open>
  Thirteen small documents, a page that has every element the script looks up, and a
  server that holds the documents, for evaluating the functions.
\<close>

definition demo_summary :: summary_stats where
  "demo_summary =
     \<lparr>summary_stats.total_funding = 1500000, summary_stats.total_projects = 3, unique_recipients = 3,
      highlights = \<lparr>avg_project_funding = 500000\<rparr>, generated_at = ''2025-12-10T11:44:00''\<rparr>"

definition demo_ministry :: ministry_funding where
  "demo_ministry =
     \<lparr>ministries = [[(''code'', Str ''BMFTR''), (''total_funding'', Num 1000000)],
                    [(''code'', Str ''BMWE''), (''total_funding'', Num 500000)]]\<rparr>"

definition demo_geographic :: geographic_distribution where
  "demo_geographic =
     \<lparr>international = Some \<lparr>countries = Some []\<rparr>,
      geographic_distribution.states = [\<lparr>state_row.name = ''Bayern'', state_row.total_funding = 1000000, state_row.per_capita_funding = Some 2\<rparr>,
                \<lparr>state_row.name = ''Berlin'', state_row.total_funding = 500000, state_row.per_capita_funding = Some 5\<rparr>],
      top_cities = [\<lparr>city = ''Berlin'', city_row.total_funding = 500000\<rparr>,
                    \<lparr>city = ''Passau'', city_row.total_funding = 100000\<rparr>]\<rparr>"

definition demo_temporal :: temporal_trends where
  "demo_temporal =
     \<lparr>yearly_totals =
        [\<lparr>year = 2004, year_row.total_funding = 100, year_row.project_count = 1\<rparr>,
         \<lparr>year = 2005, year_row.total_funding = 200, year_row.project_count = 2\<rparr>,
         \<lparr>year = 2014, year_row.total_funding = 300, year_row.project_count = 3\<rparr>,
         \<lparr>year = 2015, year_row.total_funding = 400, year_row.project_count = 4\<rparr>,
         \<lparr>year = 2025, year_row.total_funding = 500, year_row.project_count = 5\<rparr>,
         \<lparr>year = 2026, year_row.total_funding = 600, year_row.project_count = 6\<rparr>],
      monthly_distribution = Some [],
      decade_ministry_share =
        Some [(''2010'', [[(''ministry'', Str ''BMFTR''), (''share_pct'', Num 60)],
                          [(''ministry'', Str ''BMWE''), (''share_pct'', Num 40)]]),
              (''2000'', [[(''ministry'', Str ''BMFTR''), (''share_pct'', Num 100)]])]\<rparr>"

definition demo_recipients :: top_recipients where
  "demo_recipients =
     \<lparr>top_by_funding =
        [\<lparr>name = ''TU Berlin'', recipient_row.total_funding = 900000, project_count = 2, avg_funding = None\<rparr>,
         \<lparr>name = ''Uni Passau'', recipient_row.total_funding = 600000, project_count = 1,
          avg_funding = Some 600000\<rparr>],
      top_by_count =
        [\<lparr>name = ''TU Berlin'', recipient_row.total_funding = 900000, project_count = 2, avg_funding = None\<rparr>]\<rparr>"

definition demo_topics :: topic_analysis where
  "demo_topics =
     \<lparr>classifications = [[(''code'', Str ''EA''), (''total_funding'', Num 1500000)]],
      topic_analysis.keywords' = [\<lparr>word = ''energie'', count = 10\<rparr>, \<lparr>word = ''wasser'', count = 3\<rparr>]\<rparr>"

definition demo_duration :: duration_analysis where
  "demo_duration = \<lparr>distribution = [[(''range'', Str ''1-2 years''), (''count'', Num 3)]]\<rparr>"

definition demo_fundingTypes :: funding_types_t where
  "demo_fundingTypes =
     \<lparr>funding_types = [[(''name'', Str ''Zuwendung''), (''total_funding'', Num 1500000)]],
      funding_profiles = [[(''name'', Str ''FuE''), (''total_funding'', Num 1500000)]]\<rparr>"

definition demo_jointProjects :: joint_projects where
  "demo_jointProjects =
     \<lparr>joint_projects.summary = [(''joint_funding'', Num 1000000), (''individual_funding'', Num 500000)]\<rparr>"

definition demo_projekttraeger :: projekttraeger_t where
  "demo_projekttraeger =
     \<lparr>projekttraeger_t.projekttraeger = [[(''code'', Str ''PTJ''), (''total_funding'', Num 1500000)]]\<rparr>"

definition demo_trend :: trend where
  "demo_trend =
     \<lparr>total_projects = 2, total_funding = 900000,
      yearly = Some [[(''year'', Num 2020), (''funding'', Num 900000), (''projects'', Num 2)]],
      state = Some ''Berlin''\<rparr>"

definition demo_keywordTrends :: keyword_trends where
  "demo_keywordTrends = \<lparr>keywords' = Some [''energie'' \<mapsto> demo_trend]\<rparr>"

definition demo_entityTrends :: entity_trends where
  "demo_entityTrends =
     \<lparr>states = Some [''Berlin'' \<mapsto> demo_trend],
      cities = Some [''Berlin'' \<mapsto> demo_trend],
      recipients = Some [''TU Berlin'' \<mapsto> demo_trend]\<rparr>"

definition demo_forecast :: funding_forecast where
  "demo_forecast =
     \<lparr>current_year = 2025,
      funding_forecast.forecast =
        [[(''year'', Num 2026), (''predicted_funding'', Num 550), (''lower_bound'', Num 450),
          (''upper_bound'', Num 650), (''approved_funding'', Num 120)],
         [(''year'', Num 2027), (''predicted_funding'', Num 560), (''lower_bound'', Num 400),
          (''upper_bound'', Num 720), (''approved_funding'', Num 0)]]\<rparr>"

definition demo :: globalData where
  "demo =
     \<lparr>summary = demo_summary, ministry = demo_ministry, geographic = demo_geographic,
      temporal = demo_temporal, recipients = demo_recipients, topics = demo_topics,
      duration = demo_duration, fundingTypes = demo_fundingTypes,
      jointProjects = demo_jointProjects, projekttraeger = demo_projekttraeger,
      keywordTrends = Some demo_keywordTrends, entityTrends = Some demo_entityTrends,
      forecast = demo_forecast\<rparr>"

definition demo_server :: server where
  "demo_server =
     \<lparr>summary_stats_json = Some demo_summary,
      ministry_funding_json = Some demo_ministry,
      geographic_distribution_json = Some demo_geographic,
      temporal_trends_json = Some demo_temporal,
      top_recipients_json = Some demo_recipients,
      topic_analysis_json = Some demo_topics,
      duration_analysis_json = Some demo_duration,
      funding_types_json = Some demo_fundingTypes,
      joint_projects_json = Some demo_jointProjects,
      projekttraeger_json = Some demo_projekttraeger,
      keyword_trends_json = Some (Some demo_keywordTrends),
      entity_trends_json = Some (Some demo_entityTrends),
      funding_forecast_json = Some demo_forecast\<rparr>"

definition page_ids :: "string list" where
  "page_ids =
     [''totalFunding'', ''totalProjects'', ''uniqueRecipients'', ''avgFunding'',
      ''lastUpdate'', ''footerUpdate'', ''temporalChart'', ''monthlyChart'',
      ''decadeMinistryChart'', ''ministryChart'', ''internationalChart'', ''geoChart'',
      ''cityChart'', ''recipientChart'', ''fundingTypeChart'', ''durationChart'',
      ''topicChart'', ''jointChart'', ''projekttraegerChart'', ''foerderprofilChart'',
      ''keywordsCloud'', ''#recipientTable tbody'', ''modalTitle'', ''modalSubtitle'',
      ''modalTotalProjects'', ''modalTotalFunding'', ''drilldownModal'', ''drilldownChart'',
      ''.main-content'']"

definition fresh_page :: page where
  "fresh_page =
     \<lparr>present = set page_ids, textContent = Map.empty, innerHTML = Map.empty,
      charts = Map.empty, drilldownChart = None, modal_display = ''none'',
      console = [], requests = [], listening = False\<rparr>"

definition unapproved_forecast :: funding_forecast where
  "unapproved_forecast =
     \<lparr>current_year = 2025,
      funding_forecast.forecast =
        [[(''year'', Num 2026), (''predicted_funding'', Num 550), (''lower_bound'', Num 450),
          (''upper_bound'', Num 650), (''approved_funding'', Num 0)]]\<rparr>"

definition unapproved :: globalData where
  "unapproved = demo\<lparr>forecast := unapproved_forecast\<rparr>"

definition demo_months :: globalData where
  "demo_months =
     demo\<lparr>temporal := demo_temporal\<lparr>monthly_distribution :=
       Some [[(''month_name'', Str ''January''), (''project_count'', Num 2),
              (''total_funding'', Num 700)]]\<rparr>\<rparr>"

definition server_without_duration :: server where
  "server_without_duration = demo_server\<lparr>duration_analysis_json := None\<rparr>"

definition other_forecast :: globalData where
  \<comment> \<open>\<open>demo\<close> with another forecast document\<close>
  "other_forecast = demo\<lparr>forecast := \<lparr>current_year = 2025, funding_forecast.forecast = []\<rparr>\<rparr>"

definition other_temporal :: globalData where
  \<comment> \<open>\<open>demo\<close> with another temporal document\<close>
  "other_temporal =
     demo\<lparr>temporal := \<lparr>yearly_totals = [], monthly_distribution = None,
                          decade_ministry_share = None\<rparr>\<rparr>"

definition overlapping_forecast :: globalData where
  \<comment> \<open>\<open>demo\<close> with a forecast document whose first entry is dated in the current year\<close>
  "overlapping_forecast =
     demo\<lparr>forecast :=
       \<lparr>current_year = 2025,
        funding_forecast.forecast =
          [[(''year'', Num 2025), (''predicted_funding'', Num 510), (''lower_bound'', Num 480),
            (''upper_bound'', Num 540), (''approved_funding'', Num 300)],
           [(''year'', Num 2026), (''predicted_funding'', Num 550), (''lower_bound'', Num 450),
            (''upper_bound'', Num 650), (''approved_funding'', Num 120)]]\<rparr>\<rparr>"

definition demo_without_yearly :: globalData where
  \<comment> \<open>\<open>demo\<close> with a city entry that has no \<^verbatim>\<open>yearly\<close>\<close>
  "demo_without_yearly =
     demo\<lparr>entityTrends :=
       Some (demo_entityTrends\<lparr>cities := Some [''Berlin'' \<mapsto> demo_trend\<lparr>yearly := None\<rparr>]\<rparr>)\<rparr>"

definition other_summary :: globalData where
  \<comment> \<open>\<open>demo\<close> with another summary document\<close>
  "other_summary = demo\<lparr>summary := demo_summary\<lparr>unique_recipients := 7\<rparr>\<rparr>"

subsection \<open>Auxiliary notions for the properties\<close>

definition rename :: "string \<Rightarrow> string \<Rightarrow> row \<Rightarrow> row" where
  \<comment> \<open>the parsed object of a document in which the field \<open>a\<close> is called \<open>b\<close> instead\<close>
  "rename a b d = map (\<lambda>(k, v). (if k = a then b else k, v)) d"

definition rename_forecast :: "string \<Rightarrow> string \<Rightarrow> globalData \<Rightarrow> globalData" where
  "rename_forecast a b g =
     g\<lparr>forecast := (forecast g)\<lparr>funding_forecast.forecast :=
          map (rename a b) (funding_forecast.forecast (forecast g))\<rparr>\<rparr>"

definition rename_decades :: "string \<Rightarrow> string \<Rightarrow> globalData \<Rightarrow> globalData" where
  "rename_decades a b g =
     g\<lparr>temporal := (temporal g)\<lparr>decade_ministry_share :=
          map_option (map (\<lambda>(decade, entries). (decade, map (rename a b) entries)))
            (decade_ministry_share (temporal g))\<rparr>\<rparr>"

definition served :: "server \<Rightarrow> globalData option" where
  \<comment> \<open>the documents of a server that has all thirteen\<close>
  "served S =
     Option.bind (summary_stats_json S) (\<lambda>a.
     Option.bind (ministry_funding_json S) (\<lambda>b.
     Option.bind (geographic_distribution_json S) (\<lambda>c.
     Option.bind (temporal_trends_json S) (\<lambda>d.
     Option.bind (top_recipients_json S) (\<lambda>e.
     Option.bind (topic_analysis_json S) (\<lambda>f.
     Option.bind (duration_analysis_json S) (\<lambda>h.
     Option.bind (funding_types_json S) (\<lambda>i.
     Option.bind (joint_projects_json S) (\<lambda>j.
     Option.bind (projekttraeger_json S) (\<lambda>k.
     Option.bind (keyword_trends_json S) (\<lambda>l.
     Option.bind (entity_trends_json S) (\<lambda>m.
     Option.bind (funding_forecast_json S) (\<lambda>n.
       Some \<lparr>summary = a, ministry = b, geographic = c, temporal = d, recipients = e,
             topics = f, duration = h, fundingTypes = i, jointProjects = j,
             projekttraeger = k, keywordTrends = l, entityTrends = m,
             forecast = n\<rparr>)))))))))))))"

definition keeps_requests :: "(page \<Rightarrow> outcome) \<Rightarrow> bool" where
  \<comment> \<open>a step that sends nothing over the network\<close>
  "keeps_requests f = (\<forall>p. requests (page_of (f p)) = requests p)"

definition keys_of :: "globalData \<Rightarrow> string \<Rightarrow> string set" where
  \<comment> \<open>the keys of \<^verbatim>\<open>keywordTrends.keywords\<close>, \<^verbatim>\<open>entityTrends.states\<close>,
      \<^verbatim>\<open>entityTrends.cities\<close> and \<^verbatim>\<open>entityTrends.recipients\<close>, by drill-down type\<close>
  "keys_of g ty =
     (if ty = ''keyword'' then
        (case keywordTrends g of
           None \<Rightarrow> {}
         | Some k \<Rightarrow> (case keyword_trends.keywords' k of None \<Rightarrow> {} | Some m \<Rightarrow> dom m))
      else
        (case entityTrends g of
           None \<Rightarrow> {}
         | Some e \<Rightarrow>
             (case (if ty = ''state'' then entity_trends.states e
                    else if ty = ''city'' then entity_trends.cities e
                    else entity_trends.recipients e) of
                None \<Rightarrow> {}
              | Some m \<Rightarrow> dom m)))"

text \<open>
  Modelled from the spec: the aggregation passes of the table in section 4.2, by name.
  The batch stage that runs them and writes one document per pass is not among the
  sources.
\<close>

definition aggregation_passes :: "string list" where
  "aggregation_passes =
     [''Ministry funding'', ''Geographic distribution'', ''Temporal trends'',
      ''Top recipients'', ''Research topics'', ''Keyword extraction'', ''Project duration'',
      ''Funding types / profiles'', ''Joint projects'', ''Sponsors (Projekttraeger)'',
      ''Entity trends'', ''Forecast'']"

subsection \<open>The aggregation passes\<close>



record 'k aggregate =
  group_key :: 'k
  total_funding :: number
  project_count :: nat
















section \<open>Properties\<close>

subsection \<open>Sequencing\<close>

lemma and_then_Return [simp]: "and_then (Return p) f = f p"
  by (simp add: and_then_def)

lemma and_then_Throw [simp]: "and_then (Throw e p) f = Throw e p"
  by (simp add: and_then_def)

lemma page_of_simps [simp]: "page_of (Return p) = p" "page_of (Throw e p) = p"
  by (simp_all add: page_of_def)

lemma foldl_and_then_Throw: "foldl and_then (Throw e q) fs = Throw e q"
  by (induction fs) simp_all

lemma foldl_and_then: "foldl and_then r fs = and_then r (\<lambda>p. foldl and_then (Return p) fs)"
  by (cases r) (simp_all add: foldl_and_then_Throw)

lemma run_Nil [simp]: "run [] p = Return p"
  by (simp add: run_def)

lemma run_Cons [simp]: "run (f # fs) p = and_then (f p) (run fs)"
proof -
  have "run (f # fs) p = foldl and_then (f p) fs"
    by (simp add: run_def)
  also have "\<dots> = and_then (f p) (\<lambda>q. foldl and_then (Return q) fs)"
    by (rule foldl_and_then)
  finally show ?thesis
    by (simp add: run_def [abs_def])
qed

lemma set_text_present [simp]:
  "i \<in> present p \<Longrightarrow> set_text i s p = Return (p\<lparr>textContent := (textContent p)(i \<mapsto> s)\<rparr>)"
  by (simp add: set_text_def)

lemma require_present [simp]: "i \<in> present p \<Longrightarrow> require i p = Return p"
  by (simp add: require_def)

lemma require_absent [simp]: "i \<notin> present p \<Longrightarrow> require i p = Throw TypeError p"
  by (simp add: require_def)



subsection \<open>Currency formatting\<close>

lemma half_even_close: "\<bar>of_int (half_even y) - y\<bar> \<le> 1 / 2"
  unfolding half_even_def Let_def by (auto simp add: abs_if) linarith+

lemma half_even_mono_ge: "of_int n \<le> y \<Longrightarrow> n \<le> half_even y"
  unfolding half_even_def Let_def by (auto simp add: le_floor_iff) linarith+

lemma powi_nat: "0 \<le> k \<Longrightarrow> (2::rat) powi k = of_int (2 ^ nat k)"
  by (simp add: power_int_def)

lemma bitlen_rat_bounds:
  assumes "0 < p"
  shows "(2::rat) powi (bitlen p - 1) \<le> of_int p" and "of_int p < (2::rat) powi bitlen p"
proof -
  from assms have l: "0 < bitlen p"
    using bitlen_eq_zero_iff [of p] bitlen_nonneg [of p] by linarith
  have b: "2 ^ nat (bitlen p - 1) \<le> p" "p < 2 ^ nat (bitlen p)"
    using bitlen_bounds [OF assms] by auto
  have "(2::rat) powi (bitlen p - 1) = of_int (2 ^ nat (bitlen p - 1))"
    using l by (intro powi_nat) simp
  with b(1) show "(2::rat) powi (bitlen p - 1) \<le> of_int p"
    by (simp only: of_int_le_iff)
  have "(2::rat) powi bitlen p = of_int (2 ^ nat (bitlen p))"
    using l by (intro powi_nat) simp
  with b(2) show "of_int p < (2::rat) powi bitlen p"
    by (simp only: of_int_less_iff)
qed

lemma binade_bounds:
  assumes "0 < a"
  shows "2 powi binade a \<le> a" and "a < 2 powi (binade a + 1)"
proof -
  obtain p q where pq: "quotient_of a = (p, q)" by (cases "quotient_of a")
  then have q: "0 < q" and a: "a = of_int p / of_int q"
    using quotient_of_denom_pos quotient_of_div by auto
  with assms have p: "0 < p"
    by (simp add: zero_less_divide_iff)
  let ?k = "bitlen p - bitlen q"
  note P = bitlen_rat_bounds [OF p] and Q = bitlen_rat_bounds [OF q]
  have q': "(0::rat) < of_int q" using q by simp
  have up: "a < 2 powi (?k + 1)"
  proof -
    have "of_int p < (2::rat) powi (?k + 1) * 2 powi (bitlen q - 1)"
      using P(2) by (simp flip: power_int_add)
    also have "\<dots> \<le> 2 powi (?k + 1) * of_int q"
      using Q(1) by (intro mult_left_mono) simp_all
    finally show ?thesis using a q' by (simp add: pos_divide_less_eq)
  qed
  have lo: "2 powi (?k - 1) < a"
  proof -
    have "(2::rat) powi (?k - 1) * of_int q < 2 powi (?k - 1) * 2 powi (bitlen q)"
      using Q(2) by (intro mult_strict_left_mono) simp_all
    also have "\<dots> = 2 powi (bitlen p - 1)" by (simp flip: power_int_add)
    also have "\<dots> \<le> of_int p" by (rule P(1))
    finally show ?thesis using a q' by (simp add: pos_less_divide_eq)
  qed
  show "2 powi binade a \<le> a"
  proof (cases "2 powi ?k \<le> a")
    case True
    with pq show ?thesis by (simp add: binade_def Let_def)
  next
    case False
    with pq have "binade a = ?k - 1" by (simp add: binade_def Let_def)
    with lo show ?thesis by simp
  qed
  show "a < 2 powi (binade a + 1)"
  proof (cases "2 powi ?k \<le> a")
    case True
    with pq have "binade a = ?k" by (simp add: binade_def Let_def)
    with up show ?thesis by simp
  next
    case False
    with pq have "binade a = ?k - 1" by (simp add: binade_def Let_def)
    with False show ?thesis by simp
  qed
qed

lemma scaled_close:
  fixes a :: rat
  shows "\<bar>of_int (half_even (a / 2 powi e)) * 2 powi e - a\<bar> \<le> 1 / 2 * 2 powi e"
proof -
  have pe: "(0::rat) < 2 powi e" by simp
  have "of_int (half_even (a / 2 powi e)) * 2 powi e - a
      = (of_int (half_even (a / 2 powi e)) - a / 2 powi e) * 2 powi e"
    using pe by (simp add: field_simps)
  then have "\<bar>of_int (half_even (a / 2 powi e)) * 2 powi e - a\<bar>
      = \<bar>of_int (half_even (a / 2 powi e)) - a / 2 powi e\<bar> * 2 powi e"
    using pe by (simp add: abs_mult)
  also have "\<dots> \<le> 1 / 2 * 2 powi e"
    using half_even_close [of "a / 2 powi e"] pe by (intro mult_right_mono) simp_all
  finally show ?thesis .
qed

lemma round_double_close:
  assumes x: "2 powi (- 1022) \<le> \<bar>x\<bar>" and r: "round_double x = Finite y"
  shows "\<bar>y - x\<bar> \<le> \<bar>x\<bar> / 2 ^ 53"
proof -
  define a where "a = \<bar>x\<bar>"
  define e where "e = binade a - 52"
  define z :: rat where "z = of_int (half_even (a / 2 powi e)) * 2 powi e"
  have "(0::rat) < 2 powi (- 1022)" by simp
  with x have a: "0 < a" unfolding a_def by linarith
  then have x0: "x \<noteq> 0" by (simp add: a_def)
  note B = binade_bounds [OF a]
  have "- 1022 \<le> binade a"
  proof (rule ccontr)
    assume "\<not> - 1022 \<le> binade a"
    then have "binade a + 1 \<le> - 1022" by simp
    then have "(2::rat) powi (binade a + 1) \<le> 2 powi (- 1022)"
      by (intro power_int_increasing) simp_all
    with B(2) x show False unfolding a_def by linarith
  qed
  then have e: "max (binade a - 52) (- 1074) = e" by (simp add: e_def)
  have "round_double x =
      (if 2 powi 1024 \<le> z then NonFinite (if 0 < x then PosInfinity else NegInfinity)
       else Finite (if 0 < x then z else - z))"
    using x0 e unfolding round_double_def Let_def a_def [symmetric] z_def by simp
  with r have y: "y = (if 0 < x then z else - z)"
    by (simp split: if_splits)
  have "\<bar>z - a\<bar> \<le> 1 / 2 * 2 powi e"
    unfolding z_def by (rule scaled_close)
  also have "\<dots> = 2 powi binade a / 2 ^ 53"
  proof -
    have "(2::rat) powi binade a = 2 powi (e + 52)" by (simp add: e_def)
    also have "\<dots> = 2 powi e * 2 powi 52" by (rule power_int_add) simp
    finally have "(2::rat) powi binade a = 2 powi e * 2 ^ 52"
      by (simp only: power_int_numeral)
    then show ?thesis by (simp only:) simp
  qed
  also have "\<dots> \<le> a / 2 ^ 53"
    using B(1) by (simp add: divide_right_mono)
  finally have c: "\<bar>z - a\<bar> \<le> a / 2 ^ 53" .
  have "\<bar>y - x\<bar> = \<bar>z - a\<bar>"
  proof (cases "0 < x")
    case True
    with y show ?thesis by (simp add: a_def)
  next
    case False
    with x0 have "x < 0" by simp
    with y have "y - x = - (z - a)" by (simp add: a_def)
    then show ?thesis by (simp only: abs_minus_cancel)
  qed
  with c show ?thesis by (simp add: a_def)
qed

lemma round_double_finite:
  assumes "\<bar>x\<bar> < 2 ^ 1023"
  shows "\<exists>y. round_double x = Finite y"
proof (cases "x = 0")
  case True
  then show ?thesis by (simp add: round_double_def)
next
  case False
  define a where "a = \<bar>x\<bar>"
  define e where "e = max (binade a - 52) (- 1074)"
  define z :: rat where "z = of_int (half_even (a / 2 powi e)) * 2 powi e"
  from False have a: "0 < a" by (simp add: a_def)
  have "\<bar>z - a\<bar> \<le> 1 / 2 * 2 powi e"
    unfolding z_def by (rule scaled_close)
  then have c: "z \<le> a + 2 powi e / 2" by linarith
  have "binade a < 1023"
  proof (rule ccontr)
    assume "\<not> binade a < 1023"
    then have "(2::rat) powi 1023 \<le> 2 powi binade a"
      by (intro power_int_increasing) simp_all
    with binade_bounds(1) [OF a] assms show False by (simp add: a_def)
  qed
  then have "e \<le> 970" by (simp add: e_def)
  then have "(2::rat) powi e \<le> 2 powi 970"
    by (intro power_int_increasing) simp_all
  then have "(2::rat) powi e \<le> 2 ^ 970"
    by (simp only: power_int_numeral)
  with c assms have "z < 2 ^ 1023 + 2 ^ 970 / 2" unfolding a_def by linarith
  moreover have "(2::rat) ^ 1023 + 2 ^ 970 / 2 \<le> 2 ^ 1024" by simp
  ultimately have "z < 2 ^ 1024" by linarith
  then have "\<not> 2 powi 1024 \<le> z" by (simp only: power_int_numeral not_le)
  then show ?thesis
    using False unfolding round_double_def Let_def a_def [symmetric] e_def [symmetric] z_def [symmetric]
    by simp
qed

lemma binade_eq:
  assumes a: "0 < a" and l: "2 powi k \<le> a" and u: "a < 2 powi (k + 1)"
  shows "binade a = k"
proof (rule ccontr)
  assume n: "binade a \<noteq> k"
  note B = binade_bounds [OF a]
  show False
  proof (cases "binade a < k")
    case True
    then have "(2::rat) powi (binade a + 1) \<le> 2 powi k"
      by (intro power_int_increasing) simp_all
    with B(2) l show False by linarith
  next
    case False
    with n have "k + 1 \<le> binade a" by simp
    then have "(2::rat) powi (k + 1) \<le> 2 powi binade a"
      by (intro power_int_increasing) simp_all
    with B(1) u show False by linarith
  qed
qed

lemma half_even_eq:
  assumes "\<bar>y - of_int m\<bar> < 1 / 2"
  shows "half_even y = m"
proof -
  have "\<bar>(of_int (half_even y) :: rat) - of_int m\<bar> < 1"
    using half_even_close [of y] assms by linarith
  then have "\<bar>(of_int (half_even y - m) :: rat)\<bar> < 1" by simp
  then have "\<bar>half_even y - m\<bar> < 1"
    by (metis of_int_abs of_int_less_1_iff)
  then show ?thesis by simp
qed

lemma round_double_eq:
  assumes l: "2 ^ 52 \<le> x * 2 powi (- e)" and u: "x * 2 powi (- e) < 2 ^ 53"
    and e: "- 1074 \<le> e" "e \<le> 970"
    and m: "\<bar>x * 2 powi (- e) - of_int m\<bar> < 1 / 2"
  shows "round_double x = Finite (of_int m * 2 powi e)"
proof -
  have pe: "(0::rat) < 2 powi e" "(2::rat) powi (- e) = 1 / 2 powi e"
    by (simp_all add: power_int_minus divide_inverse)
  let ?s = "x / 2 powi e"
  from l u m pe have s: "2 ^ 52 \<le> ?s" "?s < 2 ^ 53" "\<bar>?s - of_int m\<bar> < 1 / 2"
    by simp_all
  have "(0::rat) < 2 ^ 52" by simp
  with s(1) have "0 < ?s" by linarith
  have x': "x = ?s * 2 powi e" using pe by simp
  have "0 < ?s * 2 powi e" using \<open>0 < ?s\<close> pe(1) by (rule mult_pos_pos)
  with x' have x: "0 < x" by simp
  have "2 powi (e + 52) \<le> x"
  proof -
    have "(2::rat) powi (e + 52) = 2 ^ 52 * 2 powi e"
      using power_int_add [of "2::rat" e 52] by (simp add: mult.commute)
    also have "\<dots> \<le> ?s * 2 powi e" using s(1) pe by (intro mult_right_mono) simp_all
    finally show ?thesis using x' by simp
  qed
  moreover have "x < 2 powi (e + 52 + 1)"
  proof -
    have "?s * 2 powi e < 2 ^ 53 * 2 powi e"
      using s(2) pe by (intro mult_strict_right_mono) simp_all
    also have "\<dots> = 2 powi (e + 53)"
      using power_int_add [of "2::rat" e 53] by (simp add: mult.commute)
    finally have "x < 2 powi (e + 53)" using x' by simp
    moreover have "e + 52 + 1 = e + 53" by simp
    ultimately show ?thesis by (simp only:)
  qed
  ultimately have b: "binade x = e + 52" using x by (intro binade_eq) simp_all
  have h: "half_even ?s = m" using s(3) by (rule half_even_eq)
  have mm: "m \<le> 2 ^ 53"
  proof -
    from s(2,3) have "(of_int m :: rat) < 2 ^ 53 + 1 / 2" by linarith
    then have "(of_int m :: rat) < of_int (2 ^ 53 + 1)" by simp
    then have "m < 2 ^ 53 + 1" by (simp only: of_int_less_iff)
    then show ?thesis by simp
  qed
  have "(of_int m :: rat) * 2 powi e < 2 powi 1024"
  proof -
    from mm have "(of_int m :: rat) \<le> of_int (2 ^ 53)" by (simp only: of_int_le_iff)
    then have "(of_int m :: rat) \<le> 2 powi 53" by simp
    then have "(of_int m :: rat) * 2 powi e \<le> 2 powi 53 * 2 powi e"
      using pe by (intro mult_right_mono) simp_all
    also have "\<dots> = 2 powi (53 + e)" by (rule power_int_add [symmetric]) simp
    also have "\<dots> < 2 powi 1024" using e by (intro power_int_strict_increasing) simp_all
    finally show ?thesis .
  qed
  then have n: "\<not> 2 powi 1024 \<le> (of_int m :: rat) * 2 powi e" by simp
  from x have "x \<noteq> 0" "\<bar>x\<bar> = x" by simp_all
  moreover have "max (binade x - 52) (- 1074) = e" using b e by simp
  ultimately show ?thesis
    using x h n unfolding round_double_def Let_def by (simp only:) simp
qed

lemma round_double_scaled:
  assumes l: "2 ^ 52 \<le> x * 2 ^ n" and u: "x * 2 ^ n < 2 ^ 53" and n: "n \<le> 1074"
    and m: "\<bar>x * 2 ^ n - of_int m\<bar> < 1 / 2"
  shows "round_double x = Finite (of_int m / 2 ^ n)"
proof -
  have p: "(2::rat) powi (- (- int n)) = 2 ^ n" by simp
  note R = round_double_eq [of x "- int n" m, unfolded p]
  have "round_double x = Finite (of_int m * 2 powi (- int n))"
    using assms by (intro R) simp_all
  then show ?thesis by (simp add: power_int_minus divide_inverse)
qed

lemma round_double_nonneg:
  assumes "0 \<le> x" and "round_double x = Finite y"
  shows "0 \<le> y"
proof (cases "x = 0")
  case True
  with assms show ?thesis by (simp add: round_double_def)
next
  case False
  with assms have x: "0 < x" by simp
  define e where "e = max (binade \<bar>x\<bar> - 52) (- 1074)"
  have "0 \<le> \<bar>x\<bar> / 2 powi e" by simp
  then have "0 \<le> half_even (\<bar>x\<bar> / 2 powi e)"
    by (intro half_even_mono_ge) simp
  then have "(0::rat) \<le> of_int (half_even (\<bar>x\<bar> / 2 powi e)) * 2 powi e" by simp
  with assms(2) x show ?thesis
    unfolding round_double_def Let_def e_def [symmetric] by (simp split: if_splits)
qed

lemma nearest_close:
  assumes "0 \<le> a"
  shows "\<bar>of_nat (nearest f a) - a * 10 ^ f\<bar> \<le> (1 / 2 :: rat)"
proof -
  let ?y = "a * 10 ^ f + 1 / 2"
  from assms have "0 \<le> ?y" by simp
  then have "0 \<le> \<lfloor>?y\<rfloor>" by simp
  then have "(of_nat (nearest f a) :: rat) = of_int \<lfloor>?y\<rfloor>"
    by (simp add: nearest_def)
  moreover have "of_int \<lfloor>?y\<rfloor> \<le> ?y" "?y < of_int \<lfloor>?y\<rfloor> + 1"
    by linarith+
  ultimately show ?thesis by linarith
qed

lemma digit_char_mod: "digit_char (n mod 10) = digit_char n"
  by (simp add: digit_char_def)

lemma digits_small: "n < 10 \<Longrightarrow> digits n = [digit_char n]"
  by (subst digits.simps) simp

lemma digits_large: "10 \<le> n \<Longrightarrow> digits n = digits (n div 10) @ [digit_char (n mod 10)]"
  by (subst digits.simps) (simp add: digit_char_mod)

lemma length_digits: "length (digits n) \<le> 1 \<longleftrightarrow> n < 10"
proof (cases "n < 10")
  case True
  then show ?thesis by (simp add: digits_small)
next
  case False
  then have "digits n = digits (n div 10) @ [digit_char (n mod 10)]"
    by (simp add: digits_large)
  moreover have "digits (n div 10) \<noteq> []"
    by (subst digits.simps) simp
  ultimately show ?thesis using False by (simp add: Suc_le_eq)
qed

lemma digit_char_0: "digit_char 0 = CHR ''0''"
  by (simp add: digit_char_def)

lemma toFixed_one:
  assumes "\<bar>x\<bar> < 10 ^ 21"
  shows "toFixed B 1 (Finite x) =
     (if x < 0 then ''-'' else '''') @ digits (nearest 1 \<bar>x\<bar> div 10) @ ''.''
       @ digits (nearest 1 \<bar>x\<bar> mod 10)"
proof (cases "nearest 1 \<bar>x\<bar> < 10")
  case True
  then have "digits (nearest 1 \<bar>x\<bar>) = [digit_char (nearest 1 \<bar>x\<bar>)]"
    "digits (nearest 1 \<bar>x\<bar> div 10) = ''0''"
    "digits (nearest 1 \<bar>x\<bar> mod 10) = [digit_char (nearest 1 \<bar>x\<bar>)]"
    by (simp_all add: digits_small digit_char_0)
  with assms show ?thesis by (simp add: toFixed_def Let_def)
next
  case False
  then have d: "digits (nearest 1 \<bar>x\<bar>)
      = digits (nearest 1 \<bar>x\<bar> div 10) @ [digit_char (nearest 1 \<bar>x\<bar> mod 10)]"
    by (simp add: digits_large)
  have e: "digits (nearest 1 \<bar>x\<bar> mod 10) = [digit_char (nearest 1 \<bar>x\<bar> mod 10)]"
    by (simp add: digits_small)
  have "digits (nearest 1 \<bar>x\<bar> div 10) \<noteq> []"
    by (subst digits.simps) simp
  with assms show ?thesis by (simp add: toFixed_def Let_def d e del: One_nat_def)
qed

lemma toFixed_zero:
  assumes "\<bar>x\<bar> < 10 ^ 21"
  shows "toFixed B 0 (Finite x) = (if x < 0 then ''-'' else '''') @ digits (nearest 0 \<bar>x\<bar>)"
  using assms by (simp add: toFixed_def Let_def)

lemma fdiv_quotient:
  assumes d: "1 \<le> d" and v: "d \<le> v" and u: "v < d * 10 ^ 20"
  shows "\<exists>q. fdiv v d = Finite q \<and> 0 \<le> q \<and> q < 10 ^ 21 \<and> \<bar>q - v / d\<bar> \<le> v / d / 2 ^ 53"
proof -
  from d have d0: "0 < d" by simp
  with v u have x: "1 \<le> v / d" "v / d < 10 ^ 20"
    by (simp_all add: pos_le_divide_eq pos_divide_less_eq mult.commute)
  have "(10::rat) ^ 20 \<le> 2 ^ 1023" by simp
  with x have "\<bar>v / d\<bar> < 2 ^ 1023" by simp
  then obtain q where q: "round_double (v / d) = Finite q"
    using round_double_finite by blast
  have "(2::rat) powi (- 1022) \<le> 2 powi 0"
    by (intro power_int_increasing) simp_all
  then have "(2::rat) powi (- 1022) \<le> 1" by simp
  moreover have "1 \<le> \<bar>v / d\<bar>" using x(1) abs_ge_self [of "v / d"] by (rule order_trans)
  ultimately have "2 powi (- 1022) \<le> \<bar>v / d\<bar>" by (rule order_trans)
  from round_double_close [OF this q] x have c: "\<bar>q - v / d\<bar> \<le> v / d / 2 ^ 53" by simp
  have "0 \<le> q" using round_double_nonneg [OF _ q] x by simp
  moreover have "q < 10 ^ 21"
  proof -
    have "v / d / 2 ^ 53 \<le> v / d" using x by (simp add: field_simps)
    with c have "q \<le> 2 * (v / d)" by linarith
    with x show ?thesis by simp
  qed
  ultimately show ?thesis using q c d0 by (simp add: fdiv_def)
qed

lemma one_decimal_bracket:
  assumes d: "1 \<le> d" and v: "d \<le> v" and u: "v < d * 10 ^ 20"
  shows "\<exists>q. fdiv v d = Finite q \<and> \<bar>q - v / d\<bar> \<le> v / d / 2 ^ 53
           \<and> \<bar>of_nat (nearest 1 q) / 10 - q\<bar> \<le> 1 / 20
           \<and> toFixed B 1 (fdiv v d)
               = digits (nearest 1 q div 10) @ ''.'' @ digits (nearest 1 q mod 10)"
proof -
  from fdiv_quotient [OF assms] obtain q where q: "fdiv v d = Finite q" "0 \<le> q" "q < 10 ^ 21"
    "\<bar>q - v / d\<bar> \<le> v / d / 2 ^ 53"
    by blast
  from q(2) have a: "\<bar>q\<bar> = q" by simp
  from q(2,3) have "toFixed B 1 (Finite q)
      = digits (nearest 1 q div 10) @ ''.'' @ digits (nearest 1 q mod 10)"
    using toFixed_one [of q B] by (simp add: a)
  moreover have "\<bar>of_nat (nearest 1 q) / 10 - q\<bar> \<le> 1 / 20"
    using nearest_close [OF q(2), of 1] by (simp add: field_simps abs_le_iff)
  ultimately show ?thesis using q by auto
qed

lemma no_decimal_bracket:
  assumes d: "1 \<le> d" and v: "d \<le> v" and u: "v < d * 10 ^ 20"
  shows "\<exists>q. fdiv v d = Finite q \<and> \<bar>q - v / d\<bar> \<le> v / d / 2 ^ 53
           \<and> \<bar>of_nat (nearest 0 q) - q\<bar> \<le> 1 / 2
           \<and> toFixed B 0 (fdiv v d) = digits (nearest 0 q)"
proof -
  from fdiv_quotient [OF assms] obtain q where q: "fdiv v d = Finite q" "0 \<le> q" "q < 10 ^ 21"
    "\<bar>q - v / d\<bar> \<le> v / d / 2 ^ 53"
    by blast
  from q(2) have a: "\<bar>q\<bar> = q" by simp
  from q(2,3) have "toFixed B 0 (Finite q) = digits (nearest 0 q)"
    using toFixed_zero [of q B] by (simp add: a)
  moreover have "\<bar>of_nat (nearest 0 q) - q\<bar> \<le> 1 / 2"
    using nearest_close [OF q(2), of 0] by simp
  ultimately show ?thesis using q by auto
qed

text \<open>
  C9. With \<open>compact\<close> set, \<open>formatCurrency\<close> checks the magnitudes in descending order
  and takes the first bracket that the value reaches: the euro sign, the quotient by
  \<open>10\<^sup>1\<^sup>2\<close>, \<open>10\<^sup>9\<close> or \<open>10\<^sup>6\<close> with one decimal, or the quotient by \<open>10\<^sup>3\<close> or the
  value itself with none, and the letter of the bracket. The quotient \<open>q\<close> is a binary64
  number within \<open>2\<^sup>-\<^sup>5\<^sup>3\<close> of the exact quotient, relatively; its digits are those of the
  integer nearest to \<open>10 q\<close>, the last one after the point, or of the integer nearest to
  \<open>q\<close>; a negative value has its sign after the euro sign. Without \<open>compact\<close> the
  result is whatever the de-DE EUR formatter with no fraction digits gives.
\<close>

theorem formatCurrency_brackets:
  "formatCurrency B v False = nf_currency B v
   \<and> formatCurrency B v True =
       (if 10 ^ 12 \<le> v then CHR 0x80 # toFixed B 1 (fdiv v (10 ^ 12)) @ ''T''
        else if 10 ^ 9 \<le> v then CHR 0x80 # toFixed B 1 (fdiv v (10 ^ 9)) @ ''B''
        else if 10 ^ 6 \<le> v then CHR 0x80 # toFixed B 1 (fdiv v (10 ^ 6)) @ ''M''
        else if 10 ^ 3 \<le> v then CHR 0x80 # toFixed B 0 (fdiv v (10 ^ 3)) @ ''K''
        else CHR 0x80 # toFixed B 0 (Finite v))
   \<and> (10 ^ 12 \<le> v \<and> v < 10 ^ 32 \<longrightarrow>
        (\<exists>q. fdiv v (10 ^ 12) = Finite q \<and> \<bar>q - v / 10 ^ 12\<bar> \<le> v / 10 ^ 12 / 2 ^ 53
           \<and> \<bar>of_nat (nearest 1 q) / 10 - q\<bar> \<le> 1 / 20
           \<and> formatCurrency B v True
               = CHR 0x80 # digits (nearest 1 q div 10) @ ''.'' @ digits (nearest 1 q mod 10) @ ''T''))
   \<and> (10 ^ 9 \<le> v \<and> v < 10 ^ 12 \<longrightarrow>
        (\<exists>q. fdiv v (10 ^ 9) = Finite q \<and> \<bar>q - v / 10 ^ 9\<bar> \<le> v / 10 ^ 9 / 2 ^ 53
           \<and> \<bar>of_nat (nearest 1 q) / 10 - q\<bar> \<le> 1 / 20
           \<and> formatCurrency B v True
               = CHR 0x80 # digits (nearest 1 q div 10) @ ''.'' @ digits (nearest 1 q mod 10) @ ''B''))
   \<and> (10 ^ 6 \<le> v \<and> v < 10 ^ 9 \<longrightarrow>
        (\<exists>q. fdiv v (10 ^ 6) = Finite q \<and> \<bar>q - v / 10 ^ 6\<bar> \<le> v / 10 ^ 6 / 2 ^ 53
           \<and> \<bar>of_nat (nearest 1 q) / 10 - q\<bar> \<le> 1 / 20
           \<and> formatCurrency B v True
               = CHR 0x80 # digits (nearest 1 q div 10) @ ''.'' @ digits (nearest 1 q mod 10) @ ''M''))
   \<and> (10 ^ 3 \<le> v \<and> v < 10 ^ 6 \<longrightarrow>
        (\<exists>q. fdiv v (10 ^ 3) = Finite q \<and> \<bar>q - v / 10 ^ 3\<bar> \<le> v / 10 ^ 3 / 2 ^ 53
           \<and> \<bar>of_nat (nearest 0 q) - q\<bar> \<le> 1 / 2
           \<and> formatCurrency B v True = CHR 0x80 # digits (nearest 0 q) @ ''K''))
   \<and> (0 \<le> v \<and> v < 10 ^ 3 \<longrightarrow>
        \<bar>of_nat (nearest 0 v) - v\<bar> \<le> 1 / 2
        \<and> formatCurrency B v True = CHR 0x80 # digits (nearest 0 v))
   \<and> (- (10 ^ 21) < v \<and> v < 0 \<longrightarrow>
        \<bar>of_nat (nearest 0 (- v)) - (- v)\<bar> \<le> 1 / 2
        \<and> formatCurrency B v True = CHR 0x80 # ''-'' @ digits (nearest 0 (- v)))"
proof (intro conjI impI)
  show "formatCurrency B v False = nf_currency B v"
    by (simp add: formatCurrency_def)
  show "formatCurrency B v True =
       (if 10 ^ 12 \<le> v then CHR 0x80 # toFixed B 1 (fdiv v (10 ^ 12)) @ ''T''
        else if 10 ^ 9 \<le> v then CHR 0x80 # toFixed B 1 (fdiv v (10 ^ 9)) @ ''B''
        else if 10 ^ 6 \<le> v then CHR 0x80 # toFixed B 1 (fdiv v (10 ^ 6)) @ ''M''
        else if 10 ^ 3 \<le> v then CHR 0x80 # toFixed B 0 (fdiv v (10 ^ 3)) @ ''K''
        else CHR 0x80 # toFixed B 0 (Finite v))"
    by (simp add: formatCurrency_def euro_def)
next
  assume a: "10 ^ 12 \<le> v \<and> v < 10 ^ 32"
  then have "(1::rat) \<le> 10 ^ 12" "10 ^ 12 \<le> v" "v < 10 ^ 12 * 10 ^ 20" by simp_all
  from one_decimal_bracket [OF this, of B] a
  show "\<exists>q. fdiv v (10 ^ 12) = Finite q \<and> \<bar>q - v / 10 ^ 12\<bar> \<le> v / 10 ^ 12 / 2 ^ 53
           \<and> \<bar>of_nat (nearest 1 q) / 10 - q\<bar> \<le> 1 / 20
           \<and> formatCurrency B v True
               = CHR 0x80 # digits (nearest 1 q div 10) @ ''.'' @ digits (nearest 1 q mod 10) @ ''T''"
    by (auto simp add: formatCurrency_def euro_def)
next
  assume a: "10 ^ 9 \<le> v \<and> v < 10 ^ 12"
  then have "(1::rat) \<le> 10 ^ 9" "10 ^ 9 \<le> v" "v < 10 ^ 9 * 10 ^ 20" by simp_all
  from one_decimal_bracket [OF this, of B] a
  show "\<exists>q. fdiv v (10 ^ 9) = Finite q \<and> \<bar>q - v / 10 ^ 9\<bar> \<le> v / 10 ^ 9 / 2 ^ 53
           \<and> \<bar>of_nat (nearest 1 q) / 10 - q\<bar> \<le> 1 / 20
           \<and> formatCurrency B v True
               = CHR 0x80 # digits (nearest 1 q div 10) @ ''.'' @ digits (nearest 1 q mod 10) @ ''B''"
    by (auto simp add: formatCurrency_def euro_def)
next
  assume a: "10 ^ 6 \<le> v \<and> v < 10 ^ 9"
  then have "(1::rat) \<le> 10 ^ 6" "10 ^ 6 \<le> v" "v < 10 ^ 6 * 10 ^ 20" by simp_all
  from one_decimal_bracket [OF this, of B] a
  show "\<exists>q. fdiv v (10 ^ 6) = Finite q \<and> \<bar>q - v / 10 ^ 6\<bar> \<le> v / 10 ^ 6 / 2 ^ 53
           \<and> \<bar>of_nat (nearest 1 q) / 10 - q\<bar> \<le> 1 / 20
           \<and> formatCurrency B v True
               = CHR 0x80 # digits (nearest 1 q div 10) @ ''.'' @ digits (nearest 1 q mod 10) @ ''M''"
    by (auto simp add: formatCurrency_def euro_def)
next
  assume a: "10 ^ 3 \<le> v \<and> v < 10 ^ 6"
  then have "(1::rat) \<le> 10 ^ 3" "10 ^ 3 \<le> v" "v < 10 ^ 3 * 10 ^ 20" by simp_all
  from no_decimal_bracket [OF this, of B] a
  show "\<exists>q. fdiv v (10 ^ 3) = Finite q \<and> \<bar>q - v / 10 ^ 3\<bar> \<le> v / 10 ^ 3 / 2 ^ 53
           \<and> \<bar>of_nat (nearest 0 q) - q\<bar> \<le> 1 / 2
           \<and> formatCurrency B v True = CHR 0x80 # digits (nearest 0 q) @ ''K''"
    by (auto simp add: formatCurrency_def euro_def)
next
  assume a: "0 \<le> v \<and> v < 10 ^ 3"
  then show "\<bar>of_nat (nearest 0 v) - v\<bar> \<le> 1 / 2"
    using nearest_close [of v 0] by simp
  from a have "\<bar>v\<bar> < 10 ^ 21" by simp
  from toFixed_zero [OF this, of B] a
  show "formatCurrency B v True = CHR 0x80 # digits (nearest 0 v)"
    by (simp add: formatCurrency_def euro_def)
next
  assume a: "- (10 ^ 21) < v \<and> v < 0"
  then show "\<bar>of_nat (nearest 0 (- v)) - (- v)\<bar> \<le> 1 / 2"
    using nearest_close [of "- v" 0] by simp
  from a have "\<bar>v\<bar> < 10 ^ 21" by simp
  from toFixed_zero [OF this, of B] a
  show "formatCurrency B v True = CHR 0x80 # ''-'' @ digits (nearest 0 (- v))"
    by (simp add: formatCurrency_def euro_def)
qed

lemma quotients:
  "fdiv 8350000000000 (10 ^ 12) = Finite (4700632111067955 / 2 ^ 49)"
  "fdiv 2500000000000 (10 ^ 12) = Finite (5629499534213120 / 2 ^ 51)"
  "fdiv 1150000000 (10 ^ 9) = Finite (5179139571476070 / 2 ^ 52)"
  "fdiv 1450000 (10 ^ 6) = Finite (6530219459687219 / 2 ^ 52)"
  "fdiv 1250000 (10 ^ 6) = Finite (5629499534213120 / 2 ^ 52)"
  "fdiv 999999 (10 ^ 3) = Finite (8796084226114978 / 2 ^ 43)"
proof -
  have "round_double (8350000000000 / 10 ^ 12) = Finite (of_int 4700632111067955 / 2 ^ 49)"
    by (rule round_double_scaled) simp_all
  then show "fdiv 8350000000000 (10 ^ 12) = Finite (4700632111067955 / 2 ^ 49)"
    by (simp add: fdiv_def)
  have "round_double (2500000000000 / 10 ^ 12) = Finite (of_int 5629499534213120 / 2 ^ 51)"
    by (rule round_double_scaled) simp_all
  then show "fdiv 2500000000000 (10 ^ 12) = Finite (5629499534213120 / 2 ^ 51)"
    by (simp add: fdiv_def)
  have "round_double (1150000000 / 10 ^ 9) = Finite (of_int 5179139571476070 / 2 ^ 52)"
    by (rule round_double_scaled) simp_all
  then show "fdiv 1150000000 (10 ^ 9) = Finite (5179139571476070 / 2 ^ 52)"
    by (simp add: fdiv_def)
  have "round_double (1450000 / 10 ^ 6) = Finite (of_int 6530219459687219 / 2 ^ 52)"
    by (rule round_double_scaled) simp_all
  then show "fdiv 1450000 (10 ^ 6) = Finite (6530219459687219 / 2 ^ 52)"
    by (simp add: fdiv_def)
  have "round_double (1250000 / 10 ^ 6) = Finite (of_int 5629499534213120 / 2 ^ 52)"
    by (rule round_double_scaled) simp_all
  then show "fdiv 1250000 (10 ^ 6) = Finite (5629499534213120 / 2 ^ 52)"
    by (simp add: fdiv_def)
  have "round_double (999999 / 10 ^ 3) = Finite (of_int 8796084226114978 / 2 ^ 43)"
    by (rule round_double_scaled) simp_all
  then show "fdiv 999999 (10 ^ 3) = Finite (8796084226114978 / 2 ^ 43)"
    by (simp add: fdiv_def)
qed

lemma quotient_texts:
  "toFixed sample_builtins 1 (Finite (4700632111067955 / 2 ^ 49)) = ''8.3''"
  "toFixed sample_builtins 1 (Finite (5629499534213120 / 2 ^ 51)) = ''2.5''"
  "toFixed sample_builtins 1 (Finite (5179139571476070 / 2 ^ 52)) = ''1.1''"
  "toFixed sample_builtins 1 (Finite (6530219459687219 / 2 ^ 52)) = ''1.4''"
  "toFixed sample_builtins 1 (Finite (5629499534213120 / 2 ^ 52)) = ''1.3''"
  "toFixed sample_builtins 0 (Finite (8796084226114978 / 2 ^ 43)) = ''1000''"
  "toFixed sample_builtins 0 (Finite (1999 / 2)) = ''1000''"
  "toFixed sample_builtins 0 (Finite (- 1 / 4)) = ''-0''"
  "nf_currency sample_builtins 1234 = ''1234 EUR''"
  "nearest 1 (6530219459687219 / 2 ^ 52) = 14"
  by code_simp+

theorem formatCurrency_brackets_witness:
  "formatCurrency sample_builtins 8350000000000 True = CHR 0x80 # ''8.3T''
   \<and> formatCurrency sample_builtins 2500000000000 True = CHR 0x80 # ''2.5T''
   \<and> formatCurrency sample_builtins 1150000000 True = CHR 0x80 # ''1.1B''
   \<and> formatCurrency sample_builtins 1450000 True = CHR 0x80 # ''1.4M''
   \<and> formatCurrency sample_builtins 1250000 True = CHR 0x80 # ''1.3M''
   \<and> formatCurrency sample_builtins 999999 True = CHR 0x80 # ''1000K''
   \<and> formatCurrency sample_builtins (1999 / 2) True = CHR 0x80 # ''1000''
   \<and> formatCurrency sample_builtins (- 1 / 4) True = CHR 0x80 # ''-0''
   \<and> formatCurrency sample_builtins 1234 False = ''1234 EUR''
   \<and> (\<exists>q. fdiv 1450000 (10 ^ 6) = Finite q
        \<and> \<bar>q - 1450000 / 10 ^ 6\<bar> \<le> 1450000 / 10 ^ 6 / 2 ^ 53
        \<and> nearest 1 q = 14 \<and> \<bar>of_nat (nearest 1 q) / 10 - q\<bar> \<le> 1 / 20)"
proof -
  have "formatCurrency sample_builtins 8350000000000 True
      = CHR 0x80 # toFixed sample_builtins 1 (fdiv 8350000000000 (10 ^ 12)) @ ''T''"
    using formatCurrency_brackets [of sample_builtins "8350000000000"] by simp
  then have s1: "formatCurrency sample_builtins 8350000000000 True = CHR 0x80 # ''8.3T''"
    by (simp only: quotients quotient_texts) simp
  have "formatCurrency sample_builtins 2500000000000 True
      = CHR 0x80 # toFixed sample_builtins 1 (fdiv 2500000000000 (10 ^ 12)) @ ''T''"
    using formatCurrency_brackets [of sample_builtins "2500000000000"] by simp
  then have s2: "formatCurrency sample_builtins 2500000000000 True = CHR 0x80 # ''2.5T''"
    by (simp only: quotients quotient_texts) simp
  have "formatCurrency sample_builtins 1150000000 True
      = CHR 0x80 # toFixed sample_builtins 1 (fdiv 1150000000 (10 ^ 9)) @ ''B''"
    using formatCurrency_brackets [of sample_builtins "1150000000"] by simp
  then have s3: "formatCurrency sample_builtins 1150000000 True = CHR 0x80 # ''1.1B''"
    by (simp only: quotients quotient_texts) simp
  have "formatCurrency sample_builtins 1450000 True
      = CHR 0x80 # toFixed sample_builtins 1 (fdiv 1450000 (10 ^ 6)) @ ''M''"
    using formatCurrency_brackets [of sample_builtins "1450000"] by simp
  then have s4: "formatCurrency sample_builtins 1450000 True = CHR 0x80 # ''1.4M''"
    by (simp only: quotients quotient_texts) simp
  have "formatCurrency sample_builtins 1250000 True
      = CHR 0x80 # toFixed sample_builtins 1 (fdiv 1250000 (10 ^ 6)) @ ''M''"
    using formatCurrency_brackets [of sample_builtins "1250000"] by simp
  then have s5: "formatCurrency sample_builtins 1250000 True = CHR 0x80 # ''1.3M''"
    by (simp only: quotients quotient_texts) simp
  have "formatCurrency sample_builtins 999999 True
      = CHR 0x80 # toFixed sample_builtins 0 (fdiv 999999 (10 ^ 3)) @ ''K''"
    using formatCurrency_brackets [of sample_builtins "999999"] by simp
  then have s6: "formatCurrency sample_builtins 999999 True = CHR 0x80 # ''1000K''"
    by (simp only: quotients quotient_texts) simp
  have "formatCurrency sample_builtins (1999 / 2) True
      = CHR 0x80 # toFixed sample_builtins 0 (Finite (1999 / 2))"
    using formatCurrency_brackets [of sample_builtins "1999 / 2"] by simp
  then have s7: "formatCurrency sample_builtins (1999 / 2) True = CHR 0x80 # ''1000''"
    by (simp only: quotient_texts)
  have "formatCurrency sample_builtins (- 1 / 4) True
      = CHR 0x80 # toFixed sample_builtins 0 (Finite (- 1 / 4))"
    using formatCurrency_brackets [of sample_builtins "- 1 / 4"] by simp
  then have s8: "formatCurrency sample_builtins (- 1 / 4) True = CHR 0x80 # ''-0''"
    by (simp only: quotient_texts)
  have s9: "formatCurrency sample_builtins 1234 False = ''1234 EUR''"
    using formatCurrency_brackets [of sample_builtins 1234] by (simp only: quotient_texts)
  have "(10::rat) ^ 6 \<le> 1450000 \<and> (1450000::rat) < 10 ^ 9" by simp
  with formatCurrency_brackets [of sample_builtins 1450000]
  obtain q where q: "fdiv 1450000 (10 ^ 6) = Finite q"
    "\<bar>q - 1450000 / 10 ^ 6\<bar> \<le> 1450000 / 10 ^ 6 / 2 ^ 53"
    "\<bar>of_nat (nearest 1 q) / 10 - q\<bar> \<le> 1 / 20"
    by blast
  from q(1) have "q = 6530219459687219 / 2 ^ 52" by (simp only: quotients fp.inject)
  then have "nearest 1 q = 14" by (simp only: quotient_texts)
  with q s1 s2 s3 s4 s5 s6 s7 s8 s9 show ?thesis by blast
qed

subsection \<open>Overview cards\<close>

text \<open>
  C1. On a page that has the four overview cards, \<open>updateOverviewCards\<close> returns, and
  the card \<^verbatim>\<open>uniqueRecipients\<close> then shows \<open>formatNumber\<close> of the document's
  \<open>unique_recipients\<close> minus one, followed by \<^verbatim>\<open>+\<close>: the anonymisation sentinel is
  taken out of the count and the count is marked as a minimum.
\<close>

theorem overview_unique_recipients:
  assumes "''totalFunding'' \<in> present p" and "''totalProjects'' \<in> present p"
    and "''uniqueRecipients'' \<in> present p" and "''avgFunding'' \<in> present p"
  shows "\<exists>p'. updateOverviewCards B g p = Return p'
           \<and> textContent p' ''uniqueRecipients''
               = Some (formatNumber B (unique_recipients (summary g) - 1) False @ ''+'')"
  using assms by (simp add: updateOverviewCards_def Let_def)

theorem overview_unique_recipients_witness:
  "\<exists>p'. updateOverviewCards sample_builtins demo fresh_page = Return p'
         \<and> textContent p' ''uniqueRecipients'' = Some ''2+''"
proof -
  have a: "''totalFunding'' \<in> present fresh_page" "''totalProjects'' \<in> present fresh_page"
    "''uniqueRecipients'' \<in> present fresh_page" "''avgFunding'' \<in> present fresh_page"
    by (simp_all add: fresh_page_def page_ids_def)
  have b: "formatNumber sample_builtins (unique_recipients (summary demo) - 1) False @ ''+'' = ''2+''"
    by code_simp
  show ?thesis
    using overview_unique_recipients [OF a, of sample_builtins demo] by (simp only: b)
qed

subsection \<open>Temporal ranges\<close>

text \<open>
  C7. \<open>createTemporalChart\<close> buckets by the constant \<open>currentYear\<close>, which is 2025
  and not a parameter: range \<^verbatim>\<open>recent\<close> keeps exactly the entries of
  \<open>yearly_totals\<close> with year at least 2005, range \<^verbatim>\<open>decade\<close> those with year at
  least 2015, range \<^verbatim>\<open>all\<close> keeps every entry, and the chart plots the years, the
  funding and the project counts of the entries kept.
\<close>

theorem temporal_ranges:
  "currentYear = 2025
   \<and> temporal_data g ''recent'' = filter (\<lambda>d. year d \<ge> 2005) (yearly_totals (temporal g))
   \<and> temporal_data g ''decade'' = filter (\<lambda>d. year d \<ge> 2015) (yearly_totals (temporal g))
   \<and> temporal_data g ''all'' = yearly_totals (temporal g)
   \<and> (''temporalChart'' \<in> present p \<and> rng \<noteq> ''forecast'' \<longrightarrow>
        (\<exists>p'. createTemporalChart g rng p = Return p'
           \<and> charts p' ''temporal''
              = Some \<lparr>canvas = ''temporalChart'', chart_type = ''line'',
                      labels = map (\<lambda>d. Num (year d)) (temporal_data g rng),
                      datasets =
                        [\<lparr>ds_label = Str (''Total Funding ('' @ euro @ '')''),
                          ds_data = map (\<lambda>d. Num (year_row.total_funding d)) (temporal_data g rng)\<rparr>,
                         \<lparr>ds_label = Str ''Project Count'',
                          ds_data = map (\<lambda>d. Num (year_row.project_count d)) (temporal_data g rng)\<rparr>]\<rparr>))"
  by (simp add: currentYear_def temporal_data_def createTemporalChart_def new_chart_def Let_def)

theorem temporal_ranges_witness:
  "map year (temporal_data demo ''recent'') = [2005, 2014, 2015, 2025, 2026]
   \<and> map year (temporal_data demo ''decade'') = [2015, 2025, 2026]
   \<and> map year (temporal_data demo ''all'') = [2004, 2005, 2014, 2015, 2025, 2026]
   \<and> (\<exists>p'. createTemporalChart demo ''decade'' fresh_page = Return p'
          \<and> map_option labels (charts p' ''temporal'') = Some [Num 2015, Num 2025, Num 2026])"
proof -
  have a: "''temporalChart'' \<in> present fresh_page \<and> ''decade'' \<noteq> ''forecast''"
    by (simp add: fresh_page_def page_ids_def)
  have b: "yearly_totals (temporal demo) = yearly_totals demo_temporal"
    by (simp add: demo_def)
  show ?thesis
    using temporal_ranges [of demo fresh_page "''decade''"] a
    by (auto simp add: b demo_temporal_def)
qed

subsection \<open>Loading\<close>

lemma keeps_requests_run:
  "list_all keeps_requests fs \<Longrightarrow> keeps_requests (run fs)"
proof (induction fs)
  case Nil
  then show ?case by (simp add: keeps_requests_def run_Nil [abs_def])
next
  case (Cons f fs)
  then have f: "\<And>p. requests (page_of (f p)) = requests p"
    and fs: "\<And>p. requests (page_of (run fs p)) = requests p"
    by (simp_all add: keeps_requests_def)
  show ?case
    unfolding keeps_requests_def
  proof
    fix p
    show "requests (page_of (run (f # fs) p)) = requests p"
      using f [of p] fs by (cases "f p") simp_all
  qed
qed

lemma keeps_set_text: "keeps_requests (set_text i s)"
  by (simp add: keeps_requests_def set_text_def)

lemma keeps_and_then_require:
  "(\<And>p. requests (page_of (k p)) = requests p) \<Longrightarrow>
   requests (page_of (and_then (require i p) k)) = requests p"
  by (simp add: require_def)

lemma keeps_updateOverviewCards: "keeps_requests (updateOverviewCards B g)"
  unfolding updateOverviewCards_def [abs_def] Let_def
  by (rule keeps_requests_run) (simp add: keeps_set_text)

lemma keeps_updateLastUpdate: "keeps_requests (updateLastUpdate B g)"
  unfolding updateLastUpdate_def [abs_def] Let_def
  by (rule keeps_requests_run) (simp add: keeps_set_text)

lemma keeps_createTemporalChart: "keeps_requests (createTemporalChart g rng)"
  by (simp add: keeps_requests_def createTemporalChart_def createForecastChart_def
      require_def new_chart_def Let_def)

lemma keeps_createMonthlyChart: "keeps_requests (createMonthlyChart g)"
  by (simp add: keeps_requests_def createMonthlyChart_def require_def new_chart_def Let_def)

lemma keeps_createDecadeMinistryChart: "keeps_requests (createDecadeMinistryChart g)"
  by (simp add: keeps_requests_def createDecadeMinistryChart_def require_def new_chart_def)

lemma keeps_createMinistryChart: "keeps_requests (createMinistryChart g)"
  by (simp add: keeps_requests_def createMinistryChart_def require_def new_chart_def Let_def)

lemma keeps_createInternationalChart: "keeps_requests (createInternationalChart g)"
  by (simp add: keeps_requests_def createInternationalChart_def no_international_def
      require_def new_chart_def Let_def split: option.splits)

lemma keeps_createGeoChart: "keeps_requests (createGeoChart g mode)"
  by (simp add: keeps_requests_def createGeoChart_def require_def new_chart_def Let_def)

lemma keeps_createCityChart: "keeps_requests (createCityChart g)"
  by (simp add: keeps_requests_def createCityChart_def require_def new_chart_def Let_def)

lemma keeps_createRecipientChart: "keeps_requests (createRecipientChart g)"
  by (simp add: keeps_requests_def createRecipientChart_def require_def new_chart_def Let_def)

lemma keeps_createFundingTypeChart: "keeps_requests (createFundingTypeChart g)"
  by (simp add: keeps_requests_def createFundingTypeChart_def require_def new_chart_def Let_def)

lemma keeps_createDurationChart: "keeps_requests (createDurationChart g)"
  by (simp add: keeps_requests_def createDurationChart_def require_def new_chart_def Let_def)

lemma keeps_createTopicChart: "keeps_requests (createTopicChart g)"
  by (simp add: keeps_requests_def createTopicChart_def require_def new_chart_def Let_def)

lemma keeps_createJointChart: "keeps_requests (createJointChart g)"
  by (simp add: keeps_requests_def createJointChart_def require_def new_chart_def Let_def)

lemma keeps_createProjekttraegerChart: "keeps_requests (createProjekttraegerChart g)"
  by (simp add: keeps_requests_def createProjekttraegerChart_def require_def new_chart_def Let_def)

lemma keeps_createFoerderprofilChart: "keeps_requests (createFoerderprofilChart g)"
  by (simp add: keeps_requests_def createFoerderprofilChart_def require_def new_chart_def Let_def)

lemma keeps_createKeywordsCloud: "keeps_requests (createKeywordsCloud B g)"
  by (simp add: keeps_requests_def createKeywordsCloud_def require_def Let_def)

lemma keeps_populateRecipientsTable: "keeps_requests (populateRecipientsTable B g sortBy)"
  by (simp add: keeps_requests_def populateRecipientsTable_def require_def Let_def)

lemma keeps_initializeEventListeners: "keeps_requests initializeEventListeners"
  by (simp add: keeps_requests_def initializeEventListeners_def)

lemma keeps_initializeDashboard: "keeps_requests (initializeDashboard B g)"
  unfolding initializeDashboard_def [abs_def]
  by (rule keeps_requests_run)
    (simp add: keeps_updateOverviewCards keeps_updateLastUpdate keeps_createTemporalChart
      keeps_createMonthlyChart keeps_createDecadeMinistryChart keeps_createMinistryChart
      keeps_createInternationalChart keeps_createGeoChart keeps_createCityChart
      keeps_createRecipientChart keeps_createFundingTypeChart keeps_createDurationChart
      keeps_createTopicChart keeps_createJointChart keeps_createProjekttraegerChart
      keeps_createFoerderprofilChart keeps_createKeywordsCloud keeps_populateRecipientsTable
      keeps_initializeEventListeners)

lemma keeps_error_loading: "keeps_requests error_loading"
  by (simp add: keeps_requests_def error_loading_def Let_def)

lemma requests_loadData:
  "requests (page_of (loadData B S p)) = requests p @ urls"
proof -
  let ?p1 = "p\<lparr>requests := requests p @ urls\<rparr>"
  have e: "\<And>q. requests (page_of (error_loading q)) = requests q"
    using keeps_error_loading by (simp add: keeps_requests_def)
  have i: "\<And>g q. requests (page_of (initializeDashboard B g q)) = requests q"
    using keeps_initializeDashboard by (simp add: keeps_requests_def)
  have "requests (page_of (loadData B S p)) = requests ?p1"
  proof (cases "those (map (fetch S) urls)")
    case None
    then show ?thesis by (simp add: loadData_def e)
  next
    case rs: (Some rs)
    show ?thesis
    proof (cases "assign rs")
      case None
      with rs show ?thesis by (simp add: loadData_def e)
    next
      case g: (Some g)
      show ?thesis
      proof (cases "initializeDashboard B g ?p1")
        case (Return q)
        with i [of g ?p1] have "requests q = requests ?p1" by simp
        with rs g Return show ?thesis by (simp add: loadData_def)
      next
        case (Throw x q)
        with i [of g ?p1] have "requests q = requests ?p1" by simp
        with rs g Throw show ?thesis by (simp add: loadData_def e)
      qed
    qed
  qed
  then show ?thesis by simp
qed

text \<open>
  C4. \<open>loadData\<close> requests exactly the thirteen fixed URLs under \<^verbatim>\<open>data/\<close>, in
  this order and whatever the server answers: thirteen different files, which is one
  more (\<^verbatim>\<open>summary_stats.json\<close>) than there are aggregation passes.
\<close>

theorem loadData_thirteen:
  "requests (page_of (loadData B S p)) = requests p @
     [''data/summary_stats.json'', ''data/ministry_funding.json'',
      ''data/geographic_distribution.json'', ''data/temporal_trends.json'',
      ''data/top_recipients.json'', ''data/topic_analysis.json'',
      ''data/duration_analysis.json'', ''data/funding_types.json'',
      ''data/joint_projects.json'', ''data/projekttraeger.json'',
      ''data/keyword_trends.json'', ''data/entity_trends.json'',
      ''data/funding_forecast.json'']
   \<and> length urls = 13 \<and> distinct urls
   \<and> length files = length aggregation_passes + 1"
proof -
  have u: "urls =
     [''data/summary_stats.json'', ''data/ministry_funding.json'',
      ''data/geographic_distribution.json'', ''data/temporal_trends.json'',
      ''data/top_recipients.json'', ''data/topic_analysis.json'',
      ''data/duration_analysis.json'', ''data/funding_types.json'',
      ''data/joint_projects.json'', ''data/projekttraeger.json'',
      ''data/keyword_trends.json'', ''data/entity_trends.json'',
      ''data/funding_forecast.json'']"
    by (simp add: urls_def files_def)
  have "distinct urls" unfolding u by simp
  then show ?thesis
    using requests_loadData [of B S p] by (simp add: u files_def aggregation_passes_def)
qed

subsection \<open>Empty documents\<close>

text \<open>
  C5. A document without data takes the path for no data and nothing is thrown. On a
  page that has the canvas, \<open>createInternationalChart\<close> returns when
  \<^verbatim>\<open>international\<close> or its \<^verbatim>\<open>countries\<close> is missing or empty: the markup around the
  canvas is replaced by the message "No international funding data available" and
  \<^verbatim>\<open>charts\<close> is left as it was. \<open>createMonthlyChart\<close> returns when
  \<^verbatim>\<open>monthly_distribution\<close> is missing or empty: it writes one line to the console and
  leaves \<^verbatim>\<open>charts\<close> as it was.
\<close>

theorem no_data_paths:
  "(''internationalChart'' \<in> present p
      \<and> (international (geographic g) = None
           \<or> (\<exists>i. international (geographic g) = Some i
                  \<and> (countries i = None \<or> countries i = Some []))) \<longrightarrow>
      createInternationalChart g p =
        Return (p\<lparr>innerHTML := (innerHTML p)(''internationalChart.parentElement'' \<mapsto>
                     Html no_international_message),
                 present := present p - {''internationalChart''}\<rparr>))
   \<and> (''monthlyChart'' \<in> present p
      \<and> (monthly_distribution (temporal g) = None \<or> monthly_distribution (temporal g) = Some []) \<longrightarrow>
      createMonthlyChart g p =
        Return (p\<lparr>console := console p @ [Log [''No monthly data available'']]\<rparr>))
   \<and> no_international_message =
        ''<p style='' @ [CHR 0x22] @ ''text-align: center; color: #64748B; padding: 2rem;''
          @ [CHR 0x22] @ ''>No international funding data available</p>''"
  by (auto simp add: createInternationalChart_def no_international_def createMonthlyChart_def
      no_international_message_def)

theorem no_data_paths_witness:
  "createInternationalChart demo fresh_page =
     Return (fresh_page\<lparr>innerHTML := (innerHTML fresh_page)(''internationalChart.parentElement'' \<mapsto>
                            Html no_international_message),
                        present := present fresh_page - {''internationalChart''}\<rparr>)
   \<and> createMonthlyChart demo fresh_page =
     Return (fresh_page\<lparr>console := console fresh_page @ [Log [''No monthly data available'']]\<rparr>)
   \<and> charts (page_of (createInternationalChart demo fresh_page)) = Map.empty
   \<and> charts (page_of (createMonthlyChart demo fresh_page)) = Map.empty"
proof -
  have a: "''internationalChart'' \<in> present fresh_page" "''monthlyChart'' \<in> present fresh_page"
    by (simp_all add: fresh_page_def page_ids_def)
  have b: "international (geographic demo) = Some \<lparr>countries = Some []\<rparr>"
    "monthly_distribution (temporal demo) = Some []"
    by (simp_all add: demo_def demo_geographic_def demo_temporal_def)
  have c: "charts fresh_page = Map.empty"
    by (simp add: fresh_page_def)
  show ?thesis
    using no_data_paths [of fresh_page demo] a b c by simp
qed

subsection \<open>Drill-down by exact key\<close>

lemma property_of_Own: "property_of m nm = Own d \<longleftrightarrow> m nm = Some d"
  by (simp add: property_of_def split: option.splits)

lemma property_of_Missing:
  "property_of m nm = Missing \<longleftrightarrow> m nm = None \<and> nm \<notin> set object_prototype"
  by (simp add: property_of_def split: option.splits)

lemma property_of_Inherited:
  "property_of m nm = Inherited \<longleftrightarrow> m nm = None \<and> nm \<in> set object_prototype"
  by (simp add: property_of_def split: option.splits)

lemma keyword_lookup_keys:
  "(\<exists>d. keyword_lookup g nm = Own d) \<longleftrightarrow> nm \<in> keys_of g ''keyword''"
  "nm \<notin> keys_of g ''keyword'' \<Longrightarrow> nm \<notin> set object_prototype \<Longrightarrow> keyword_lookup g nm = Missing"
  by (auto simp add: keyword_lookup_def keys_of_def property_of_Own property_of_Missing
      split: option.splits)

lemma state_lookup_keys:
  "(\<exists>d. entity_lookup entity_trends.states g nm = Own d) \<longleftrightarrow> nm \<in> keys_of g ''state''"
  "nm \<notin> keys_of g ''state'' \<Longrightarrow> nm \<notin> set object_prototype \<Longrightarrow>
     entity_lookup entity_trends.states g nm = Missing"
  by (auto simp add: entity_lookup_def keys_of_def property_of_Own property_of_Missing
      split: option.splits)

lemma city_lookup_keys:
  "(\<exists>d. entity_lookup entity_trends.cities g nm = Own d) \<longleftrightarrow> nm \<in> keys_of g ''city''"
  "nm \<notin> keys_of g ''city'' \<Longrightarrow> nm \<notin> set object_prototype \<Longrightarrow>
     entity_lookup entity_trends.cities g nm = Missing"
  by (auto simp add: entity_lookup_def keys_of_def property_of_Own property_of_Missing
      split: option.splits)

lemma recipient_lookup_keys:
  "(\<exists>d. entity_lookup entity_trends.recipients g nm = Own d) \<longleftrightarrow> nm \<in> keys_of g ''recipient''"
  "nm \<notin> keys_of g ''recipient'' \<Longrightarrow> nm \<notin> set object_prototype \<Longrightarrow>
     entity_lookup entity_trends.recipients g nm = Missing"
  by (auto simp add: entity_lookup_def keys_of_def property_of_Own property_of_Missing
      split: option.splits)

lemma drilldown_data_own:
  assumes "ty = ''keyword'' \<or> ty = ''state'' \<or> ty = ''city'' \<or> ty = ''recipient''"
  shows "(\<exists>d. drilldown_data g ty nm = Own d) \<longleftrightarrow> nm \<in> keys_of g ty"
proof -
  consider "ty = ''keyword''" | "ty = ''state''" | "ty = ''city''" | "ty = ''recipient''"
    using assms by blast
  then show ?thesis
  proof cases
    case 1
    then show ?thesis using keyword_lookup_keys(1) [of g nm] by (simp add: drilldown_data_def)
  next
    case 2
    then show ?thesis using state_lookup_keys(1) [of g nm] by (simp add: drilldown_data_def)
  next
    case 3
    then show ?thesis using city_lookup_keys(1) [of g nm] by (simp add: drilldown_data_def)
  next
    case 4
    then show ?thesis using recipient_lookup_keys(1) [of g nm] by (simp add: drilldown_data_def)
  qed
qed

lemma drilldown_data_missing:
  assumes "ty = ''keyword'' \<or> ty = ''state'' \<or> ty = ''city'' \<or> ty = ''recipient''"
    and k: "nm \<notin> keys_of g ty" and n: "nm \<notin> set object_prototype"
  shows "drilldown_data g ty nm = Missing"
proof -
  consider "ty = ''keyword''" | "ty = ''state''" | "ty = ''city''" | "ty = ''recipient''"
    using assms by blast
  then show ?thesis
  proof cases
    case 1
    with k n show ?thesis using keyword_lookup_keys(2) [of nm g] by (simp add: drilldown_data_def)
  next
    case 2
    with k n show ?thesis using state_lookup_keys(2) [of nm g] by (simp add: drilldown_data_def)
  next
    case 3
    with k n show ?thesis using city_lookup_keys(2) [of nm g] by (simp add: drilldown_data_def)
  next
    case 4
    with k n show ?thesis using recipient_lookup_keys(2) [of nm g] by (simp add: drilldown_data_def)
  qed
qed

lemma showDrilldown_no_entry:
  assumes "ty = ''keyword'' \<or> ty = ''state'' \<or> ty = ''city'' \<or> ty = ''recipient''"
    and "nm \<notin> keys_of g ty" and "nm \<notin> set object_prototype"
  shows "showDrilldown B g ty nm p =
           Return (p\<lparr>console := console p @ [Error [''No trend data for '' @ ty @ '':'', nm]]\<rparr>)"
proof -
  from assms have "drilldown_data g ty nm = Missing"
    by (rule drilldown_data_missing)
  with assms(1) show ?thesis by (auto simp add: showDrilldown_def)
qed

lemma showDrilldown_entry:
  assumes ty: "ty = ''keyword'' \<or> ty = ''state'' \<or> ty = ''city'' \<or> ty = ''recipient''"
    and d: "drilldown_data g ty nm = Own d"
    and els: "''modalTitle'' \<in> present p" "''modalSubtitle'' \<in> present p"
      "''modalTotalProjects'' \<in> present p" "''modalTotalFunding'' \<in> present p"
      "''drilldownModal'' \<in> present p" "''drilldownChart'' \<in> present p"
  shows "showDrilldown B g ty nm p =
     (let q = p\<lparr>textContent := (textContent p)
                  (''modalTitle'' \<mapsto> drilldown_title g ty nm,
                   ''modalSubtitle'' \<mapsto> drilldown_subtitle ty,
                   ''modalTotalProjects'' \<mapsto> formatNumber B (trend.total_projects d) False,
                   ''modalTotalFunding'' \<mapsto> formatCurrency B (trend.total_funding d) True),
                modal_display := ''flex''\<rparr>
      in case trend.yearly d of
           None \<Rightarrow> Throw TypeError q
         | Some ys \<Rightarrow> Return (q\<lparr>drilldownChart := Some (drilldown_chart ys)\<rparr>))"
  using ty d els
  by (auto simp add: showDrilldown_def show_modal_def build_drilldown_def Let_def
      split: option.splits)

lemma showDrilldown_inherited:
  assumes ty: "ty = ''keyword'' \<or> ty = ''state'' \<or> ty = ''city'' \<or> ty = ''recipient''"
    and d: "drilldown_data g ty nm = Inherited"
    and els: "''modalTitle'' \<in> present p" "''modalSubtitle'' \<in> present p"
      "''modalTotalProjects'' \<in> present p"
  shows "showDrilldown B g ty nm p =
     Throw TypeError
       (p\<lparr>textContent := (textContent p)
            (''modalTitle'' \<mapsto> drilldown_title g ty nm,
             ''modalSubtitle'' \<mapsto> drilldown_subtitle ty,
             ''modalTotalProjects'' \<mapsto> nf_plain_nonfinite B NaN)\<rparr>)"
  using ty d els by (auto simp add: showDrilldown_def set_text_def)

lemma step_keeps_modal:
  "modal_display (page_of (set_text i s p)) = modal_display p"
  "drilldownChart (page_of (set_text i s p)) = drilldownChart p"
  by (simp_all add: set_text_def)

lemma showDrilldown_opens_only_keys:
  assumes "modal_display (page_of (showDrilldown B g ty nm p)) \<noteq> modal_display p
           \<or> drilldownChart (page_of (showDrilldown B g ty nm p)) \<noteq> drilldownChart p"
  shows "(ty = ''keyword'' \<or> ty = ''state'' \<or> ty = ''city'' \<or> ty = ''recipient'')
         \<and> nm \<in> keys_of g ty"
proof (rule ccontr)
  assume n: "\<not> ?thesis"
  have same: "modal_display (page_of (showDrilldown B g ty nm p)) = modal_display p
      \<and> drilldownChart (page_of (showDrilldown B g ty nm p)) = drilldownChart p"
  proof (cases "ty = ''keyword'' \<or> ty = ''state'' \<or> ty = ''city'' \<or> ty = ''recipient''")
    case False
    then have "showDrilldown B g ty nm p =
        Return (p\<lparr>console := console p @ [Error [''Unknown drilldown type:'', ty]]\<rparr>)"
      by (simp add: showDrilldown_def)
    then show ?thesis by simp
  next
    case True
    with n have k: "nm \<notin> keys_of g ty" by blast
    show ?thesis
    proof (cases "drilldown_data g ty nm")
      case (Own d)
      with k drilldown_data_own [OF True, of g nm] show ?thesis by blast
    next
      case Missing
      with True have "showDrilldown B g ty nm p =
          Return (p\<lparr>console := console p @ [Error [''No trend data for '' @ ty @ '':'', nm]]\<rparr>)"
        by (auto simp add: showDrilldown_def)
      then show ?thesis by simp
    next
      case Inherited
      with True have "showDrilldown B g ty nm p =
          run [set_text ''modalTitle'' (drilldown_title g ty nm),
               set_text ''modalSubtitle'' (drilldown_subtitle ty),
               set_text ''modalTotalProjects'' (nf_plain_nonfinite B NaN),
               Throw TypeError] p"
        by (auto simp add: showDrilldown_def)
      then show ?thesis
        by (simp add: set_text_def and_then_def)
    qed
  qed
  with assms show False by blast
qed

lemma fresh_page_has:
  "''modalTitle'' \<in> present fresh_page" "''modalSubtitle'' \<in> present fresh_page"
  "''modalTotalProjects'' \<in> present fresh_page" "''modalTotalFunding'' \<in> present fresh_page"
  "''drilldownModal'' \<in> present fresh_page" "''drilldownChart'' \<in> present fresh_page"
  by (simp_all add: fresh_page_def page_ids_def)

lemma demo_city_data: "drilldown_data demo ''city'' ''Berlin'' = Own demo_trend"
  by (simp add: drilldown_data_def entity_lookup_def property_of_def demo_def demo_entityTrends_def)

lemma demo_keywords:
  "keyword_lookup demo ''energie'' = Own demo_trend"
  "keyword_lookup demo ''wasser'' = Missing"
  "keyword_lookup demo ''constructor'' = Inherited"
  by (simp_all add: keyword_lookup_def property_of_def object_prototype_def demo_def
      demo_keywordTrends_def)

lemma demo_city_drilldown:
  "modal_display (page_of (showDrilldown sample_builtins demo ''city'' ''Berlin'' fresh_page)) = ''flex''"
  using showDrilldown_entry [OF _ demo_city_data fresh_page_has, of sample_builtins]
  by (simp add: demo_trend_def Let_def)

text \<open>
  C8. Drill-down data is looked up with \<^verbatim>\<open>obj[name]\<close>, which finds the entry with
  exactly that name and also the members that every object inherits. The demo keyword
  trends have an entry for ``energie'' and none for ``wasser'' and ``constructor''. For
  ``wasser'' \<open>showDrilldown\<close> writes the error to the console and returns, and the
  keyword tag has no \<^verbatim>\<open>onclick\<close>. For ``constructor'' the look-up gives the inherited
  \<^verbatim>\<open>Object\<close> function: the tag gets an \<^verbatim>\<open>onclick\<close>, and \<open>showDrilldown\<close> writes
  nothing to the console, sets the title, the subtitle and the project count of the
  modal, and throws a \<^verbatim>\<open>TypeError\<close> before the modal is displayed.
\<close>

theorem drilldown_inherited_name:
  "''wasser'' \<notin> keys_of demo ''keyword''
   \<and> showDrilldown sample_builtins demo ''keyword'' ''wasser'' fresh_page =
       Return (fresh_page\<lparr>console := [Error [''No trend data for keyword:'', ''wasser'']]\<rparr>)
   \<and> tag_onclick (keyword_tag_of sample_builtins demo 10 \<lparr>word = ''wasser'', count = 3\<rparr>) = None
   \<and> ''constructor'' \<notin> keys_of demo ''keyword''
   \<and> showDrilldown sample_builtins demo ''keyword'' ''constructor'' fresh_page =
       Throw TypeError
         (fresh_page\<lparr>textContent :=
            [''modalTitle'' \<mapsto> [CHR 0x22] @ ''constructor'' @ [CHR 0x22],
             ''modalSubtitle'' \<mapsto> ''Projects containing this keyword (includes compound words)'',
             ''modalTotalProjects'' \<mapsto> ''NaN'']\<rparr>)
   \<and> console (page_of (showDrilldown sample_builtins demo ''keyword'' ''constructor'' fresh_page)) = []
   \<and> modal_display (page_of (showDrilldown sample_builtins demo ''keyword'' ''constructor'' fresh_page))
       = ''none''
   \<and> tag_onclick (keyword_tag_of sample_builtins demo 10 \<lparr>word = ''constructor'', count = 4\<rparr>)
       = Some (''showKeywordTrends('' @ quote @ ''constructor'' @ quote @ '')'')"
proof -
  have k: "''wasser'' \<notin> keys_of demo ''keyword''" "''constructor'' \<notin> keys_of demo ''keyword''"
    by (simp_all add: keys_of_def demo_def demo_keywordTrends_def)
  have w: "showDrilldown sample_builtins demo ''keyword'' ''wasser'' fresh_page =
       Return (fresh_page\<lparr>console := [Error [''No trend data for keyword:'', ''wasser'']]\<rparr>)"
    using demo_keywords(2)
    by (simp add: showDrilldown_def drilldown_data_def fresh_page_def)
  have d: "drilldown_data demo ''keyword'' ''constructor'' = Inherited"
    using demo_keywords(3) by (simp add: drilldown_data_def)
  have c: "showDrilldown sample_builtins demo ''keyword'' ''constructor'' fresh_page =
       Throw TypeError
         (fresh_page\<lparr>textContent :=
            [''modalTitle'' \<mapsto> [CHR 0x22] @ ''constructor'' @ [CHR 0x22],
             ''modalSubtitle'' \<mapsto> ''Projects containing this keyword (includes compound words)'',
             ''modalTotalProjects'' \<mapsto> ''NaN'']\<rparr>)"
    using showDrilldown_inherited [OF _ d fresh_page_has(1-3), of sample_builtins]
    by (simp add: drilldown_title_def drilldown_subtitle_def sample_builtins_def
        nonfinite_text_def fresh_page_def)
  have e: "console (page_of (showDrilldown sample_builtins demo ''keyword'' ''constructor'' fresh_page)) = []"
    "modal_display (page_of (showDrilldown sample_builtins demo ''keyword'' ''constructor'' fresh_page))
       = ''none''"
    unfolding c by (simp_all add: fresh_page_def)
  have t: "tag_onclick (keyword_tag_of sample_builtins demo 10 \<lparr>word = ''wasser'', count = 3\<rparr>) = None"
    "tag_onclick (keyword_tag_of sample_builtins demo 10 \<lparr>word = ''constructor'', count = 4\<rparr>)
       = Some (''showKeywordTrends('' @ quote @ ''constructor'' @ quote @ '')'')"
    using demo_keywords by (simp_all add: keyword_tag_of_def Let_def)
  from k(1) w t(1) k(2) c e t(2) show ?thesis by (intro conjI)
qed

subsection \<open>The forecast chart\<close>

lemma length_stitched:
  "length (stitched g k) = length (butlast (recentHistory g)) + 1 + length (forecastData g)"
  by (simp add: stitched_def)

lemma stitched_null:
  "i < length (recentHistory g) - 1 \<Longrightarrow> stitched g k ! i = Null"
  by (simp add: stitched_def nth_append)

lemma stitched_last:
  "stitched g k ! (length (recentHistory g) - 1) = Num (lastHistoricalValue g)"
  by (simp add: stitched_def nth_append)

lemma stitched_forecast:
  "j < length (forecastData g) \<Longrightarrow>
   stitched g k ! (length (recentHistory g) - 1 + 1 + j) = get (forecastData g ! j) k"
  by (simp add: stitched_def nth_append)

lemma lastHistoricalValue_eq:
  "lastHistoricalValue g =
     (if recentHistory g = [] then 0 else year_row.total_funding (last (recentHistory g)))"
  by (simp add: lastHistoricalValue_def Let_def split: list.splits)

lemma recentHistory_window:
  "d \<in> set (recentHistory g) \<Longrightarrow>
   current_year (forecast g) - 10 \<le> year d \<and> year d \<le> current_year (forecast g)"
  by (simp add: recentHistory_def)

lemma forecast_chart_series:
  "map ds_data (datasets (forecast_chart g)) =
     [map (\<lambda>d. Num (year_row.total_funding d)) (recentHistory g)
        @ replicate (length (forecastData g)) Null,
      replicate (length (recentHistory g) - 1) Null @ [Num (lastHistoricalValue g)]
        @ map (\<lambda>d. get d ''predicted_funding'') (forecastData g),
      replicate (length (recentHistory g) - 1) Null @ [Num (lastHistoricalValue g)]
        @ map (\<lambda>d. get d ''upper_bound'') (forecastData g),
      replicate (length (recentHistory g) - 1) Null @ [Num (lastHistoricalValue g)]
        @ map (\<lambda>d. get d ''lower_bound'') (forecastData g),
      replicate (length (recentHistory g)) Null
        @ map (\<lambda>d. or_else (get d ''approved_funding'') Null) (forecastData g)]"
  by (simp add: forecast_chart_def historicalFunding_def predictedFunding_def upperBound_def
      lowerBound_def approvedFunding_def stitched_def map_replicate_const)

lemma forecast_chart_labels:
  "labels (forecast_chart g) =
     map (\<lambda>d. Num (year d)) (recentHistory g) @ map (\<lambda>d. get d ''year'') (forecastData g)"
  "map ds_label (datasets (forecast_chart g)) =
     [Str ''Historical Funding'', Str ''Forecast (Prophet ML)'', Str ''80% Confidence Upper'',
      Str ''80% Confidence Lower'', Str ''Already Approved'']"
  by (simp_all add: forecast_chart_def allYears_def)

lemma forecast_chart_nth:
  "ds_data (datasets (forecast_chart g) ! 1) = predictedFunding g"
  "ds_data (datasets (forecast_chart g) ! 2) = upperBound g"
  "ds_data (datasets (forecast_chart g) ! 3) = lowerBound g"
  "ds_data (datasets (forecast_chart g) ! 4) = approvedFunding g"
  "ds_data (datasets (forecast_chart g) ! Suc 0) = predictedFunding g"
  by (simp_all add: forecast_chart_def numeral_3_eq_3 eval_nat_numeral)

lemma stitched_after:
  assumes "recentHistory g \<noteq> []" and "length (recentHistory g) \<le> i"
    and "i < length (recentHistory g) + length (forecastData g)"
  shows "stitched g k ! i = get (forecastData g ! (i - length (recentHistory g))) k"
proof -
  let ?n = "length (recentHistory g)"
  from assms(1) have n: "?n - 1 + 1 = ?n" by (cases "recentHistory g") simp_all
  from assms(2,3) have j: "i - ?n < length (forecastData g)" by simp
  from stitched_forecast [OF j, of k] n assms(2) show ?thesis by simp
qed

lemma stitched_join:
  "recentHistory g \<noteq> [] \<Longrightarrow>
   stitched g k ! (length (recentHistory g) - Suc 0)
     = Num (year_row.total_funding (last (recentHistory g)))"
  using stitched_last [of g k] by (simp add: lastHistoricalValue_eq)

lemma forecast_positions:
  assumes h: "recentHistory g \<noteq> []"
    and f: "\<forall>d \<in> set (forecastData g). \<exists>y. get d ''year'' = Num y \<and> current_year (forecast g) < y"
    and i: "i < length (labels (forecast_chart g))"
  shows "(i < length (recentHistory g) \<longrightarrow>
            (\<exists>y. labels (forecast_chart g) ! i = Num y \<and> y \<le> current_year (forecast g))
            \<and> ds_data (datasets (forecast_chart g) ! 4) ! i = Null
            \<and> (i < length (recentHistory g) - 1 \<longrightarrow>
                 ds_data (datasets (forecast_chart g) ! 1) ! i = Null
                 \<and> ds_data (datasets (forecast_chart g) ! 2) ! i = Null
                 \<and> ds_data (datasets (forecast_chart g) ! 3) ! i = Null)
            \<and> (i = length (recentHistory g) - 1 \<longrightarrow>
                 ds_data (datasets (forecast_chart g) ! 1) ! i
                   = Num (year_row.total_funding (last (recentHistory g)))
                 \<and> ds_data (datasets (forecast_chart g) ! 2) ! i
                   = Num (year_row.total_funding (last (recentHistory g)))
                 \<and> ds_data (datasets (forecast_chart g) ! 3) ! i
                   = Num (year_row.total_funding (last (recentHistory g)))))
       \<and> (length (recentHistory g) \<le> i \<longrightarrow>
            (\<exists>y. labels (forecast_chart g) ! i = Num y \<and> current_year (forecast g) < y)
            \<and> ds_data (datasets (forecast_chart g) ! 1) ! i
                = get (forecastData g ! (i - length (recentHistory g))) ''predicted_funding''
            \<and> ds_data (datasets (forecast_chart g) ! 2) ! i
                = get (forecastData g ! (i - length (recentHistory g))) ''upper_bound''
            \<and> ds_data (datasets (forecast_chart g) ! 3) ! i
                = get (forecastData g ! (i - length (recentHistory g))) ''lower_bound''
            \<and> ds_data (datasets (forecast_chart g) ! 4) ! i
                = or_else (get (forecastData g ! (i - length (recentHistory g))) ''approved_funding'')
                    Null)"
proof (intro conjI impI)
  let ?n = "length (recentHistory g)"
  from i have i': "i < ?n + length (forecastData g)"
    by (simp add: forecast_chart_labels)
  {
    assume a: "i < ?n"
    then have "recentHistory g ! i \<in> set (recentHistory g)" by simp
    from recentHistory_window [OF this] a
    show "\<exists>y. labels (forecast_chart g) ! i = Num y \<and> y \<le> current_year (forecast g)"
      by (simp add: forecast_chart_labels nth_append)
    from a show "ds_data (datasets (forecast_chart g) ! 4) ! i = Null"
      by (simp add: forecast_chart_nth approvedFunding_def nth_append)
    {
      assume "i < ?n - 1"
      then show "ds_data (datasets (forecast_chart g) ! 1) ! i = Null"
        "ds_data (datasets (forecast_chart g) ! 2) ! i = Null"
        "ds_data (datasets (forecast_chart g) ! 3) ! i = Null"
        by (simp_all add: forecast_chart_nth predictedFunding_def upperBound_def lowerBound_def
            stitched_null)
    }
    {
      assume "i = ?n - 1"
      then show "ds_data (datasets (forecast_chart g) ! 1) ! i
                   = Num (year_row.total_funding (last (recentHistory g)))"
        "ds_data (datasets (forecast_chart g) ! 2) ! i
                   = Num (year_row.total_funding (last (recentHistory g)))"
        "ds_data (datasets (forecast_chart g) ! 3) ! i
                   = Num (year_row.total_funding (last (recentHistory g)))"
        using h
        by (simp_all add: forecast_chart_nth predictedFunding_def upperBound_def lowerBound_def
            stitched_join)
    }
  }
  {
    assume a: "?n \<le> i"
    with i' have j: "i - ?n < length (forecastData g)" by simp
    then have "forecastData g ! (i - ?n) \<in> set (forecastData g)" by simp
    with f obtain y where "get (forecastData g ! (i - ?n)) ''year'' = Num y"
      "current_year (forecast g) < y"
      by blast
    with a j show "\<exists>y. labels (forecast_chart g) ! i = Num y \<and> current_year (forecast g) < y"
      by (simp add: forecast_chart_labels nth_append)
    from stitched_after [OF h a i']
    show "ds_data (datasets (forecast_chart g) ! 1) ! i
                = get (forecastData g ! (i - ?n)) ''predicted_funding''"
      "ds_data (datasets (forecast_chart g) ! 2) ! i
                = get (forecastData g ! (i - ?n)) ''upper_bound''"
      "ds_data (datasets (forecast_chart g) ! 3) ! i
                = get (forecastData g ! (i - ?n)) ''lower_bound''"
      by (simp_all add: forecast_chart_nth predictedFunding_def upperBound_def lowerBound_def)
    from a j show "ds_data (datasets (forecast_chart g) ! 4) ! i
                = or_else (get (forecastData g ! (i - ?n)) ''approved_funding'') Null"
      by (simp add: forecast_chart_nth approvedFunding_def nth_append)
  }
qed

text \<open>
  C10 as stated fails where it concludes that forecast values are plotted only for years
  after \<open>current_year\<close>: the script plots every entry of the forecast document under
  the entry's own year and compares no forecast year with \<open>current_year\<close>. With a
  forecast document that begins in the current year, 2025, the chart has the label 2025
  twice, and under the second one the predicted value 510, the bounds and the approved
  funding of that entry.
\<close>

theorem forecast_years_counterexample:
  "current_year (forecast overlapping_forecast) = 2025
   \<and> map_option labels
        (charts (page_of (createTemporalChart overlapping_forecast ''forecast'' fresh_page)) ''temporal'')
       = Some [Num 2015, Num 2025, Num 2025, Num 2026]
   \<and> map_option datasets
        (charts (page_of (createTemporalChart overlapping_forecast ''forecast'' fresh_page)) ''temporal'')
       = Some [\<lparr>ds_label = Str ''Historical Funding'', ds_data = [Num 400, Num 500, Null, Null]\<rparr>,
               \<lparr>ds_label = Str ''Forecast (Prophet ML)'', ds_data = [Null, Num 500, Num 510, Num 550]\<rparr>,
               \<lparr>ds_label = Str ''80% Confidence Upper'', ds_data = [Null, Num 500, Num 540, Num 650]\<rparr>,
               \<lparr>ds_label = Str ''80% Confidence Lower'', ds_data = [Null, Num 500, Num 480, Num 450]\<rparr>,
               \<lparr>ds_label = Str ''Already Approved'', ds_data = [Null, Null, Num 300, Num 120]\<rparr>]"
proof -
  have h: "recentHistory overlapping_forecast =
      [\<lparr>year = 2015, year_row.total_funding = 400, year_row.project_count = 4\<rparr>,
       \<lparr>year = 2025, year_row.total_funding = 500, year_row.project_count = 5\<rparr>]"
    by (simp add: recentHistory_def overlapping_forecast_def demo_def demo_temporal_def)
  have f: "forecastData overlapping_forecast =
      [[(''year'', Num 2025), (''predicted_funding'', Num 510), (''lower_bound'', Num 480),
        (''upper_bound'', Num 540), (''approved_funding'', Num 300)],
       [(''year'', Num 2026), (''predicted_funding'', Num 550), (''lower_bound'', Num 450),
        (''upper_bound'', Num 650), (''approved_funding'', Num 120)]]"
    by (simp add: forecastData_def overlapping_forecast_def)
  have c: "forecast_chart overlapping_forecast =
      \<lparr>canvas = ''temporalChart'', chart_type = ''line'',
       labels = [Num 2015, Num 2025, Num 2025, Num 2026],
       datasets =
         [\<lparr>ds_label = Str ''Historical Funding'', ds_data = [Num 400, Num 500, Null, Null]\<rparr>,
          \<lparr>ds_label = Str ''Forecast (Prophet ML)'', ds_data = [Null, Num 500, Num 510, Num 550]\<rparr>,
          \<lparr>ds_label = Str ''80% Confidence Upper'', ds_data = [Null, Num 500, Num 540, Num 650]\<rparr>,
          \<lparr>ds_label = Str ''80% Confidence Lower'', ds_data = [Null, Num 500, Num 480, Num 450]\<rparr>,
          \<lparr>ds_label = Str ''Already Approved'', ds_data = [Null, Null, Num 300, Num 120]\<rparr>]\<rparr>"
    by (simp add: forecast_chart_def allYears_def historicalFunding_def predictedFunding_def
        upperBound_def lowerBound_def approvedFunding_def stitched_def lastHistoricalValue_eq
        h f get_def or_else_def)
  have p: "''temporalChart'' \<in> present fresh_page"
    by (simp add: fresh_page_def page_ids_def)
  have "current_year (forecast overlapping_forecast) = 2025"
    by (simp add: overlapping_forecast_def)
  moreover from p have "charts (page_of (createTemporalChart overlapping_forecast ''forecast'' fresh_page))
      ''temporal'' = Some (forecast_chart overlapping_forecast)"
    by (simp add: createTemporalChart_def createForecastChart_def new_chart_def)
  ultimately show ?thesis by (simp add: c)
qed

text \<open>
  C10, amended. The forecast is joined to the history at one point. On a page with the
  canvas, \<open>createTemporalChart\<close> with the range \<^verbatim>\<open>forecast\<close> puts the chart of
  \<open>createForecastChart\<close> into \<^verbatim>\<open>charts.temporal\<close>. Its labels are the years of the
  ten-year window, which are none after \<open>current_year\<close>, followed by the years of the
  forecast entries. With \<open>n\<close> entries in the window, the predicted, upper and lower
  series are \<open>n - 1\<close> times \<^verbatim>\<open>null\<close>, then the last historical \<open>total_funding\<close> (0 when
  the window is empty), then the values of the forecast entries; the approved series is
  \<open>n\<close> times \<^verbatim>\<open>null\<close>, then the approved funding of the forecast entries, \<^verbatim>\<open>null\<close>
  where it is zero or missing. So when the window is not empty and every forecast entry
  is dated after \<open>current_year\<close>, each position either has a year of the window and
  \<^verbatim>\<open>null\<close> in these four series, except for the last historical value at the join, or
  has a year after \<open>current_year\<close> and the values of the forecast entry of that year.
\<close>

theorem forecast_stitching:
  "(''temporalChart'' \<in> present p \<longrightarrow>
      createTemporalChart g ''forecast'' p
        = Return (p\<lparr>charts := (charts p)(''temporal'' \<mapsto> forecast_chart g)\<rparr>))
   \<and> createForecastChart g p = Return (p\<lparr>charts := (charts p)(''temporal'' \<mapsto> forecast_chart g)\<rparr>)
   \<and> recentHistory g =
       filter (\<lambda>d. current_year (forecast g) - 10 \<le> year d \<and> year d \<le> current_year (forecast g))
         (yearly_totals (temporal g))
   \<and> forecastData g = funding_forecast.forecast (forecast g)
   \<and> labels (forecast_chart g) =
       map (\<lambda>d. Num (year d)) (recentHistory g) @ map (\<lambda>d. get d ''year'') (forecastData g)
   \<and> map ds_label (datasets (forecast_chart g)) =
       [Str ''Historical Funding'', Str ''Forecast (Prophet ML)'', Str ''80% Confidence Upper'',
        Str ''80% Confidence Lower'', Str ''Already Approved'']
   \<and> map ds_data (datasets (forecast_chart g)) =
       [map (\<lambda>d. Num (year_row.total_funding d)) (recentHistory g)
          @ replicate (length (forecastData g)) Null,
        replicate (length (recentHistory g) - 1) Null @ [Num (lastHistoricalValue g)]
          @ map (\<lambda>d. get d ''predicted_funding'') (forecastData g),
        replicate (length (recentHistory g) - 1) Null @ [Num (lastHistoricalValue g)]
          @ map (\<lambda>d. get d ''upper_bound'') (forecastData g),
        replicate (length (recentHistory g) - 1) Null @ [Num (lastHistoricalValue g)]
          @ map (\<lambda>d. get d ''lower_bound'') (forecastData g),
        replicate (length (recentHistory g)) Null
          @ map (\<lambda>d. or_else (get d ''approved_funding'') Null) (forecastData g)]
   \<and> lastHistoricalValue g =
       (if recentHistory g = [] then 0 else year_row.total_funding (last (recentHistory g)))
   \<and> (recentHistory g \<noteq> []
        \<and> (\<forall>d \<in> set (forecastData g). \<exists>y. get d ''year'' = Num y \<and> current_year (forecast g) < y)
        \<and> i < length (labels (forecast_chart g)) \<longrightarrow>
        (i < length (recentHistory g) \<longrightarrow>
            (\<exists>y. labels (forecast_chart g) ! i = Num y \<and> y \<le> current_year (forecast g))
            \<and> ds_data (datasets (forecast_chart g) ! 4) ! i = Null
            \<and> (i < length (recentHistory g) - 1 \<longrightarrow>
                 ds_data (datasets (forecast_chart g) ! 1) ! i = Null
                 \<and> ds_data (datasets (forecast_chart g) ! 2) ! i = Null
                 \<and> ds_data (datasets (forecast_chart g) ! 3) ! i = Null)
            \<and> (i = length (recentHistory g) - 1 \<longrightarrow>
                 ds_data (datasets (forecast_chart g) ! 1) ! i
                   = Num (year_row.total_funding (last (recentHistory g)))
                 \<and> ds_data (datasets (forecast_chart g) ! 2) ! i
                   = Num (year_row.total_funding (last (recentHistory g)))
                 \<and> ds_data (datasets (forecast_chart g) ! 3) ! i
                   = Num (year_row.total_funding (last (recentHistory g)))))
        \<and> (length (recentHistory g) \<le> i \<longrightarrow>
            (\<exists>y. labels (forecast_chart g) ! i = Num y \<and> current_year (forecast g) < y)
            \<and> ds_data (datasets (forecast_chart g) ! 1) ! i
                = get (forecastData g ! (i - length (recentHistory g))) ''predicted_funding''
            \<and> ds_data (datasets (forecast_chart g) ! 2) ! i
                = get (forecastData g ! (i - length (recentHistory g))) ''upper_bound''
            \<and> ds_data (datasets (forecast_chart g) ! 3) ! i
                = get (forecastData g ! (i - length (recentHistory g))) ''lower_bound''
            \<and> ds_data (datasets (forecast_chart g) ! 4) ! i
                = or_else (get (forecastData g ! (i - length (recentHistory g))) ''approved_funding'')
                    Null))"
proof -
  have a: "''temporalChart'' \<in> present p \<longrightarrow>
      createTemporalChart g ''forecast'' p
        = Return (p\<lparr>charts := (charts p)(''temporal'' \<mapsto> forecast_chart g)\<rparr>)"
    by (simp add: createTemporalChart_def createForecastChart_def new_chart_def)
  have b: "createForecastChart g p = Return (p\<lparr>charts := (charts p)(''temporal'' \<mapsto> forecast_chart g)\<rparr>)"
    by (simp add: createForecastChart_def new_chart_def)
  have c: "recentHistory g =
       filter (\<lambda>d. current_year (forecast g) - 10 \<le> year d \<and> year d \<le> current_year (forecast g))
         (yearly_totals (temporal g))"
    by (simp add: recentHistory_def)
  have d: "forecastData g = funding_forecast.forecast (forecast g)"
    by (simp add: forecastData_def)
  show ?thesis
    apply (intro conjI)
            apply (rule a)
           apply (rule b)
          apply (rule c)
         apply (rule d)
        apply (rule forecast_chart_labels(1))
       apply (rule forecast_chart_labels(2))
      apply (rule forecast_chart_series)
     apply (rule lastHistoricalValue_eq)
    apply (rule impI)
    apply (rule forecast_positions)
      apply (erule conjunct1)
     apply (erule conjunct1 [OF conjunct2])
    apply (erule conjunct2 [OF conjunct2])
    done
qed

lemma demo_forecast_chart:
  "forecast_chart demo =
      \<lparr>canvas = ''temporalChart'', chart_type = ''line'',
       labels = [Num 2015, Num 2025, Num 2026, Num 2027],
       datasets =
         [\<lparr>ds_label = Str ''Historical Funding'', ds_data = [Num 400, Num 500, Null, Null]\<rparr>,
          \<lparr>ds_label = Str ''Forecast (Prophet ML)'', ds_data = [Null, Num 500, Num 550, Num 560]\<rparr>,
          \<lparr>ds_label = Str ''80% Confidence Upper'', ds_data = [Null, Num 500, Num 650, Num 720]\<rparr>,
          \<lparr>ds_label = Str ''80% Confidence Lower'', ds_data = [Null, Num 500, Num 450, Num 400]\<rparr>,
          \<lparr>ds_label = Str ''Already Approved'', ds_data = [Null, Null, Num 120, Null]\<rparr>]\<rparr>"
proof -
  have h: "recentHistory demo =
      [\<lparr>year = 2015, year_row.total_funding = 400, year_row.project_count = 4\<rparr>,
       \<lparr>year = 2025, year_row.total_funding = 500, year_row.project_count = 5\<rparr>]"
    by (simp add: recentHistory_def demo_def demo_forecast_def demo_temporal_def)
  have f: "forecastData demo = funding_forecast.forecast demo_forecast"
    by (simp add: forecastData_def demo_def)
  show ?thesis
    by (simp add: forecast_chart_def allYears_def historicalFunding_def predictedFunding_def
        upperBound_def lowerBound_def approvedFunding_def stitched_def lastHistoricalValue_eq
        h f demo_forecast_def get_def or_else_def)
qed

theorem forecast_stitching_witness:
  "''temporalChart'' \<in> present fresh_page
   \<and> createTemporalChart demo ''forecast'' fresh_page
       = Return (fresh_page\<lparr>charts := (charts fresh_page)(''temporal'' \<mapsto> forecast_chart demo)\<rparr>)
   \<and> map year (recentHistory demo) = [2015, 2025]
   \<and> current_year (forecast demo) = 2025
   \<and> labels (forecast_chart demo) = [Num 2015, Num 2025, Num 2026, Num 2027]
   \<and> map ds_data (datasets (forecast_chart demo)) =
       [[Num 400, Num 500, Null, Null],
        [Null, Num 500, Num 550, Num 560],
        [Null, Num 500, Num 650, Num 720],
        [Null, Num 500, Num 450, Num 400],
        [Null, Null, Num 120, Null]]
   \<and> recentHistory demo \<noteq> []
   \<and> map (\<lambda>d. get d ''year'') (forecastData demo) = [Num 2026, Num 2027]
   \<and> (\<exists>y. labels (forecast_chart demo) ! 2 = Num y \<and> current_year (forecast demo) < y)
   \<and> ds_data (datasets (forecast_chart demo) ! 1) ! 2 = Num 550
   \<and> ds_data (datasets (forecast_chart demo) ! 1) ! 0 = Null
   \<and> ds_data (datasets (forecast_chart demo) ! 1) ! 1 = Num 500"
proof -
  have p: "''temporalChart'' \<in> present fresh_page"
    by (simp add: fresh_page_def page_ids_def)
  have h: "recentHistory demo =
      [\<lparr>year = 2015, year_row.total_funding = 400, year_row.project_count = 4\<rparr>,
       \<lparr>year = 2025, year_row.total_funding = 500, year_row.project_count = 5\<rparr>]"
    by (simp add: recentHistory_def demo_def demo_forecast_def demo_temporal_def)
  have f: "forecastData demo =
        [[(''year'', Num 2026), (''predicted_funding'', Num 550), (''lower_bound'', Num 450),
          (''upper_bound'', Num 650), (''approved_funding'', Num 120)],
         [(''year'', Num 2027), (''predicted_funding'', Num 560), (''lower_bound'', Num 400),
          (''upper_bound'', Num 720), (''approved_funding'', Num 0)]]"
    by (simp add: forecastData_def demo_def demo_forecast_def)
  have cy: "current_year (forecast demo) = 2025"
    by (simp add: demo_def demo_forecast_def)
  have ne: "recentHistory demo \<noteq> []" by (simp add: h)
  have fy: "\<forall>d \<in> set (forecastData demo). \<exists>y. get d ''year'' = Num y \<and> current_year (forecast demo) < y"
    by (simp add: f cy get_def)
  have l: "labels (forecast_chart demo) = [Num 2015, Num 2025, Num 2026, Num 2027]"
    by (simp add: demo_forecast_chart)
  have t2: "map ds_data (datasets (forecast_chart demo)) =
       [[Num 400, Num 500, Null, Null],
        [Null, Num 500, Num 550, Num 560],
        [Null, Num 500, Num 650, Num 720],
        [Null, Num 500, Num 450, Num 400],
        [Null, Null, Num 120, Null]]"
    by (simp add: demo_forecast_chart)
  have t1: "createTemporalChart demo ''forecast'' fresh_page
       = Return (fresh_page\<lparr>charts := (charts fresh_page)(''temporal'' \<mapsto> forecast_chart demo)\<rparr>)"
    using forecast_stitching [of fresh_page demo] p by blast
  have i2: "2 < length (labels (forecast_chart demo))" "length (recentHistory demo) \<le> 2"
    by (simp_all add: l h)
  have "(\<exists>y. labels (forecast_chart demo) ! 2 = Num y \<and> current_year (forecast demo) < y)
      \<and> ds_data (datasets (forecast_chart demo) ! 1) ! 2
          = get (forecastData demo ! (2 - length (recentHistory demo))) ''predicted_funding''"
    using forecast_stitching [of fresh_page demo 2] ne fy i2 by blast
  then have t4: "\<exists>y. labels (forecast_chart demo) ! 2 = Num y \<and> current_year (forecast demo) < y"
    and t5: "ds_data (datasets (forecast_chart demo) ! 1) ! 2 = Num 550"
    by (simp_all add: f h get_def)
  have i0: "0 < length (labels (forecast_chart demo))" "0 < length (recentHistory demo)"
    "0 < length (recentHistory demo) - 1"
    by (simp_all add: l h)
  have t6: "ds_data (datasets (forecast_chart demo) ! 1) ! 0 = Null"
    using forecast_stitching [of fresh_page demo 0] ne fy i0 by blast
  have i1: "1 < length (labels (forecast_chart demo))" "1 < length (recentHistory demo)"
    "1 = length (recentHistory demo) - 1"
    by (simp_all add: l h)
  have "ds_data (datasets (forecast_chart demo) ! 1) ! 1
      = Num (year_row.total_funding (last (recentHistory demo)))"
    using forecast_stitching [of fresh_page demo 1] ne fy i1 by blast
  then have t7: "ds_data (datasets (forecast_chart demo) ! 1) ! 1 = Num 500"
    by (simp add: h)
  have hy: "map year (recentHistory demo) = [2015, 2025]" by (simp add: h)
  have fys: "map (\<lambda>d. get d ''year'') (forecastData demo) = [Num 2026, Num 2027]"
    by (simp add: f get_def)
  from p t1 hy cy l t2 ne fys t4 t5 t6 t7 show ?thesis by (intro conjI)
qed

subsection \<open>Binding by field name\<close>

lemma get_rename_absent: "b \<noteq> a \<Longrightarrow> get (rename a b d) a = Undefined"
proof -
  assume "b \<noteq> a"
  then have "map_of (rename a b d) a = None"
    by (induction d) (auto simp add: rename_def split: if_splits)
  then show ?thesis by (simp add: get_def)
qed

lemma get_rename_other: "k \<noteq> a \<Longrightarrow> k \<noteq> b \<Longrightarrow> get (rename a b d) k = get d k"
proof -
  assume "k \<noteq> a" "k \<noteq> b"
  then have "map_of (rename a b d) k = map_of d k"
    by (induction d) (auto simp add: rename_def split: if_splits)
  then show ?thesis by (simp add: get_def)
qed

lemma recentHistory_rename [simp]: "recentHistory (rename_forecast a b g) = recentHistory g"
  by (simp add: recentHistory_def rename_forecast_def)

lemma forecastData_rename [simp]:
  "forecastData (rename_forecast a b g) = map (rename a b) (forecastData g)"
  by (simp add: forecastData_def rename_forecast_def)

lemma lastHistoricalValue_rename [simp]:
  "lastHistoricalValue (rename_forecast a b g) = lastHistoricalValue g"
  by (simp add: lastHistoricalValue_eq)

lemma stitched_rename:
  "b \<noteq> k \<Longrightarrow>
   stitched (rename_forecast k b g) k =
     map (\<lambda>d. Null) (butlast (recentHistory g)) @ [Num (lastHistoricalValue g)]
     @ map (\<lambda>d. Undefined) (forecastData g)"
  by (simp add: stitched_def get_rename_absent)

lemma approved_rename:
  "b \<noteq> ''approved_funding'' \<Longrightarrow>
   approvedFunding (rename_forecast ''approved_funding'' b g) =
     map (\<lambda>d. Null) (recentHistory g) @ map (\<lambda>d. Null) (forecastData g)"
  by (simp add: approvedFunding_def get_rename_absent or_else_def)

lemma decadeData_rename:
  "decadeData (rename_decades a b g) =
     map (\<lambda>(decade, entries). (decade, map (rename a b) entries)) (decadeData g)"
  by (simp add: decadeData_def rename_decades_def split: option.splits)

lemma map_of_renamed:
  "map_of (map (\<lambda>(decade, entries). (decade, map (rename a b) entries)) xs) k
     = map_option (map (rename a b)) (map_of xs k)"
  by (induction xs) auto

lemma find_renamed:
  assumes "''ministry'' \<noteq> a" and "''ministry'' \<noteq> b"
  shows "find (\<lambda>m. get m ''ministry'' = v) (map (rename a b) es)
     = map_option (rename a b) (find (\<lambda>m. get m ''ministry'' = v) es)"
  using assms by (induction es) (simp_all add: get_rename_other)

lemma decade_cell_found:
  "find (\<lambda>m. get m ''ministry'' = v)
      (case map_of (decadeData g) decade of None \<Rightarrow> [] | Some es \<Rightarrow> es) = Some ministryInfo
   \<Longrightarrow> decade_cell g v decade = get ministryInfo ''share_pct''"
  by (simp add: decade_cell_def)

lemma decade_cell_renamed:
  assumes f: "find (\<lambda>m. get m ''ministry'' = v)
      (case map_of (decadeData g) decade of None \<Rightarrow> [] | Some es \<Rightarrow> es) = Some ministryInfo"
    and b: "b \<noteq> ''share_pct''" "b \<noteq> ''ministry''"
  shows "decade_cell (rename_decades ''share_pct'' b g) v decade = Undefined"
proof -
  let ?info = "case map_of (decadeData g) decade of None \<Rightarrow> [] | Some es \<Rightarrow> es"
  have "(case map_of (decadeData (rename_decades ''share_pct'' b g)) decade of
           None \<Rightarrow> [] | Some es \<Rightarrow> es) = map (rename ''share_pct'' b) ?info"
    by (simp add: decadeData_rename map_of_renamed split: option.splits)
  moreover have "find (\<lambda>m. get m ''ministry'' = v) (map (rename ''share_pct'' b) ?info)
      = Some (rename ''share_pct'' b ministryInfo)"
    using find_renamed [of "''share_pct''" b v ?info] f b by simp
  ultimately show ?thesis
    using b by (simp add: decade_cell_def get_rename_absent)
qed

text \<open>
  C3 as stated fails where it says that any renaming of these fields changes what is
  rendered: \<^verbatim>\<open>d.approved_funding || null\<close> renders a missing field like a zero. In a
  forecast document whose entries are approved with 0, calling the field
  \<^verbatim>\<open>approved\<close> instead of \<^verbatim>\<open>approved_funding\<close> changes the document and leaves the
  forecast chart as it was.
\<close>

theorem renaming_changes_counterexample:
  "funding_forecast.forecast (forecast (rename_forecast ''approved_funding'' ''approved'' unapproved))
     \<noteq> funding_forecast.forecast (forecast unapproved)
   \<and> createTemporalChart (rename_forecast ''approved_funding'' ''approved'' unapproved)
        ''forecast'' fresh_page
     = createTemporalChart unapproved ''forecast'' fresh_page
   \<and> charts (page_of (createTemporalChart unapproved ''forecast'' fresh_page)) ''temporal''
     = Some (forecast_chart unapproved)
   \<and> approvedFunding unapproved = [Null, Null, Null]"
proof -
  have a: "funding_forecast.forecast (forecast (rename_forecast ''approved_funding'' ''approved'' unapproved))
     \<noteq> funding_forecast.forecast (forecast unapproved)"
    by (simp add: rename_forecast_def unapproved_def unapproved_forecast_def rename_def)
  have h: "recentHistory unapproved =
      [\<lparr>year = 2015, year_row.total_funding = 400, year_row.project_count = 4\<rparr>,
       \<lparr>year = 2025, year_row.total_funding = 500, year_row.project_count = 5\<rparr>]"
    by (simp add: recentHistory_def unapproved_def unapproved_forecast_def demo_def demo_temporal_def)
  have f: "forecastData unapproved = funding_forecast.forecast unapproved_forecast"
    by (simp add: forecastData_def unapproved_def)
  have ap: "approvedFunding unapproved = map (\<lambda>d. Null) (recentHistory unapproved) @ [Null]"
    by (simp add: approvedFunding_def f unapproved_forecast_def get_def or_else_def)
  then have ap': "approvedFunding unapproved = [Null, Null, Null]"
    by (simp add: h)
  have g1: "\<And>k. k \<noteq> ''approved_funding'' \<Longrightarrow> k \<noteq> ''approved'' \<Longrightarrow>
      map (\<lambda>d. get d k) (forecastData (rename_forecast ''approved_funding'' ''approved'' unapproved))
      = map (\<lambda>d. get d k) (forecastData unapproved)"
    by (simp add: get_rename_other)
  have c: "forecast_chart (rename_forecast ''approved_funding'' ''approved'' unapproved)
      = forecast_chart unapproved"
    using g1 [of "''year''"] g1 [of "''predicted_funding''"] g1 [of "''upper_bound''"]
      g1 [of "''lower_bound''"] approved_rename [of "''approved''" unapproved] ap
    by (simp add: forecast_chart_def allYears_def historicalFunding_def predictedFunding_def
        upperBound_def lowerBound_def stitched_def f unapproved_forecast_def)
  have p: "''temporalChart'' \<in> present fresh_page"
    by (simp add: fresh_page_def page_ids_def)
  from p c have b: "createTemporalChart (rename_forecast ''approved_funding'' ''approved'' unapproved)
        ''forecast'' fresh_page
     = createTemporalChart unapproved ''forecast'' fresh_page"
    by (simp add: createTemporalChart_def createForecastChart_def)
  from p have d: "charts (page_of (createTemporalChart unapproved ''forecast'' fresh_page)) ''temporal''
     = Some (forecast_chart unapproved)"
    by (simp add: createTemporalChart_def createForecastChart_def new_chart_def)
  from a b d ap' show ?thesis by (intro conjI)
qed

lemma forecast_chart_renamed:
  assumes j: "j < length (forecastData g)"
  shows "b \<noteq> ''upper_bound'' \<Longrightarrow>
      ds_data (datasets (forecast_chart (rename_forecast ''upper_bound'' b g)) ! 2)
        ! (length (recentHistory g) - 1 + 1 + j) = Undefined"
    and "b \<noteq> ''lower_bound'' \<Longrightarrow>
      ds_data (datasets (forecast_chart (rename_forecast ''lower_bound'' b g)) ! 3)
        ! (length (recentHistory g) - 1 + 1 + j) = Undefined"
    and "b \<noteq> ''approved_funding'' \<Longrightarrow>
      ds_data (datasets (forecast_chart (rename_forecast ''approved_funding'' b g)) ! 4)
        ! (length (recentHistory g) + j) = Null"
  using j
  by (simp_all add: forecast_chart_nth upperBound_def lowerBound_def stitched_rename
      approved_rename nth_append)

lemma forecast_chart_fields:
  assumes j: "j < length (forecastData g)"
  shows "ds_data (datasets (forecast_chart g) ! 2) ! (length (recentHistory g) - 1 + 1 + j)
           = get (forecastData g ! j) ''upper_bound''"
    and "ds_data (datasets (forecast_chart g) ! 3) ! (length (recentHistory g) - 1 + 1 + j)
           = get (forecastData g ! j) ''lower_bound''"
    and "ds_data (datasets (forecast_chart g) ! 4) ! (length (recentHistory g) + j)
           = (if truthy (get (forecastData g ! j) ''approved_funding'')
              then get (forecastData g ! j) ''approved_funding'' else Null)"
proof -
  from j show "ds_data (datasets (forecast_chart g) ! 2) ! (length (recentHistory g) - 1 + 1 + j)
           = get (forecastData g ! j) ''upper_bound''"
    and "ds_data (datasets (forecast_chart g) ! 3) ! (length (recentHistory g) - 1 + 1 + j)
           = get (forecastData g ! j) ''lower_bound''"
    by (simp_all only: forecast_chart_nth upperBound_def lowerBound_def stitched_forecast)
  from j show "ds_data (datasets (forecast_chart g) ! 4) ! (length (recentHistory g) + j)
           = (if truthy (get (forecastData g ! j) ''approved_funding'')
              then get (forecastData g ! j) ''approved_funding'' else Null)"
    by (simp add: forecast_chart_nth approvedFunding_def nth_append or_else_def)
qed

lemma showDrilldown_yearly:
  assumes ty: "ty = ''keyword'' \<or> ty = ''state'' \<or> ty = ''city'' \<or> ty = ''recipient''"
    and d: "drilldown_data g ty nm = Own t"
    and els: "''modalTitle'' \<in> present p" "''modalSubtitle'' \<in> present p"
      "''modalTotalProjects'' \<in> present p" "''modalTotalFunding'' \<in> present p"
      "''drilldownModal'' \<in> present p" "''drilldownChart'' \<in> present p"
  shows "trend.yearly t = None \<Longrightarrow>
      \<exists>q. showDrilldown B g ty nm p = Throw TypeError q \<and> modal_display q = ''flex''
        \<and> drilldownChart q = drilldownChart p"
    and "trend.yearly t = Some ys \<Longrightarrow>
      \<exists>q. showDrilldown B g ty nm p = Return q \<and> modal_display q = ''flex''
        \<and> drilldownChart q = Some (drilldown_chart ys)"
  using showDrilldown_entry [OF ty d els, of B] by (simp_all add: Let_def)

text \<open>
  C3, amended. The chart functions read the fields by exactly these names, and a copied
  field that is renamed is rendered as \<^verbatim>\<open>undefined\<close>: a property under another name
  reads as \<open>Undefined\<close>; a cell of the decade chart is the \<^verbatim>\<open>share_pct\<close> of the
  entry found, and \<open>Undefined\<close> once that field is renamed; in the forecast chart the
  upper and lower series hold the \<^verbatim>\<open>upper_bound\<close> and \<^verbatim>\<open>lower_bound\<close> of the
  forecast entries, and \<open>Undefined\<close> once renamed; the approved series holds
  \<^verbatim>\<open>approved_funding\<close> where it is truthy and \<^verbatim>\<open>null\<close> otherwise, so that renaming
  it changes exactly the points with a value other than zero; the historical series holds
  \<^verbatim>\<open>total_funding\<close>, the monthly chart \<^verbatim>\<open>project_count\<close> and \<^verbatim>\<open>total_funding\<close>;
  and \<open>showDrilldown\<close> builds the drill-down chart from the \<^verbatim>\<open>yearly\<close> of the entry,
  without which it throws after it has displayed the modal.
\<close>

theorem binding_by_field_name:
  "(b \<noteq> a \<longrightarrow> get (rename a b d) a = Undefined)
   \<and> (''decadeMinistryChart'' \<in> present p \<longrightarrow>
        map_option datasets (charts (page_of (createDecadeMinistryChart g p)) ''decadeMinistry'')
          = Some (map (\<lambda>m. \<lparr>ds_label = m, ds_data = map (decade_cell g m) (decades g)\<rparr>)
                    (decade_ministries g)))
   \<and> (find (\<lambda>m. get m ''ministry'' = v)
         (case map_of (decadeData g) decade of None \<Rightarrow> [] | Some es \<Rightarrow> es) = Some ministryInfo
       \<longrightarrow> decade_cell g v decade = get ministryInfo ''share_pct''
         \<and> (b \<noteq> ''share_pct'' \<and> b \<noteq> ''ministry'' \<longrightarrow>
              decade_cell (rename_decades ''share_pct'' b g) v decade = Undefined))
   \<and> (''temporalChart'' \<in> present p \<longrightarrow>
        charts (page_of (createTemporalChart g ''forecast'' p)) ''temporal''
          = Some (forecast_chart g))
   \<and> (j < length (forecastData g) \<longrightarrow>
         ds_data (datasets (forecast_chart g) ! 2) ! (length (recentHistory g) - 1 + 1 + j)
           = get (forecastData g ! j) ''upper_bound''
         \<and> ds_data (datasets (forecast_chart g) ! 3) ! (length (recentHistory g) - 1 + 1 + j)
           = get (forecastData g ! j) ''lower_bound''
         \<and> ds_data (datasets (forecast_chart g) ! 4) ! (length (recentHistory g) + j)
           = (if truthy (get (forecastData g ! j) ''approved_funding'')
              then get (forecastData g ! j) ''approved_funding'' else Null)
         \<and> (b \<noteq> ''upper_bound'' \<longrightarrow>
              ds_data (datasets (forecast_chart (rename_forecast ''upper_bound'' b g)) ! 2)
                ! (length (recentHistory g) - 1 + 1 + j) = Undefined)
         \<and> (b \<noteq> ''lower_bound'' \<longrightarrow>
              ds_data (datasets (forecast_chart (rename_forecast ''lower_bound'' b g)) ! 3)
                ! (length (recentHistory g) - 1 + 1 + j) = Undefined)
         \<and> (b \<noteq> ''approved_funding'' \<longrightarrow>
              ds_data (datasets (forecast_chart (rename_forecast ''approved_funding'' b g)) ! 4)
                ! (length (recentHistory g) + j) = Null))
   \<and> (i < length (recentHistory g) \<longrightarrow>
         ds_data (datasets (forecast_chart g) ! 0) ! i
           = Num (year_row.total_funding (recentHistory g ! i)))
   \<and> (''monthlyChart'' \<in> present p \<and> monthly_distribution (temporal g') = Some ds \<and> ds \<noteq> [] \<longrightarrow>
         (\<exists>p'. createMonthlyChart g' p = Return p'
            \<and> map_option datasets (charts p' ''monthly'')
                = Some [\<lparr>ds_label = Str ''Projects'',
                          ds_data = map (\<lambda>d. get d ''project_count'') ds\<rparr>,
                         \<lparr>ds_label = Str (''Funding ('' @ euro @ '')''),
                          ds_data = map (\<lambda>d. get d ''total_funding'') ds\<rparr>]))
   \<and> ((ty = ''keyword'' \<or> ty = ''state'' \<or> ty = ''city'' \<or> ty = ''recipient'')
        \<and> drilldown_data g ty nm = Own t
        \<and> ''modalTitle'' \<in> present p \<and> ''modalSubtitle'' \<in> present p
        \<and> ''modalTotalProjects'' \<in> present p \<and> ''modalTotalFunding'' \<in> present p
        \<and> ''drilldownModal'' \<in> present p \<and> ''drilldownChart'' \<in> present p \<longrightarrow>
         (trend.yearly t = None \<longrightarrow>
            (\<exists>q. showDrilldown B g ty nm p = Throw TypeError q \<and> modal_display q = ''flex''
               \<and> drilldownChart q = drilldownChart p))
         \<and> (trend.yearly t = Some ys \<longrightarrow>
            (\<exists>q. showDrilldown B g ty nm p = Return q \<and> modal_display q = ''flex''
               \<and> drilldownChart q = Some (drilldown_chart ys))))
   \<and> labels (drilldown_chart ys) = map (\<lambda>d. get d ''year'') ys
   \<and> map ds_data (datasets (drilldown_chart ys))
       = [map (\<lambda>d. get d ''funding'') ys, map (\<lambda>d. get d ''projects'') ys]"
proof (intro conjI impI)
  assume "b \<noteq> a"
  then show "get (rename a b d) a = Undefined" by (rule get_rename_absent)
next
  assume "''decadeMinistryChart'' \<in> present p"
  then show "map_option datasets (charts (page_of (createDecadeMinistryChart g p)) ''decadeMinistry'')
          = Some (map (\<lambda>m. \<lparr>ds_label = m, ds_data = map (decade_cell g m) (decades g)\<rparr>)
                    (decade_ministries g))"
    by (simp add: createDecadeMinistryChart_def new_chart_def)
next
  assume f: "find (\<lambda>m. get m ''ministry'' = v)
         (case map_of (decadeData g) decade of None \<Rightarrow> [] | Some es \<Rightarrow> es) = Some ministryInfo"
  then show "decade_cell g v decade = get ministryInfo ''share_pct''"
    by (rule decade_cell_found)
  assume "b \<noteq> ''share_pct'' \<and> b \<noteq> ''ministry''"
  with f show "decade_cell (rename_decades ''share_pct'' b g) v decade = Undefined"
    by (simp add: decade_cell_renamed)
next
  assume "''temporalChart'' \<in> present p"
  then show "charts (page_of (createTemporalChart g ''forecast'' p)) ''temporal''
          = Some (forecast_chart g)"
    by (simp add: createTemporalChart_def createForecastChart_def new_chart_def)
next
  assume j: "j < length (forecastData g)"
  then show "ds_data (datasets (forecast_chart g) ! 2) ! (length (recentHistory g) - 1 + 1 + j)
           = get (forecastData g ! j) ''upper_bound''"
    by (rule forecast_chart_fields(1))
  from j show "ds_data (datasets (forecast_chart g) ! 3) ! (length (recentHistory g) - 1 + 1 + j)
           = get (forecastData g ! j) ''lower_bound''"
    by (rule forecast_chart_fields(2))
  from j show "ds_data (datasets (forecast_chart g) ! 4) ! (length (recentHistory g) + j)
           = (if truthy (get (forecastData g ! j) ''approved_funding'')
              then get (forecastData g ! j) ''approved_funding'' else Null)"
    by (rule forecast_chart_fields(3))
  {
    assume "b \<noteq> ''upper_bound''"
    with j show "ds_data (datasets (forecast_chart (rename_forecast ''upper_bound'' b g)) ! 2)
                ! (length (recentHistory g) - 1 + 1 + j) = Undefined"
      by (rule forecast_chart_renamed(1))
  }
  {
    assume "b \<noteq> ''lower_bound''"
    with j show "ds_data (datasets (forecast_chart (rename_forecast ''lower_bound'' b g)) ! 3)
                ! (length (recentHistory g) - 1 + 1 + j) = Undefined"
      by (rule forecast_chart_renamed(2))
  }
  {
    assume "b \<noteq> ''approved_funding''"
    with j show "ds_data (datasets (forecast_chart (rename_forecast ''approved_funding'' b g)) ! 4)
                ! (length (recentHistory g) + j) = Null"
      by (rule forecast_chart_renamed(3))
  }
next
  assume "i < length (recentHistory g)"
  then show "ds_data (datasets (forecast_chart g) ! 0) ! i
           = Num (year_row.total_funding (recentHistory g ! i))"
    by (simp add: forecast_chart_def historicalFunding_def nth_append)
next
  assume "''monthlyChart'' \<in> present p \<and> monthly_distribution (temporal g') = Some ds \<and> ds \<noteq> []"
  then show "\<exists>p'. createMonthlyChart g' p = Return p'
            \<and> map_option datasets (charts p' ''monthly'')
                = Some [\<lparr>ds_label = Str ''Projects'',
                          ds_data = map (\<lambda>d. get d ''project_count'') ds\<rparr>,
                         \<lparr>ds_label = Str (''Funding ('' @ euro @ '')''),
                          ds_data = map (\<lambda>d. get d ''total_funding'') ds\<rparr>]"
    by (simp add: createMonthlyChart_def new_chart_def)
next
  assume a: "(ty = ''keyword'' \<or> ty = ''state'' \<or> ty = ''city'' \<or> ty = ''recipient'')
        \<and> drilldown_data g ty nm = Own t
        \<and> ''modalTitle'' \<in> present p \<and> ''modalSubtitle'' \<in> present p
        \<and> ''modalTotalProjects'' \<in> present p \<and> ''modalTotalFunding'' \<in> present p
        \<and> ''drilldownModal'' \<in> present p \<and> ''drilldownChart'' \<in> present p"
  then have ty: "ty = ''keyword'' \<or> ty = ''state'' \<or> ty = ''city'' \<or> ty = ''recipient''"
    and d: "drilldown_data g ty nm = Own t"
    and els: "''modalTitle'' \<in> present p" "''modalSubtitle'' \<in> present p"
      "''modalTotalProjects'' \<in> present p" "''modalTotalFunding'' \<in> present p"
      "''drilldownModal'' \<in> present p" "''drilldownChart'' \<in> present p"
    by blast+
  {
    assume "trend.yearly t = None"
    then show "\<exists>q. showDrilldown B g ty nm p = Throw TypeError q \<and> modal_display q = ''flex''
               \<and> drilldownChart q = drilldownChart p"
      by (rule showDrilldown_yearly(1) [OF ty d els])
  }
  {
    assume "trend.yearly t = Some ys"
    then show "\<exists>q. showDrilldown B g ty nm p = Return q \<and> modal_display q = ''flex''
               \<and> drilldownChart q = Some (drilldown_chart ys)"
      by (rule showDrilldown_yearly(2) [OF ty d els])
  }
next
  show "labels (drilldown_chart ys) = map (\<lambda>d. get d ''year'') ys"
    by (simp add: drilldown_chart_def)
  show "map ds_data (datasets (drilldown_chart ys))
       = [map (\<lambda>d. get d ''funding'') ys, map (\<lambda>d. get d ''projects'') ys]"
    by (simp add: drilldown_chart_def)
qed

lemma demo_recentHistory:
  "recentHistory demo =
      [\<lparr>year = 2015, year_row.total_funding = 400, year_row.project_count = 4\<rparr>,
       \<lparr>year = 2025, year_row.total_funding = 500, year_row.project_count = 5\<rparr>]"
  by (simp add: recentHistory_def demo_def demo_forecast_def demo_temporal_def)

lemma demo_forecastData:
  "forecastData demo =
        [[(''year'', Num 2026), (''predicted_funding'', Num 550), (''lower_bound'', Num 450),
          (''upper_bound'', Num 650), (''approved_funding'', Num 120)],
         [(''year'', Num 2027), (''predicted_funding'', Num 560), (''lower_bound'', Num 400),
          (''upper_bound'', Num 720), (''approved_funding'', Num 0)]]"
  by (simp add: forecastData_def demo_def demo_forecast_def)

theorem binding_by_field_name_witness:
  "get (rename ''upper_bound'' ''renamed'' (hd (forecastData demo))) ''upper_bound'' = Undefined
   \<and> decade_cell demo (Str ''BMWE'') ''2010'' = Num 40
   \<and> decade_cell (rename_decades ''share_pct'' ''renamed'' demo) (Str ''BMWE'') ''2010'' = Undefined
   \<and> charts (page_of (createTemporalChart demo ''forecast'' fresh_page)) ''temporal''
       = Some (forecast_chart demo)
   \<and> ds_data (datasets (forecast_chart demo) ! 2) ! 2 = Num 650
   \<and> ds_data (datasets (forecast_chart demo) ! 3) ! 2 = Num 450
   \<and> ds_data (datasets (forecast_chart demo) ! 4) ! 2 = Num 120
   \<and> ds_data (datasets (forecast_chart (rename_forecast ''upper_bound'' ''renamed'' demo)) ! 2) ! 2
       = Undefined
   \<and> ds_data (datasets (forecast_chart (rename_forecast ''lower_bound'' ''renamed'' demo)) ! 3) ! 2
       = Undefined
   \<and> ds_data (datasets (forecast_chart (rename_forecast ''approved_funding'' ''renamed'' demo)) ! 4) ! 2
       = Null
   \<and> ds_data (datasets (forecast_chart demo) ! 0) ! 0 = Num 400
   \<and> (\<exists>p'. createMonthlyChart demo_months fresh_page = Return p'
         \<and> map_option datasets (charts p' ''monthly'')
             = Some [\<lparr>ds_label = Str ''Projects'', ds_data = [Num 2]\<rparr>,
                      \<lparr>ds_label = Str (''Funding ('' @ euro @ '')''), ds_data = [Num 700]\<rparr>])
   \<and> (\<exists>q. showDrilldown sample_builtins demo_without_yearly ''city'' ''Berlin'' fresh_page
              = Throw TypeError q
         \<and> modal_display q = ''flex'' \<and> drilldownChart q = None)
   \<and> (\<exists>q. showDrilldown sample_builtins demo ''city'' ''Berlin'' fresh_page = Return q
         \<and> modal_display q = ''flex''
         \<and> drilldownChart q
             = Some (drilldown_chart [[(''year'', Num 2020), (''funding'', Num 900000),
                                        (''projects'', Num 2)]]))"
proof -
  let ?info = "[(''ministry'', Str ''BMWE''), (''share_pct'', Num 40)]"
  let ?ds = "[[(''month_name'', Str ''January''), (''project_count'', Num 2),
               (''total_funding'', Num 700)]]"
  let ?ys = "[[(''year'', Num 2020), (''funding'', Num 900000), (''projects'', Num 2)]]"
  note T = binding_by_field_name [where b = "''renamed''" and a = "''upper_bound''"
      and d = "hd (forecastData demo)" and v = "Str ''BMWE''" and g = demo and decade = "''2010''"
      and ministryInfo = ?info and j = 0 and i = 0 and p = fresh_page and g' = demo_months
      and ds = ?ds and ty = "''city''" and nm = "''Berlin''" and t = demo_trend and ys = ?ys
      and B = sample_builtins]
  note U = binding_by_field_name [where g = demo_without_yearly and p = fresh_page
      and ty = "''city''" and nm = "''Berlin''" and t = "demo_trend\<lparr>yearly := None\<rparr>"
      and B = sample_builtins]
  have n: "length (recentHistory demo) = 2"
    by (simp add: demo_recentHistory)
  have f: "find (\<lambda>m. get m ''ministry'' = Str ''BMWE'')
         (case map_of (decadeData demo) ''2010'' of None \<Rightarrow> [] | Some es \<Rightarrow> es) = Some ?info"
    by (simp add: decadeData_def demo_def demo_temporal_def get_def)
  have m: "''monthlyChart'' \<in> present fresh_page \<and> monthly_distribution (temporal demo_months) = Some ?ds
      \<and> ?ds \<noteq> []"
    by (simp add: demo_months_def fresh_page_def page_ids_def)
  have c: "''temporalChart'' \<in> present fresh_page"
    by (simp add: fresh_page_def page_ids_def)
  have r0: "recentHistory demo ! 0
      = \<lparr>year = 2015, year_row.total_funding = 400, year_row.project_count = 4\<rparr>"
    by (simp add: demo_recentHistory)
  have e: "drilldown_data demo_without_yearly ''city'' ''Berlin'' = Own (demo_trend\<lparr>yearly := None\<rparr>)"
    by (simp add: drilldown_data_def entity_lookup_def property_of_def demo_without_yearly_def)
  have y: "trend.yearly (demo_trend\<lparr>yearly := None\<rparr>) = None" "trend.yearly demo_trend = Some ?ys"
    by (simp_all add: demo_trend_def)
  have dc: "drilldownChart fresh_page = None" by (simp add: fresh_page_def)
  from T have "get (rename ''upper_bound'' ''renamed'' (hd (forecastData demo))) ''upper_bound'' = Undefined"
    by simp
  moreover from T f have "decade_cell demo (Str ''BMWE'') ''2010'' = Num 40"
    "decade_cell (rename_decades ''share_pct'' ''renamed'' demo) (Str ''BMWE'') ''2010'' = Undefined"
    by (simp_all add: get_def)
  moreover from T c have "charts (page_of (createTemporalChart demo ''forecast'' fresh_page)) ''temporal''
       = Some (forecast_chart demo)"
    by blast
  moreover from T n have "ds_data (datasets (forecast_chart demo) ! 2) ! 2 = Num 650"
    "ds_data (datasets (forecast_chart demo) ! 3) ! 2 = Num 450"
    "ds_data (datasets (forecast_chart demo) ! 4) ! 2 = Num 120"
    "ds_data (datasets (forecast_chart (rename_forecast ''upper_bound'' ''renamed'' demo)) ! 2) ! 2
       = Undefined"
    "ds_data (datasets (forecast_chart (rename_forecast ''lower_bound'' ''renamed'' demo)) ! 3) ! 2
       = Undefined"
    "ds_data (datasets (forecast_chart (rename_forecast ''approved_funding'' ''renamed'' demo)) ! 4) ! 2
       = Null"
    by (simp_all add: demo_forecastData get_def numeral_2_eq_2)
  moreover from T n r0 have "ds_data (datasets (forecast_chart demo) ! 0) ! 0 = Num 400"
    by simp
  moreover from T m have "\<exists>p'. createMonthlyChart demo_months fresh_page = Return p'
         \<and> map_option datasets (charts p' ''monthly'')
             = Some [\<lparr>ds_label = Str ''Projects'', ds_data = [Num 2]\<rparr>,
                      \<lparr>ds_label = Str (''Funding ('' @ euro @ '')''), ds_data = [Num 700]\<rparr>]"
    by (simp add: get_def)
  moreover from U e y(1) fresh_page_has dc
  have "\<exists>q. showDrilldown sample_builtins demo_without_yearly ''city'' ''Berlin'' fresh_page
              = Throw TypeError q
         \<and> modal_display q = ''flex'' \<and> drilldownChart q = None"
    by simp
  moreover from T demo_city_data y(2) fresh_page_has
  have "\<exists>q. showDrilldown sample_builtins demo ''city'' ''Berlin'' fresh_page = Return q
         \<and> modal_display q = ''flex'' \<and> drilldownChart q = Some (drilldown_chart ?ys)"
    by simp
  ultimately show ?thesis by (intro conjI)
qed

subsection \<open>Documents and charts\<close>

lemma fetch_urls:
  "map (fetch S) urls =
     [map_option SummaryStats (summary_stats_json S),
      map_option MinistryFunding (ministry_funding_json S),
      map_option GeographicDistribution (geographic_distribution_json S),
      map_option TemporalTrends (temporal_trends_json S),
      map_option TopRecipients (top_recipients_json S),
      map_option TopicAnalysis (topic_analysis_json S),
      map_option DurationAnalysis (duration_analysis_json S),
      map_option FundingTypes (funding_types_json S),
      map_option JointProjects (joint_projects_json S),
      map_option Projekttraeger (projekttraeger_json S),
      map_option KeywordTrends (keyword_trends_json S),
      map_option EntityTrends (entity_trends_json S),
      map_option FundingForecast (funding_forecast_json S)]"
  by (simp add: urls_def files_def fetch_def)

lemma assign_fetched:
  "Option.bind (those (map (fetch S) urls)) assign = served S"
  unfolding fetch_urls served_def
  by (simp add: assign_def Option.bind_eq_None_conv split: option.splits)

lemma loadData_served:
  "loadData B S p =
     (case served S of
        None \<Rightarrow> error_loading (p\<lparr>requests := requests p @ urls\<rparr>)
      | Some g \<Rightarrow>
          (case initializeDashboard B g (p\<lparr>requests := requests p @ urls\<rparr>) of
             Return q \<Rightarrow> Return q
           | Throw e q \<Rightarrow> error_loading q))"
proof (cases "those (map (fetch S) urls)")
  case None
  then have "served S = None"
    using assign_fetched [of S] by simp
  with None show ?thesis by (simp add: loadData_def)
next
  case (Some rs)
  then have "served S = assign rs"
    using assign_fetched [of S] by simp
  with Some show ?thesis by (simp add: loadData_def Let_def)
qed

lemma served_None:
  "served S = None \<longleftrightarrow>
     summary_stats_json S = None \<or> ministry_funding_json S = None
     \<or> geographic_distribution_json S = None \<or> temporal_trends_json S = None
     \<or> top_recipients_json S = None \<or> topic_analysis_json S = None
     \<or> duration_analysis_json S = None \<or> funding_types_json S = None
     \<or> joint_projects_json S = None \<or> projekttraeger_json S = None
     \<or> keyword_trends_json S = None \<or> entity_trends_json S = None
     \<or> funding_forecast_json S = None"
  by (simp add: served_def Option.bind_eq_None_conv)

lemma charts_error_loading: "charts (page_of (error_loading p)) = charts p"
  by (simp add: error_loading_def Let_def)

lemma loadData_nothing:
  assumes "served S = None"
  shows "charts (page_of (loadData B S p)) = charts p"
    and "''.main-content'' \<in> present p \<Longrightarrow>
      loadData B S p =
        Return (p\<lparr>requests := requests p @ urls,
                 console := console p @ [Error [''Error loading data:'']],
                 innerHTML := (innerHTML p)(''.main-content'' \<mapsto> ErrorLoadingData)\<rparr>)"
  using assms by (simp_all add: loadData_served error_loading_def Let_def)

lemma reads_summary:
  "summary g = summary g' \<Longrightarrow> updateOverviewCards B g p = updateOverviewCards B g' p"
  "summary g = summary g' \<Longrightarrow> updateLastUpdate B g p = updateLastUpdate B g' p"
  by (simp_all add: updateOverviewCards_def updateLastUpdate_def)

lemma reads_temporal:
  "temporal g = temporal g' \<Longrightarrow> rng \<noteq> ''forecast'' \<Longrightarrow>
     createTemporalChart g rng p = createTemporalChart g' rng p"
  "temporal g = temporal g' \<Longrightarrow> createMonthlyChart g p = createMonthlyChart g' p"
  by (simp_all add: createTemporalChart_def temporal_data_def createMonthlyChart_def)

lemma reads_decades:
  "temporal g = temporal g' \<Longrightarrow> createDecadeMinistryChart g p = createDecadeMinistryChart g' p"
  by (simp add: createDecadeMinistryChart_def decades_def decade_ministries_def
      decade_cell_def [abs_def] decadeData_def)

lemma reads_temporal_forecast:
  assumes "temporal g = temporal g'" and "forecast g = forecast g'"
  shows "createForecastChart g p = createForecastChart g' p"
    and "createTemporalChart g rng p = createTemporalChart g' rng p"
proof -
  show f: "\<And>q. createForecastChart g q = createForecastChart g' q"
    using assms
    by (simp add: createForecastChart_def
        forecast_chart_def allYears_def historicalFunding_def predictedFunding_def
        upperBound_def lowerBound_def approvedFunding_def stitched_def lastHistoricalValue_eq
        recentHistory_def forecastData_def)
  show "createTemporalChart g rng p = createTemporalChart g' rng p"
  proof (cases "rng = ''forecast''")
    case True
    then show ?thesis by (simp add: createTemporalChart_def f)
  next
    case False
    with assms(1) show ?thesis by (rule reads_temporal(1))
  qed
qed

lemma reads_ministry:
  "ministry g = ministry g' \<Longrightarrow> createMinistryChart g p = createMinistryChart g' p"
  by (simp add: createMinistryChart_def)

lemma reads_geographic:
  "geographic g = geographic g' \<Longrightarrow> createInternationalChart g p = createInternationalChart g' p"
  "geographic g = geographic g' \<Longrightarrow> createGeoChart g mode p = createGeoChart g' mode p"
  "geographic g = geographic g' \<Longrightarrow> createCityChart g p = createCityChart g' p"
  by (simp_all add: createInternationalChart_def createGeoChart_def geo_rows_def
      createCityChart_def)

lemma reads_recipients:
  "recipients g = recipients g' \<Longrightarrow> createRecipientChart g p = createRecipientChart g' p"
  by (simp add: createRecipientChart_def)

lemma reads_fundingTypes:
  "fundingTypes g = fundingTypes g' \<Longrightarrow> createFundingTypeChart g p = createFundingTypeChart g' p"
  "fundingTypes g = fundingTypes g' \<Longrightarrow> createFoerderprofilChart g p = createFoerderprofilChart g' p"
  by (simp_all add: createFundingTypeChart_def createFoerderprofilChart_def)

lemma reads_duration:
  "duration g = duration g' \<Longrightarrow> createDurationChart g p = createDurationChart g' p"
  by (simp add: createDurationChart_def)

lemma reads_topics:
  "topics g = topics g' \<Longrightarrow> createTopicChart g p = createTopicChart g' p"
  by (simp add: createTopicChart_def)

lemma reads_jointProjects:
  "jointProjects g = jointProjects g' \<Longrightarrow> createJointChart g p = createJointChart g' p"
  by (simp add: createJointChart_def)

lemma reads_projekttraeger:
  "projekttraeger g = projekttraeger g' \<Longrightarrow>
     createProjekttraegerChart g p = createProjekttraegerChart g' p"
  by (simp add: createProjekttraegerChart_def)

lemma reads_topics_keywordTrends:
  "topics g = topics g' \<Longrightarrow> keywordTrends g = keywordTrends g' \<Longrightarrow>
     createKeywordsCloud B g p = createKeywordsCloud B g' p"
  by (simp add: createKeywordsCloud_def keyword_tag_of_def [abs_def] keyword_lookup_def)

lemma reads_recipients_entityTrends:
  "recipients g = recipients g' \<Longrightarrow> entityTrends g = entityTrends g' \<Longrightarrow>
     populateRecipientsTable B g sortBy p = populateRecipientsTable B g' sortBy p"
  by (simp add: populateRecipientsTable_def table_row_of_def [abs_def] entity_lookup_def)

lemma served_demo: "served demo_server = Some demo"
  by (simp add: served_def demo_server_def demo_def)

lemma served_without_duration: "served server_without_duration = None"
  by (simp add: served_None server_without_duration_def)

lemma main_content_fresh: "''.main-content'' \<in> present fresh_page"
  by (simp add: fresh_page_def page_ids_def)

lemma forecast_labels:
  "map_option labels (charts (page_of (createForecastChart g p)) ''temporal'') = Some (allYears g)"
  by (simp add: createForecastChart_def new_chart_def forecast_chart_def)

lemma allYears_demo: "allYears demo = [Num 2015, Num 2025, Num 2026, Num 2027]"
  by (simp add: allYears_def recentHistory_def forecastData_def demo_def demo_temporal_def
      demo_forecast_def get_def)

lemma allYears_other_forecast: "allYears other_forecast = [Num 2015, Num 2025]"
  by (simp add: allYears_def recentHistory_def forecastData_def other_forecast_def demo_def
      demo_temporal_def)

lemma allYears_other_temporal: "allYears other_temporal = [Num 2026, Num 2027]"
  by (simp add: allYears_def recentHistory_def forecastData_def other_temporal_def demo_def
      demo_forecast_def get_def)

text \<open>
  C2 as stated fails twice. The forecast chart reads two documents: with the same
  temporal document and another forecast document it differs, and with the same
  forecast document and another temporal document it differs as well. And one failed
  request stops everything: on a server that has the ministry document and lacks the
  duration document, \<open>loadData\<close> builds no ministry chart, which
  \<open>createMinistryChart\<close> builds from the ministry document alone.
\<close>

theorem independent_documents_counterexample:
  "temporal other_forecast = temporal demo
   \<and> createForecastChart other_forecast fresh_page \<noteq> createForecastChart demo fresh_page
   \<and> forecast other_temporal = forecast demo
   \<and> createForecastChart other_temporal fresh_page \<noteq> createForecastChart demo fresh_page
   \<and> ministry_funding_json server_without_duration = Some demo_ministry
   \<and> duration_analysis_json server_without_duration = None
   \<and> charts (page_of (loadData sample_builtins server_without_duration fresh_page)) ''ministry''
       = None
   \<and> charts (page_of (createMinistryChart demo fresh_page)) ''ministry'' \<noteq> None"
proof -
  have a: "temporal other_forecast = temporal demo" "forecast other_temporal = forecast demo"
    by (simp_all add: other_forecast_def other_temporal_def)
  have b: "createForecastChart other_forecast fresh_page \<noteq> createForecastChart demo fresh_page"
  proof
    assume "createForecastChart other_forecast fresh_page = createForecastChart demo fresh_page"
    then have "Some (allYears other_forecast) = Some (allYears demo)"
      using forecast_labels [of other_forecast fresh_page] forecast_labels [of demo fresh_page]
      by simp
    then show False by (simp add: allYears_demo allYears_other_forecast)
  qed
  have c: "createForecastChart other_temporal fresh_page \<noteq> createForecastChart demo fresh_page"
  proof
    assume "createForecastChart other_temporal fresh_page = createForecastChart demo fresh_page"
    then have "Some (allYears other_temporal) = Some (allYears demo)"
      using forecast_labels [of other_temporal fresh_page] forecast_labels [of demo fresh_page]
      by simp
    then show False by (simp add: allYears_demo allYears_other_temporal)
  qed
  have d: "ministry_funding_json server_without_duration = Some demo_ministry"
    "duration_analysis_json server_without_duration = None"
    by (simp_all add: server_without_duration_def demo_server_def)
  have "charts (page_of (loadData sample_builtins server_without_duration fresh_page))
      = charts fresh_page"
    using served_without_duration by (rule loadData_nothing(1))
  then have e: "charts (page_of (loadData sample_builtins server_without_duration fresh_page))
      ''ministry'' = None"
    by (simp add: fresh_page_def)
  have "''ministryChart'' \<in> present fresh_page"
    by (simp add: fresh_page_def page_ids_def)
  then have f: "charts (page_of (createMinistryChart demo fresh_page)) ''ministry'' \<noteq> None"
    by (simp add: createMinistryChart_def new_chart_def Let_def)
  from a(1) b a(2) c d e f show ?thesis by (intro conjI)
qed

text \<open>
  C2, amended. Loading is all or nothing: when any of the thirteen documents fails to
  load, \<open>loadData\<close> leaves \<^verbatim>\<open>charts\<close> as it was and puts the error panel into
  \<^verbatim>\<open>.main-content\<close>; when all load, it runs \<open>initializeDashboard\<close> on them. Each
  chart is a function of one document, the forecast chart of two (temporal and
  forecast); the keyword cloud and the recipients table read their document and the
  drill-down document in which they look their names up.
\<close>

theorem load_all_or_nothing:
  "(served S = None \<longrightarrow>
      charts (page_of (loadData B S p)) = charts p
      \<and> (''.main-content'' \<in> present p \<longrightarrow>
           innerHTML (page_of (loadData B S p)) ''.main-content'' = Some ErrorLoadingData))
   \<and> (served S = None \<longleftrightarrow>
        summary_stats_json S = None \<or> ministry_funding_json S = None
        \<or> geographic_distribution_json S = None \<or> temporal_trends_json S = None
        \<or> top_recipients_json S = None \<or> topic_analysis_json S = None
        \<or> duration_analysis_json S = None \<or> funding_types_json S = None
        \<or> joint_projects_json S = None \<or> projekttraeger_json S = None
        \<or> keyword_trends_json S = None \<or> entity_trends_json S = None
        \<or> funding_forecast_json S = None)
   \<and> (served S' = Some g \<longrightarrow>
        loadData B S' p =
          (case initializeDashboard B g (p\<lparr>requests := requests p @ urls\<rparr>) of
             Return q \<Rightarrow> Return q
           | Throw e q \<Rightarrow> error_loading q))
   \<and> (temporal g = temporal g' \<and> forecast g = forecast g' \<longrightarrow>
        createForecastChart g p = createForecastChart g' p
        \<and> createTemporalChart g rng p = createTemporalChart g' rng p)
   \<and> (temporal g = temporal g' \<longrightarrow>
        (rng \<noteq> ''forecast'' \<longrightarrow> createTemporalChart g rng p = createTemporalChart g' rng p)
        \<and> createMonthlyChart g p = createMonthlyChart g' p
        \<and> createDecadeMinistryChart g p = createDecadeMinistryChart g' p)
   \<and> (ministry g = ministry g' \<longrightarrow> createMinistryChart g p = createMinistryChart g' p)
   \<and> (geographic g = geographic g' \<longrightarrow>
        createInternationalChart g p = createInternationalChart g' p
        \<and> createGeoChart g mode p = createGeoChart g' mode p
        \<and> createCityChart g p = createCityChart g' p)
   \<and> (recipients g = recipients g' \<longrightarrow> createRecipientChart g p = createRecipientChart g' p)
   \<and> (fundingTypes g = fundingTypes g' \<longrightarrow>
        createFundingTypeChart g p = createFundingTypeChart g' p
        \<and> createFoerderprofilChart g p = createFoerderprofilChart g' p)
   \<and> (duration g = duration g' \<longrightarrow> createDurationChart g p = createDurationChart g' p)
   \<and> (topics g = topics g' \<longrightarrow> createTopicChart g p = createTopicChart g' p)
   \<and> (jointProjects g = jointProjects g' \<longrightarrow> createJointChart g p = createJointChart g' p)
   \<and> (projekttraeger g = projekttraeger g' \<longrightarrow>
        createProjekttraegerChart g p = createProjekttraegerChart g' p)
   \<and> (topics g = topics g' \<and> keywordTrends g = keywordTrends g' \<longrightarrow>
        createKeywordsCloud B g p = createKeywordsCloud B g' p)
   \<and> (recipients g = recipients g' \<and> entityTrends g = entityTrends g' \<longrightarrow>
        populateRecipientsTable B g sortBy p = populateRecipientsTable B g' sortBy p)"
proof (intro conjI impI)
  assume n: "served S = None"
  then show "charts (page_of (loadData B S p)) = charts p"
    by (rule loadData_nothing(1))
  assume "''.main-content'' \<in> present p"
  with n show "innerHTML (page_of (loadData B S p)) ''.main-content'' = Some ErrorLoadingData"
    by (simp add: loadData_nothing(2))
next
  show "served S = None \<longleftrightarrow>
        summary_stats_json S = None \<or> ministry_funding_json S = None
        \<or> geographic_distribution_json S = None \<or> temporal_trends_json S = None
        \<or> top_recipients_json S = None \<or> topic_analysis_json S = None
        \<or> duration_analysis_json S = None \<or> funding_types_json S = None
        \<or> joint_projects_json S = None \<or> projekttraeger_json S = None
        \<or> keyword_trends_json S = None \<or> entity_trends_json S = None
        \<or> funding_forecast_json S = None"
    by (rule served_None)
next
  assume "served S' = Some g"
  then show "loadData B S' p =
          (case initializeDashboard B g (p\<lparr>requests := requests p @ urls\<rparr>) of
             Return q \<Rightarrow> Return q
           | Throw e q \<Rightarrow> error_loading q)"
    by (simp add: loadData_served)
next
  assume "temporal g = temporal g' \<and> forecast g = forecast g'"
  then have a: "temporal g = temporal g'" "forecast g = forecast g'"
    by (rule conjunct1, rule conjunct2)
  from a show "createForecastChart g p = createForecastChart g' p"
    by (rule reads_temporal_forecast(1))
  from a show "createTemporalChart g rng p = createTemporalChart g' rng p"
    by (rule reads_temporal_forecast(2))
next
  assume a: "temporal g = temporal g'"
  then show "createMonthlyChart g p = createMonthlyChart g' p"
    by (rule reads_temporal(2))
  from a show "createDecadeMinistryChart g p = createDecadeMinistryChart g' p"
    by (rule reads_decades)
  assume "rng \<noteq> ''forecast''"
  with a show "createTemporalChart g rng p = createTemporalChart g' rng p"
    by (rule reads_temporal(1))
next
  assume "ministry g = ministry g'"
  then show "createMinistryChart g p = createMinistryChart g' p"
    by (rule reads_ministry)
next
  assume a: "geographic g = geographic g'"
  then show "createInternationalChart g p = createInternationalChart g' p"
    by (rule reads_geographic(1))
  from a show "createGeoChart g mode p = createGeoChart g' mode p"
    by (rule reads_geographic(2))
  from a show "createCityChart g p = createCityChart g' p"
    by (rule reads_geographic(3))
next
  assume "recipients g = recipients g'"
  then show "createRecipientChart g p = createRecipientChart g' p"
    by (rule reads_recipients)
next
  assume a: "fundingTypes g = fundingTypes g'"
  then show "createFundingTypeChart g p = createFundingTypeChart g' p"
    by (rule reads_fundingTypes(1))
  from a show "createFoerderprofilChart g p = createFoerderprofilChart g' p"
    by (rule reads_fundingTypes(2))
next
  assume "duration g = duration g'"
  then show "createDurationChart g p = createDurationChart g' p"
    by (rule reads_duration)
next
  assume "topics g = topics g'"
  then show "createTopicChart g p = createTopicChart g' p"
    by (rule reads_topics)
next
  assume "jointProjects g = jointProjects g'"
  then show "createJointChart g p = createJointChart g' p"
    by (rule reads_jointProjects)
next
  assume "projekttraeger g = projekttraeger g'"
  then show "createProjekttraegerChart g p = createProjekttraegerChart g' p"
    by (rule reads_projekttraeger)
next
  assume "topics g = topics g' \<and> keywordTrends g = keywordTrends g'"
  then have "topics g = topics g'" "keywordTrends g = keywordTrends g'"
    by (rule conjunct1, rule conjunct2)
  then show "createKeywordsCloud B g p = createKeywordsCloud B g' p"
    by (rule reads_topics_keywordTrends)
next
  assume "recipients g = recipients g' \<and> entityTrends g = entityTrends g'"
  then have "recipients g = recipients g'" "entityTrends g = entityTrends g'"
    by (rule conjunct1, rule conjunct2)
  then show "populateRecipientsTable B g sortBy p = populateRecipientsTable B g' sortBy p"
    by (rule reads_recipients_entityTrends)
qed

theorem load_all_or_nothing_witness:
  "served server_without_duration = None
   \<and> charts (page_of (loadData sample_builtins server_without_duration fresh_page)) = Map.empty
   \<and> innerHTML (page_of (loadData sample_builtins server_without_duration fresh_page))
        ''.main-content'' = Some ErrorLoadingData
   \<and> served demo_server = Some demo
   \<and> loadData sample_builtins demo_server fresh_page =
        (case initializeDashboard sample_builtins demo
                (fresh_page\<lparr>requests := requests fresh_page @ urls\<rparr>) of
           Return q \<Rightarrow> Return q
         | Throw e q \<Rightarrow> error_loading q)
   \<and> summary demo \<noteq> summary other_summary
   \<and> createForecastChart demo fresh_page = createForecastChart other_summary fresh_page
   \<and> createTemporalChart demo ''all'' fresh_page = createTemporalChart other_summary ''all'' fresh_page
   \<and> createMonthlyChart demo fresh_page = createMonthlyChart other_summary fresh_page
   \<and> createDecadeMinistryChart demo fresh_page = createDecadeMinistryChart other_summary fresh_page
   \<and> createMinistryChart demo fresh_page = createMinistryChart other_summary fresh_page
   \<and> createInternationalChart demo fresh_page = createInternationalChart other_summary fresh_page
   \<and> createGeoChart demo ''total'' fresh_page = createGeoChart other_summary ''total'' fresh_page
   \<and> createCityChart demo fresh_page = createCityChart other_summary fresh_page
   \<and> createRecipientChart demo fresh_page = createRecipientChart other_summary fresh_page
   \<and> createFundingTypeChart demo fresh_page = createFundingTypeChart other_summary fresh_page
   \<and> createFoerderprofilChart demo fresh_page = createFoerderprofilChart other_summary fresh_page
   \<and> createDurationChart demo fresh_page = createDurationChart other_summary fresh_page
   \<and> createTopicChart demo fresh_page = createTopicChart other_summary fresh_page
   \<and> createJointChart demo fresh_page = createJointChart other_summary fresh_page
   \<and> createProjekttraegerChart demo fresh_page = createProjekttraegerChart other_summary fresh_page
   \<and> createKeywordsCloud sample_builtins demo fresh_page
        = createKeywordsCloud sample_builtins other_summary fresh_page
   \<and> populateRecipientsTable sample_builtins demo ''funding'' fresh_page
        = populateRecipientsTable sample_builtins other_summary ''funding'' fresh_page"
proof -
  note T = load_all_or_nothing [where S = server_without_duration and B = sample_builtins
      and p = fresh_page and S' = demo_server and g = demo and g' = other_summary
      and rng = "''all''" and mode = "''total''" and sortBy = "''funding''"]
  have same: "temporal demo = temporal other_summary" "forecast demo = forecast other_summary"
    "ministry demo = ministry other_summary" "geographic demo = geographic other_summary"
    "recipients demo = recipients other_summary" "fundingTypes demo = fundingTypes other_summary"
    "duration demo = duration other_summary" "topics demo = topics other_summary"
    "jointProjects demo = jointProjects other_summary"
    "projekttraeger demo = projekttraeger other_summary"
    "keywordTrends demo = keywordTrends other_summary"
    "entityTrends demo = entityTrends other_summary"
    by (simp_all add: other_summary_def)
  have diff: "summary demo \<noteq> summary other_summary"
    by (simp add: other_summary_def demo_def demo_summary_def)
  have c: "charts fresh_page = Map.empty"
    by (simp add: fresh_page_def)
  have r: "''all'' \<noteq> ''forecast''"
    by simp
  show ?thesis
    using T served_without_duration served_demo main_content_fresh same diff c r
    by presburger
qed

subsection \<open>Conservation\<close>











end
